theory Spec2Isabelle
  imports Complex_Main "HOL-Library.Signed_Division"
begin

section \<open>Qt value types\<close>

text \<open>
  The layout engine of \<^verbatim>\<open>Item.cpp\<close> computes with Qt's integer geometry.  A \<^verbatim>\<open>QRect\<close>
  is kept as position and extent; its inclusive far edges are \<open>x + width - 1\<close> and
  \<open>y + height - 1\<close>, as in Qt.  C++ \<^verbatim>\<open>int\<close> is modelled by \<^typ>\<open>int\<close>, C++ integer
  division by \<open>sdiv\<close> (truncation towards zero).  A C++ \<^verbatim>\<open>int\<close> has 32 bits: the sums and
  differences of \<^verbatim>\<open>SizingInfo\<close>, \<^verbatim>\<open>LengthOnSide\<close>, \<^verbatim>\<open>lengthOnSide\<close> and \<^verbatim>\<open>growItem\<close>, which
  are computed from sizes that nothing bounds, wrap around as in the compiled code
  (\<open>int_wrap\<close>); the geometry of a layout on a screen stays far below \<open>2^31\<close>.
\<close>

definition int_wrap :: "int \<Rightarrow> int" where
  "int_wrap x = (x + 2147483648) mod 4294967296 - 2147483648"

datatype orientation = Horizontal | Vertical

datatype qpoint = QPoint (point_x: int) (point_y: int)

datatype qsize = QSize (size_width: int) (size_height: int)

datatype qrect = QRect (rect_x: int) (rect_y: int) (rect_width: int) (rect_height: int)

definition QPoint_plus :: "qpoint \<Rightarrow> qpoint \<Rightarrow> qpoint" where
  "QPoint_plus p q = QPoint (point_x p + point_x q) (point_y p + point_y q)"

definition QPoint_minus :: "qpoint \<Rightarrow> qpoint \<Rightarrow> qpoint" where
  "QPoint_minus p q = QPoint (point_x p - point_x q) (point_y p - point_y q)"

definition QSize_plus :: "qsize \<Rightarrow> qsize \<Rightarrow> qsize" where
  "QSize_plus a b = QSize (size_width a + size_width b) (size_height a + size_height b)"

definition QSize_minus :: "qsize \<Rightarrow> qsize \<Rightarrow> qsize" where
  "QSize_minus a b = QSize (size_width a - size_width b) (size_height a - size_height b)"

definition QSize_expandedTo :: "qsize \<Rightarrow> qsize \<Rightarrow> qsize" where
  "QSize_expandedTo a b = QSize (max (size_width a) (size_width b)) (max (size_height a) (size_height b))"

definition QSize_isNull :: "qsize \<Rightarrow> bool" where
  "QSize_isNull s = (size_width s = 0 \<and> size_height s = 0)"

definition QRect_null :: qrect where
  "QRect_null = QRect 0 0 0 0"

definition QRect_topLeft :: "qrect \<Rightarrow> qpoint" where
  "QRect_topLeft r = QPoint (rect_x r) (rect_y r)"

definition QRect_size :: "qrect \<Rightarrow> qsize" where
  "QRect_size r = QSize (rect_width r) (rect_height r)"

definition QRect_right :: "qrect \<Rightarrow> int" where
  "QRect_right r = rect_x r + rect_width r - 1"

definition QRect_bottom :: "qrect \<Rightarrow> int" where
  "QRect_bottom r = rect_y r + rect_height r - 1"

definition QRect_isNull :: "qrect \<Rightarrow> bool" where
  "QRect_isNull r = (rect_width r = 0 \<and> rect_height r = 0)"

definition QRect_isEmpty :: "qrect \<Rightarrow> bool" where
  "QRect_isEmpty r = (rect_width r \<le> 0 \<or> rect_height r \<le> 0)"

definition QRect_setSize :: "qrect \<Rightarrow> qsize \<Rightarrow> qrect" where
  "QRect_setSize r s = QRect (rect_x r) (rect_y r) (size_width s) (size_height s)"

definition QRect_setWidth :: "qrect \<Rightarrow> int \<Rightarrow> qrect" where
  "QRect_setWidth r w = QRect (rect_x r) (rect_y r) w (rect_height r)"

definition QRect_setHeight :: "qrect \<Rightarrow> int \<Rightarrow> qrect" where
  "QRect_setHeight r h = QRect (rect_x r) (rect_y r) (rect_width r) h"

definition QRect_moveLeft :: "qrect \<Rightarrow> int \<Rightarrow> qrect" where
  "QRect_moveLeft r p = QRect p (rect_y r) (rect_width r) (rect_height r)"

definition QRect_moveTop :: "qrect \<Rightarrow> int \<Rightarrow> qrect" where
  "QRect_moveTop r p = QRect (rect_x r) p (rect_width r) (rect_height r)"

definition QRect_moveTopLeft :: "qrect \<Rightarrow> qpoint \<Rightarrow> qrect" where
  "QRect_moveTopLeft r p = QRect (point_x p) (point_y p) (rect_width r) (rect_height r)"

text \<open>\<^verbatim>\<open>setLeft\<close>, \<^verbatim>\<open>setTop\<close>, \<^verbatim>\<open>setRight\<close>, \<^verbatim>\<open>setBottom\<close> move one edge and keep the opposite one.\<close>

definition QRect_setLeft :: "qrect \<Rightarrow> int \<Rightarrow> qrect" where
  "QRect_setLeft r p = QRect p (rect_y r) (rect_x r + rect_width r - p) (rect_height r)"

definition QRect_setTop :: "qrect \<Rightarrow> int \<Rightarrow> qrect" where
  "QRect_setTop r p = QRect (rect_x r) p (rect_width r) (rect_y r + rect_height r - p)"

definition QRect_setRight :: "qrect \<Rightarrow> int \<Rightarrow> qrect" where
  "QRect_setRight r p = QRect (rect_x r) (rect_y r) (p - rect_x r + 1) (rect_height r)"

definition QRect_setBottom :: "qrect \<Rightarrow> int \<Rightarrow> qrect" where
  "QRect_setBottom r p = QRect (rect_x r) (rect_y r) (rect_width r) (p - rect_y r + 1)"

text \<open>\<^verbatim>\<open>adjust(dx1, dy1, dx2, dy2)\<close> adds the offsets to the two corners.\<close>

definition QRect_adjust :: "qrect \<Rightarrow> int \<Rightarrow> int \<Rightarrow> int \<Rightarrow> int \<Rightarrow> qrect" where
  "QRect_adjust r dx1 dy1 dx2 dy2 =
     QRect (rect_x r + dx1) (rect_y r + dy1) (rect_width r + dx2 - dx1) (rect_height r + dy2 - dy1)"

text \<open>\<^verbatim>\<open>QRect::contains(const QRect &)\<close> for rectangles of non-negative extent.\<close>

definition QRect_contains :: "qrect \<Rightarrow> qrect \<Rightarrow> bool" where
  "QRect_contains r1 r2 =
     (if QRect_isNull r1 \<or> QRect_isNull r2 then False
      else rect_x r1 \<le> rect_x r2 \<and> QRect_right r2 \<le> QRect_right r1
         \<and> rect_y r1 \<le> rect_y r2 \<and> QRect_bottom r2 \<le> QRect_bottom r1)"

definition qBound :: "int \<Rightarrow> int \<Rightarrow> int \<Rightarrow> int" where
  "qBound lo val hi = max lo (min hi val)"

section \<open>Item\_p.h: constants, enumerations and inline helpers\<close>

definition KDDOCKWIDGETS_MIN_WIDTH :: int where
  "KDDOCKWIDGETS_MIN_WIDTH = 80"

definition KDDOCKWIDGETS_MIN_HEIGHT :: int where
  "KDDOCKWIDGETS_MIN_HEIGHT = 90"

definition KDDOCKWIDGETS_MAX_WIDTH :: int where
  "KDDOCKWIDGETS_MAX_WIDTH = 16777215"

definition KDDOCKWIDGETS_MAX_HEIGHT :: int where
  "KDDOCKWIDGETS_MAX_HEIGHT = 16777215"

definition separatorThickness :: int where
  "separatorThickness = 5"

definition hardcodedMinimumSize :: qsize where
  "hardcodedMinimumSize = QSize KDDOCKWIDGETS_MIN_WIDTH KDDOCKWIDGETS_MIN_HEIGHT"

datatype location =
  Location_None | Location_OnLeft | Location_OnTop | Location_OnRight | Location_OnBottom

datatype addingOption = AddingOption_None | AddingOption_StartHidden

datatype side = Side1 | Side2

datatype growthStrategy = BothSidesEqually | Side1Only | Side2Only

datatype childrenResizeStrategy = Percentage | Side1SeparatorMove | Side2SeparatorMove

datatype neighbourSqueezeStrategy = AllNeighbours | ImmediateNeighboursFirst

datatype defaultSizeMode =
  DefaultSizeMode_ItemSize | DefaultSizeMode_Fair | DefaultSizeMode_FairButFloor
  | DefaultSizeMode_SizePolicy | DefaultSizeMode_None

definition oppositeOrientation :: "orientation \<Rightarrow> orientation" where
  "oppositeOrientation o' = (if o' = Vertical then Horizontal else Vertical)"

definition pos_along :: "qpoint \<Rightarrow> orientation \<Rightarrow> int" where
  "pos_along p o' = (if o' = Vertical then point_y p else point_x p)"

definition length_along :: "qsize \<Rightarrow> orientation \<Rightarrow> int" where
  "length_along sz o' = (if o' = Vertical then size_height sz else size_width sz)"

definition locationIsVertical :: "location \<Rightarrow> bool" where
  "locationIsVertical loc = (loc = Location_OnTop \<or> loc = Location_OnBottom)"

definition locationIsSide1 :: "location \<Rightarrow> bool" where
  "locationIsSide1 loc = (loc = Location_OnLeft \<or> loc = Location_OnTop)"

definition adjustedRect :: "qrect \<Rightarrow> orientation \<Rightarrow> int \<Rightarrow> int \<Rightarrow> qrect" where
  "adjustedRect r o' p1 p2 =
     (if o' = Vertical then QRect_adjust r 0 p1 0 p2 else QRect_adjust r p1 0 p2 0)"

fun orientationForLocation :: "location \<Rightarrow> orientation" where
  "orientationForLocation Location_OnLeft = Horizontal"
| "orientationForLocation Location_OnRight = Horizontal"
| "orientationForLocation Location_None = Vertical"
| "orientationForLocation Location_OnTop = Vertical"
| "orientationForLocation Location_OnBottom = Vertical"

fun sideForLocation :: "location \<Rightarrow> side" where
  "sideForLocation Location_OnLeft = Side1"
| "sideForLocation Location_OnTop = Side1"
| "sideForLocation Location_OnRight = Side2"
| "sideForLocation Location_OnBottom = Side2"
| "sideForLocation Location_None = Side1"

subsection \<open>struct SizingInfo\<close>

text \<open>
  The C++ \<^verbatim>\<open>double percentageWithinParent\<close> is idealised as a real number: the layout only
  divides two lengths and truncates a product of a percentage with a length.
\<close>

record sizingInfo =
  geometry :: qrect
  minSize :: qsize
  maxSize :: qsize
  percentageWithinParent :: real
  isBeingInserted :: bool

definition SizingInfo_default :: sizingInfo where
  "SizingInfo_default =
     \<lparr> geometry = QRect_null,
       minSize = QSize KDDOCKWIDGETS_MIN_WIDTH KDDOCKWIDGETS_MIN_HEIGHT,
       maxSize = QSize KDDOCKWIDGETS_MAX_WIDTH KDDOCKWIDGETS_MAX_HEIGHT,
       percentageWithinParent = 0,
       isBeingInserted = False \<rparr>"

definition SizingInfo_size :: "sizingInfo \<Rightarrow> qsize" where
  "SizingInfo_size s = QRect_size (geometry s)"

definition SizingInfo_setSize :: "sizingInfo \<Rightarrow> qsize \<Rightarrow> sizingInfo" where
  "SizingInfo_setSize s sz = s\<lparr>geometry := QRect_setSize (geometry s) sz\<rparr>"

definition SizingInfo_length :: "sizingInfo \<Rightarrow> orientation \<Rightarrow> int" where
  "SizingInfo_length s o' = length_along (SizingInfo_size s) o'"

definition SizingInfo_minLength :: "sizingInfo \<Rightarrow> orientation \<Rightarrow> int" where
  "SizingInfo_minLength s o' = length_along (minSize s) o'"

definition SizingInfo_availableLength :: "sizingInfo \<Rightarrow> orientation \<Rightarrow> int" where
  "SizingInfo_availableLength s o' = max 0 (int_wrap (SizingInfo_length s o' - SizingInfo_minLength s o'))"

definition SizingInfo_missingLength :: "sizingInfo \<Rightarrow> orientation \<Rightarrow> int" where
  "SizingInfo_missingLength s o' = max 0 (int_wrap (SizingInfo_minLength s o' - SizingInfo_length s o'))"

definition SizingInfo_pos :: "sizingInfo \<Rightarrow> qpoint" where
  "SizingInfo_pos s = QRect_topLeft (geometry s)"

definition SizingInfo_position :: "sizingInfo \<Rightarrow> orientation \<Rightarrow> int" where
  "SizingInfo_position s o' = pos_along (SizingInfo_pos s) o'"

definition SizingInfo_edge :: "sizingInfo \<Rightarrow> orientation \<Rightarrow> int" where
  "SizingInfo_edge s o' = (if o' = Vertical then QRect_bottom (geometry s) else QRect_right (geometry s))"

definition SizingInfo_setLength :: "sizingInfo \<Rightarrow> int \<Rightarrow> orientation \<Rightarrow> sizingInfo" where
  "SizingInfo_setLength s l o' =
     (if o' = Vertical then s\<lparr>geometry := QRect_setHeight (geometry s) l\<rparr>
      else s\<lparr>geometry := QRect_setWidth (geometry s) l\<rparr>)"

definition SizingInfo_incrementLength :: "sizingInfo \<Rightarrow> int \<Rightarrow> orientation \<Rightarrow> sizingInfo" where
  "SizingInfo_incrementLength s byAmount o' =
     SizingInfo_setLength s (int_wrap (SizingInfo_length s o' + byAmount)) o'"

definition SizingInfo_setOppositeLength :: "sizingInfo \<Rightarrow> int \<Rightarrow> orientation \<Rightarrow> sizingInfo" where
  "SizingInfo_setOppositeLength s l o' = SizingInfo_setLength s l (oppositeOrientation o')"

definition SizingInfo_setPos :: "sizingInfo \<Rightarrow> int \<Rightarrow> orientation \<Rightarrow> sizingInfo" where
  "SizingInfo_setPos s p o' =
     (if o' = Vertical then s\<lparr>geometry := QRect_moveTop (geometry s) p\<rparr>
      else s\<lparr>geometry := QRect_moveLeft (geometry s) p\<rparr>)"

subsection \<open>struct ItemContainer::LengthOnSide\<close>

record lengthOnSide_t =
  los_length :: int
  los_minLength :: int

definition LengthOnSide_available :: "lengthOnSide_t \<Rightarrow> int" where
  "LengthOnSide_available l = max 0 (int_wrap (los_length l - los_minLength l))"

definition LengthOnSide_missing :: "lengthOnSide_t \<Rightarrow> int" where
  "LengthOnSide_missing l = max 0 (int_wrap (los_minLength l - los_length l))"


section \<open>Results of fallible code\<close>

text \<open>
  \<^verbatim>\<open>Q_ASSERT\<close> failures, reads through a null pointer and reads outside a \<^verbatim>\<open>QVector\<close> are
  values of the model.  A loop that does not end is the value \<open>Diverged\<close>, a recursion over
  the item tree that was given too little fuel is \<open>OutOfFuel\<close>.  \<open>InvalidEnumValue\<close> is an
  integer cast to an enumeration that has no such value: C++ keeps the integer, the
  enumeration types of the model cannot.
\<close>

datatype error =
  AssertFailed | NullPointerDereference | IndexOutOfRange | Diverged | OutOfFuel | InvalidEnumValue

definition bindE :: "error + 'a \<Rightarrow> ('a \<Rightarrow> error + 'b) \<Rightarrow> error + 'b" where
  "bindE m f = (case m of Inl e \<Rightarrow> Inl e | Inr v \<Rightarrow> f v)"

definition loop_result :: "(error + 'a) option \<Rightarrow> error + 'a" where
  "loop_result r = (case r of None \<Rightarrow> Inl Diverged | Some v \<Rightarrow> v)"

section \<open>Layout computations on a working copy of the children's SizingInfo\<close>

text \<open>
  The member functions of this section read only \<^verbatim>\<open>m_orientation\<close> and
  \<^verbatim>\<open>oppositeLength()\<close> of their container; both are passed as arguments \<open>o'\<close> and \<open>oppLen\<close>.
\<close>

subsection \<open>ItemContainer::lengthOnSide\<close>

definition ItemContainer_lengthOnSide ::
  "sizingInfo list \<Rightarrow> int \<Rightarrow> side \<Rightarrow> orientation \<Rightarrow> lengthOnSide_t" where
  "ItemContainer_lengthOnSide sizes fromIndex side' o' =
     (if fromIndex < 0 then \<lparr>los_length = 0, los_minLength = 0\<rparr>
      else let count = int (length sizes) in
        if fromIndex \<ge> count then \<lparr>los_length = 0, los_minLength = 0\<rparr>
        else
          let start = (if side' = Side1 then 0 else fromIndex);
              end' = (if side' = Side1 then fromIndex else count - 1)
          in fold (\<lambda>i result.
                     result\<lparr>los_length := int_wrap (los_length result + SizingInfo_length (sizes ! i) o'),
                            los_minLength :=
                              int_wrap (los_minLength result + SizingInfo_minLength (sizes ! i) o')\<rparr>)
                  [nat start ..< nat (end' + 1)]
                  \<lparr>los_length = 0, los_minLength = 0\<rparr>)"

subsection \<open>ItemContainer::calculateSqueezes\<close>

text \<open>The amount asked of each donor in one round of the \<^verbatim>\<open>AllNeighbours\<close> loop.\<close>

definition AllNeighbours_toTake :: "int \<Rightarrow> int \<Rightarrow> int" where
  "AllNeighbours_toTake missing numDonors =
     (let toTake = missing sdiv numDonors in if toTake = 0 then missing else toTake)"

text \<open>
  The inner \<^verbatim>\<open>for\<close> loop of one round, from index \<open>i\<close> on; it breaks when nothing is missing.
  What is taken from a donor is at most its availability and at most what is missing, so
  the differences and sums of the loop stay between 0 and values that a C++ \<^verbatim>\<open>int\<close> holds
  already: nothing wraps around.
\<close>

function AllNeighbours_round ::
  "int \<Rightarrow> nat \<Rightarrow> int list \<Rightarrow> int list \<Rightarrow> int \<Rightarrow> int list \<times> int list \<times> int" where
  "AllNeighbours_round toTake i availabilities squeezes missing =
     (if i < length availabilities then
        let available = availabilities ! i in
        if available = 0 then AllNeighbours_round toTake (i + 1) availabilities squeezes missing
        else
          let took = min missing (min toTake available);
              availabilities' = availabilities[i := available - took];
              missing' = missing - took;
              squeezes' = squeezes[i := squeezes ! i + took]
          in if missing' = 0 then (availabilities', squeezes', missing')
             else AllNeighbours_round toTake (i + 1) availabilities' squeezes' missing'
      else (availabilities, squeezes, missing))"
  by pat_completeness auto
termination
  by (relation "measure (\<lambda>(toTake, i, availabilities, squeezes, missing). length availabilities - i)") auto

declare AllNeighbours_round.simps [simp del]

partial_function (option) AllNeighbours_loop ::
  "int list \<Rightarrow> int list \<Rightarrow> int \<Rightarrow> (error + int list) option" where
  "AllNeighbours_loop availabilities squeezes missing =
     (if missing > 0 then
        let numDonors = int (length (filter (\<lambda>num. num > 0) availabilities)) in
        if numDonors = 0 then Some (Inl AssertFailed)
        else
          case AllNeighbours_round (AllNeighbours_toTake missing numDonors) 0 availabilities squeezes missing of
            (availabilities', squeezes', missing') \<Rightarrow> AllNeighbours_loop availabilities' squeezes' missing'
      else Some (Inr squeezes))"

declare AllNeighbours_loop.simps [code]

function ImmediateNeighboursFirst_loop ::
  "bool \<Rightarrow> nat \<Rightarrow> int list \<Rightarrow> int list \<Rightarrow> int \<Rightarrow> int list" where
  "ImmediateNeighboursFirst_loop reversed i availabilities squeezes missing =
     (let count = length availabilities in
      if i < count then
        let index = (if reversed then count - 1 - i else i);
            available = availabilities ! index;
            took = (if available > 0 then min missing available else 0);
            missing' = missing - took;
            squeezes' = (if available > 0 then squeezes[index := squeezes ! index + took] else squeezes)
        in if missing' = 0 then squeezes'
           else ImmediateNeighboursFirst_loop reversed (i + 1) availabilities squeezes' missing'
      else squeezes)"
  by pat_completeness auto
termination
  by (relation "measure (\<lambda>(reversed, i, availabilities, squeezes, missing). length availabilities - i)") auto

declare ImmediateNeighboursFirst_loop.simps [simp del]

text \<open>The iterator range \<^verbatim>\<open>[begin, end)\<close> is the list \<open>sizes\<close>.\<close>

definition ItemContainer_calculateSqueezes ::
  "orientation \<Rightarrow> sizingInfo list \<Rightarrow> int \<Rightarrow> neighbourSqueezeStrategy \<Rightarrow> bool \<Rightarrow> error + int list" where
  "ItemContainer_calculateSqueezes o' sizes needed strategy reversed =
     (let availabilities = map (\<lambda>it. SizingInfo_availableLength it o') sizes;
          count = length availabilities;
          squeezes = replicate count 0;
          missing = needed
      in case strategy of
           AllNeighbours \<Rightarrow> loop_result (AllNeighbours_loop availabilities squeezes missing)
         | ImmediateNeighboursFirst \<Rightarrow>
             Inr (ImmediateNeighboursFirst_loop reversed 0 availabilities squeezes missing))"

subsection \<open>ItemContainer::shrinkNeighbours\<close>

definition shrink_side1 :: "orientation \<Rightarrow> int list \<Rightarrow> sizingInfo list \<Rightarrow> sizingInfo list" where
  "shrink_side1 o' squeezes sizes =
     fold (\<lambda>i sizes.
             sizes[i := SizingInfo_setSize (sizes ! i)
                          (QRect_size (adjustedRect (geometry (sizes ! i)) o' 0 (- (squeezes ! i))))])
          [0 ..< length squeezes] sizes"

definition shrink_side2 :: "orientation \<Rightarrow> nat \<Rightarrow> int list \<Rightarrow> sizingInfo list \<Rightarrow> sizingInfo list" where
  "shrink_side2 o' index squeezes sizes =
     fold (\<lambda>i sizes.
             sizes[i + index + 1 := SizingInfo_setSize (sizes ! (i + index + 1))
                          (QRect_size (adjustedRect (geometry (sizes ! (i + index + 1))) o' (squeezes ! i) 0))])
          [0 ..< length squeezes] sizes"

definition ItemContainer_shrinkNeighbours ::
  "orientation \<Rightarrow> nat \<Rightarrow> sizingInfo list \<Rightarrow> int \<Rightarrow> int \<Rightarrow> neighbourSqueezeStrategy
     \<Rightarrow> error + sizingInfo list" where
  "ItemContainer_shrinkNeighbours o' index sizes side1Amount side2Amount strategy =
     (if \<not> (side1Amount > 0 \<or> side2Amount > 0) then Inl AssertFailed
      else if \<not> (side1Amount \<ge> 0 \<and> side2Amount \<ge> 0) then Inl AssertFailed
      else
        bindE (if side1Amount > 0 then
                 bindE (ItemContainer_calculateSqueezes o' (take index sizes) side1Amount strategy
                          (strategy = ImmediateNeighboursFirst))
                   (\<lambda>squeezes. Inr (shrink_side1 o' squeezes sizes))
               else Inr sizes)
          (\<lambda>sizes.
             if side2Amount > 0 then
               bindE (ItemContainer_calculateSqueezes o' (drop (index + 1) sizes) side2Amount strategy False)
                 (\<lambda>squeezes. Inr (shrink_side2 o' index squeezes sizes))
             else Inr sizes))"

subsection \<open>ItemContainer::growItem on a working copy\<close>

text \<open>
  The \<^verbatim>\<open>while (toSteal > 0)\<close> loop of the \<^verbatim>\<open>BothSidesEqually\<close> strategy, with the two
  \<^verbatim>\<open>Q_ASSERT\<close>s of its exhausted-side branches.  Called with \<open>toSteal\<close> and the two
  availabilities in the range of a C++ \<^verbatim>\<open>int\<close>, the availabilities not negative (they are
  results of \<^verbatim>\<open>LengthOnSide::available\<close>), every value the loop computes lies between 0 and
  one of these three, so nothing wraps around.
\<close>

partial_function (option) BothSidesEqually_loop ::
  "int \<Rightarrow> int \<Rightarrow> int \<Rightarrow> int \<Rightarrow> int \<Rightarrow> (error + int \<times> int) option" where
  "BothSidesEqually_loop toSteal available1 available2 side1Growth side2Growth =
     (if toSteal > 0 then
        if available1 = 0 then
          (if available2 \<ge> toSteal then Some (Inr (side1Growth, side2Growth + toSteal))
           else Some (Inl AssertFailed))
        else if available2 = 0 then
          (if available1 \<ge> toSteal then Some (Inr (side1Growth + toSteal, side2Growth))
           else Some (Inl AssertFailed))
        else
          let toTake = max 1 (toSteal sdiv 2);
              took1 = min toTake available1
          in if toSteal - took1 = 0 then Some (Inr (side1Growth + took1, side2Growth))
             else
               let took2 = min toTake available2
               in BothSidesEqually_loop (toSteal - took1 - took2) (available1 - took1)
                    (available2 - took2) (side1Growth + took1) (side2Growth + took2)
      else Some (Inr (side1Growth, side2Growth)))"

declare BothSidesEqually_loop.simps [code]

text \<open>Step \<^verbatim>\<open>#1\<close> of \<^verbatim>\<open>growItem\<close>: the item itself grows by \<open>missing\<close>.\<close>

definition growItem_grown :: "orientation \<Rightarrow> int \<Rightarrow> nat \<Rightarrow> sizingInfo list \<Rightarrow> int \<Rightarrow> sizingInfo list" where
  "growItem_grown o' oppLen index sizes missing =
     sizes[index := SizingInfo_setOppositeLength
                      (SizingInfo_setLength (sizes ! index)
                         (int_wrap (SizingInfo_length (sizes ! index) o' + missing)) o')
                      oppLen o']"

definition ItemContainer_growItem_sizes ::
  "orientation \<Rightarrow> int \<Rightarrow> int \<Rightarrow> sizingInfo list \<Rightarrow> int \<Rightarrow> growthStrategy
     \<Rightarrow> neighbourSqueezeStrategy \<Rightarrow> bool \<Rightarrow> error + sizingInfo list" where
  "ItemContainer_growItem_sizes o' oppLen index sizes missing growthStrategy' neighbourSqueezeStrategy'
       accountForNewSeparator =
     (let toSteal = int_wrap (missing + (if accountForNewSeparator then separatorThickness else 0)) in
      if index = - 1 then Inl AssertFailed
      else if toSteal = 0 then Inr sizes
      else if index < 0 \<or> index \<ge> int (length sizes) then Inl IndexOutOfRange
      else
        let sizes1 = growItem_grown o' oppLen (nat index) sizes missing in
        case growthStrategy' of
          BothSidesEqually \<Rightarrow>
            if length sizes1 = 1 then
              Inr (sizes1[nat index := SizingInfo_incrementLength (sizes1 ! nat index) missing o'])
            else
              let side1Length = ItemContainer_lengthOnSide sizes1 (index - 1) Side1 o';
                  side2Length = ItemContainer_lengthOnSide sizes1 (index + 1) Side2 o';
                  available1 = LengthOnSide_available side1Length;
                  available2 = LengthOnSide_available side2Length
              in if toSteal > int_wrap (available1 + available2) then Inl AssertFailed
                 else bindE (loop_result (BothSidesEqually_loop toSteal available1 available2 0 0))
                        (\<lambda>(side1Growth, side2Growth).
                           ItemContainer_shrinkNeighbours o' (nat index) sizes1 side1Growth side2Growth
                             neighbourSqueezeStrategy')
        | Side1Only \<Rightarrow>
            ItemContainer_shrinkNeighbours o' (nat index) sizes1 missing 0 neighbourSqueezeStrategy'
        | Side2Only \<Rightarrow>
            ItemContainer_shrinkNeighbours o' (nat index) sizes1 0 missing neighbourSqueezeStrategy')"

section \<open>The distribution rules in the words of the specification\<close>

text \<open>
  The rule of the specification for \<^verbatim>\<open>BothSidesEqually\<close>, written as a function from what is
  to be stolen and the capacities of the two sides to the amounts taken from side 1 and
  from side 2.  Nothing is taken when nothing is to be stolen.  When one side is exhausted
  the other absorbs the whole remainder.  Otherwise a round takes \<open>max 1 (remaining / 2)\<close>
  from side 1 and, unless nothing remains after that, the same from side 2, each bounded
  by the capacity of the side; the rule then goes on with what remains and with the
  capacities that are left.
\<close>

function BothSidesEqually_spec :: "int \<Rightarrow> int \<Rightarrow> int \<Rightarrow> int \<times> int" where
  "BothSidesEqually_spec remaining capacity1 capacity2 =
     (if remaining \<le> 0 then (0, 0)
      else if capacity1 \<le> 0 then (0, remaining)
      else if capacity2 \<le> 0 then (remaining, 0)
      else
        let share = max 1 (remaining div 2);
            taken1 = min share capacity1;
            taken2 = (if remaining - taken1 = 0 then 0 else min share capacity2);
            rest = BothSidesEqually_spec (remaining - taken1 - taken2) (capacity1 - taken1)
                     (capacity2 - taken2)
        in (taken1 + fst rest, taken2 + snd rest))"
  by pat_completeness auto
termination
proof (relation "measure (\<lambda>(remaining, capacity1, capacity2). nat remaining)", goal_cases)
  case 1
  show ?case by simp
next
  case (2 remaining capacity1 capacity2 share taken1 taken2)
  have pos: "0 < remaining" "0 < capacity1" "0 < capacity2" using 2(1-3) by simp_all
  have sh: "1 \<le> share" unfolding 2(4) by linarith
  have t1: "1 \<le> taken1" unfolding 2(5) using sh pos(2) by linarith
  have t2: "0 \<le> taken2" unfolding 2(6) using sh pos(3) by simp
  show ?case using pos(1) t1 t2 by simp
qed

declare BothSidesEqually_spec.simps [simp del]

text \<open>
  The rule for \<^verbatim>\<open>AllNeighbours\<close>, as corrected: while something is missing, a round asks of
  every donor that has availability left the quotient \<open>missing / numDonors\<close>, or all that
  is missing when that quotient is 0; a donor gives what is asked, bounded by its
  remaining availability and by what is still missing when its turn comes.  The result
  is what each donor has given in all rounds together.  A round with a donor takes at
  least one pixel, so \<open>needed\<close> rounds are enough.
\<close>

definition AllNeighbours_spec_share :: "int \<Rightarrow> int \<Rightarrow> int" where
  "AllNeighbours_spec_share missing numDonors =
     (if missing div numDonors = 0 then missing else missing div numDonors)"

fun AllNeighbours_spec_round :: "int \<Rightarrow> int list \<Rightarrow> int \<Rightarrow> int list" where
  "AllNeighbours_spec_round share [] missing = []"
| "AllNeighbours_spec_round share (available # donors) missing =
     (let given = (if available \<le> 0 then 0 else min missing (min share available))
      in given # AllNeighbours_spec_round share donors (missing - given))"

fun AllNeighbours_spec_rounds :: "nat \<Rightarrow> int list \<Rightarrow> int \<Rightarrow> int list" where
  "AllNeighbours_spec_rounds 0 availabilities missing = map (\<lambda>available. 0) availabilities"
| "AllNeighbours_spec_rounds (Suc rounds) availabilities missing =
     (let numDonors = int (length (filter (\<lambda>available. available > 0) availabilities)) in
      if missing \<le> 0 \<or> numDonors = 0 then map (\<lambda>available. 0) availabilities
      else
        let given = AllNeighbours_spec_round (AllNeighbours_spec_share missing numDonors)
                      availabilities missing
        in map2 (+) given
             (AllNeighbours_spec_rounds rounds (map2 (-) availabilities given)
                (missing - sum_list given)))"

definition AllNeighbours_spec :: "int list \<Rightarrow> int \<Rightarrow> int list" where
  "AllNeighbours_spec availabilities needed =
     AllNeighbours_spec_rounds (nat needed) availabilities needed"

section \<open>The item tree\<close>

subsection \<open>Guests and separators\<close>

text \<open>
  A \<^verbatim>\<open>GuestInterface\<close> with the widget it wraps.  The windowing toolkit is outside the
  layout engine; of the widget only what \<^verbatim>\<open>Item.cpp\<close> reads is kept: its address (the
  \<^verbatim>\<open>guestId\<close> of the serialization), its object name, its minimum size, its minimum size
  hint and its geometry when the guest is attached.
\<close>

record guest_t =
  widget_address :: nat
  widget_objectName :: string
  widget_minimumSize :: qsize
  widget_minimumSizeHint :: qsize
  widget_geometry :: qrect

definition widgetMinSize :: "guest_t \<Rightarrow> qsize" where
  "widgetMinSize w =
     (let minW = (if size_width (widget_minimumSize w) > 0 then size_width (widget_minimumSize w)
                  else size_width (widget_minimumSizeHint w));
          minH = (if size_height (widget_minimumSize w) > 0 then size_height (widget_minimumSize w)
                  else size_height (widget_minimumSizeHint w))
      in QSize_expandedTo (QSize minW minH) hardcodedMinimumSize)"

text \<open>
  Modelled from the spec: the class \<^verbatim>\<open>Separator\<close> (\<^verbatim>\<open>Separator_p.h\<close> is not among the
  sources).  The spec makes a separator a value owned by its container, with a position
  along the container's axis in root coordinates and the process-wide thickness;
  \<^verbatim>\<open>setGeometry(pos, pos2, length)\<close> of \<^verbatim>\<open>updateSeparators\<close> also gives it the position and
  the length across the axis.  A separator is referred to by its index in \<^verbatim>\<open>m_separators\<close>.
\<close>

record separator_t =
  Separator_position :: int
  Separator_pos2 :: int
  Separator_length :: int

subsection \<open>class Item and class ItemContainer\<close>

text \<open>
  \<open>m_id\<close> stands for the address of the object: \<^verbatim>\<open>contains\<close> and \<^verbatim>\<open>indexOf\<close> compare
  pointers.  \<open>m_hostWidget\<close> is the address of the host widget, if any.  The parent pointer
  is the position in the tree: a member function's \<^verbatim>\<open>this\<close> is given by the root of the
  tree and the path of child indices from the root (\<^verbatim>\<open>pathFromRoot()\<close>).
\<close>

record item_fields =
  m_id :: nat
  m_sizingInfo :: sizingInfo
  m_isVisible :: bool
  m_hostWidget :: "nat option"
  m_guest :: "guest_t option"
  m_objectName :: string

record container_fields =
  m_orientation :: orientation
  m_separators :: "separator_t list"
  m_blockUpdatePercentages :: bool
  m_isDeserializing :: bool
  m_convertingItemToContainer :: bool

definition container_fields_default :: container_fields where
  "container_fields_default =
     \<lparr> m_orientation = Vertical, m_separators = [], m_blockUpdatePercentages = False,
       m_isDeserializing = False, m_convertingItemToContainer = False \<rparr>"

datatype item =
  Item (fields: item_fields)
| ItemContainer (fields: item_fields) (cfields: container_fields) (m_children: "item list")
where
  "m_children (Item f) = []"
| "cfields (Item f) = container_fields_default"

fun map_fields :: "(item_fields \<Rightarrow> item_fields) \<Rightarrow> item \<Rightarrow> item" where
  "map_fields g (Item f) = Item (g f)"
| "map_fields g (ItemContainer f c children) = ItemContainer (g f) c children"

fun map_cfields :: "(container_fields \<Rightarrow> container_fields) \<Rightarrow> item \<Rightarrow> item" where
  "map_cfields g (Item f) = Item f"
| "map_cfields g (ItemContainer f c children) = ItemContainer f (g c) children"

fun set_children :: "item list \<Rightarrow> item \<Rightarrow> item" where
  "set_children children' (Item f) = Item f"
| "set_children children' (ItemContainer f c children) = ItemContainer f c children'"

definition set_sizingInfo :: "sizingInfo \<Rightarrow> item \<Rightarrow> item" where
  "set_sizingInfo s = map_fields (\<lambda>f. f\<lparr>m_sizingInfo := s\<rparr>)"

definition Item_isContainer :: "item \<Rightarrow> bool" where
  "Item_isContainer it = (case it of Item _ \<Rightarrow> False | ItemContainer _ _ _ \<Rightarrow> True)"

definition Item_id :: "item \<Rightarrow> nat" where
  "Item_id it = m_id (fields it)"

definition Item_sizingInfo :: "item \<Rightarrow> sizingInfo" where
  "Item_sizingInfo it = m_sizingInfo (fields it)"

definition Item_hostWidget :: "item \<Rightarrow> nat option" where
  "Item_hostWidget it = m_hostWidget (fields it)"

definition Item_x :: "item \<Rightarrow> int" where
  "Item_x it = rect_x (geometry (Item_sizingInfo it))"

definition Item_y :: "item \<Rightarrow> int" where
  "Item_y it = rect_y (geometry (Item_sizingInfo it))"

definition Item_width :: "item \<Rightarrow> int" where
  "Item_width it = rect_width (geometry (Item_sizingInfo it))"

definition Item_height :: "item \<Rightarrow> int" where
  "Item_height it = rect_height (geometry (Item_sizingInfo it))"

definition Item_size :: "item \<Rightarrow> qsize" where
  "Item_size it = QRect_size (geometry (Item_sizingInfo it))"

definition Item_pos :: "item \<Rightarrow> qpoint" where
  "Item_pos it = QRect_topLeft (geometry (Item_sizingInfo it))"

definition Item_position :: "item \<Rightarrow> orientation \<Rightarrow> int" where
  "Item_position it o' = (if o' = Vertical then Item_y it else Item_x it)"

definition Item_isBeingInserted :: "item \<Rightarrow> bool" where
  "Item_isBeingInserted it = isBeingInserted (Item_sizingInfo it)"

definition Item_geometry :: "item \<Rightarrow> qrect" where
  "Item_geometry it = (if Item_isBeingInserted it then QRect_null else geometry (Item_sizingInfo it))"

definition Item_rect :: "item \<Rightarrow> qrect" where
  "Item_rect it = QRect 0 0 (Item_width it) (Item_height it)"

definition Item_length :: "item \<Rightarrow> orientation \<Rightarrow> int" where
  "Item_length it o' = length_along (Item_size it) o'"

text \<open>
  \<^verbatim>\<open>isVisible\<close> is virtual: a leaf reads its flag, a container is visible when one of its
  children is (\<^verbatim>\<open>hasVisibleChildren\<close>).
\<close>

fun Item_isVisible :: "item \<Rightarrow> bool \<Rightarrow> bool" where
  "Item_isVisible (Item f) excludeBeingInserted =
     (m_isVisible f \<and> \<not> (excludeBeingInserted \<and> isBeingInserted (m_sizingInfo f)))"
| "Item_isVisible (ItemContainer f c children) excludeBeingInserted =
     list_ex (\<lambda>child. Item_isVisible child excludeBeingInserted) children"

definition ItemContainer_hasVisibleChildren :: "item \<Rightarrow> bool \<Rightarrow> bool" where
  "ItemContainer_hasVisibleChildren this excludeBeingInserted =
     list_ex (\<lambda>child. Item_isVisible child excludeBeingInserted) (m_children this)"

definition ItemContainer_orientation :: "item \<Rightarrow> orientation" where
  "ItemContainer_orientation this = m_orientation (cfields this)"

definition ItemContainer_isVertical :: "item \<Rightarrow> bool" where
  "ItemContainer_isVertical this = (m_orientation (cfields this) = Vertical)"

definition ItemContainer_isHorizontal :: "item \<Rightarrow> bool" where
  "ItemContainer_isHorizontal this = (m_orientation (cfields this) = Horizontal)"

definition ItemContainer_numChildren :: "item \<Rightarrow> int" where
  "ItemContainer_numChildren this = int (length (m_children this))"

definition ItemContainer_numVisibleChildren :: "item \<Rightarrow> int" where
  "ItemContainer_numVisibleChildren this =
     fold (\<lambda>child num. if Item_isVisible child False then num + 1 else num) (m_children this) 0"

definition ItemContainer_visibleChildren :: "item \<Rightarrow> bool \<Rightarrow> item list" where
  "ItemContainer_visibleChildren this includeBeingInserted =
     filter (\<lambda>child. if includeBeingInserted then Item_isVisible child False \<or> Item_isBeingInserted child
                      else Item_isVisible child False \<and> \<not> Item_isBeingInserted child)
            (m_children this)"

definition ItemContainer_length :: "item \<Rightarrow> int" where
  "ItemContainer_length this = (if ItemContainer_isVertical this then Item_height this else Item_width this)"

definition ItemContainer_oppositeLength :: "item \<Rightarrow> int" where
  "ItemContainer_oppositeLength this = (if ItemContainer_isVertical this then Item_width this else Item_height this)"

definition ItemContainer_usableLength :: "item \<Rightarrow> int" where
  "ItemContainer_usableLength this =
     (let children = ItemContainer_visibleChildren this False;
          numVisibleChildren = int (length children)
      in if numVisibleChildren \<le> 1 then length_along (Item_size this) (ItemContainer_orientation this)
         else ItemContainer_length this - separatorThickness * (numVisibleChildren - 1))"

text \<open>\<^verbatim>\<open>minSize\<close> is virtual: stored for a leaf, computed from the children for a container.\<close>

fun Item_minSize :: "item \<Rightarrow> qsize" where
  "Item_minSize (Item f) = minSize (m_sizingInfo f)"
| "Item_minSize (ItemContainer f c children) =
     (if children = [] then QSize 0 0
      else
        let acc = fold (\<lambda>child (minW, minH, numVisible).
                     if \<not> (Item_isVisible child False \<or> isBeingInserted (m_sizingInfo (fields child)))
                     then (minW, minH, numVisible)
                     else if m_orientation c = Vertical
                     then (max minW (size_width (Item_minSize child)),
                           minH + size_height (Item_minSize child), numVisible + 1)
                     else (minW + size_width (Item_minSize child),
                           max minH (size_height (Item_minSize child)), numVisible + 1))
                   children (0, 0, 0 :: int);
            minW = fst acc; minH = fst (snd acc); numVisible = snd (snd acc);
            separatorWaste = max 0 ((numVisible - 1) * separatorThickness)
        in if m_orientation c = Vertical then QSize minW (minH + separatorWaste)
           else QSize (minW + separatorWaste) minH)"

definition Item_minLength :: "item \<Rightarrow> orientation \<Rightarrow> int" where
  "Item_minLength it o' = length_along (Item_minSize it) o'"

definition Item_availableLength :: "item \<Rightarrow> orientation \<Rightarrow> int" where
  "Item_availableLength it o' = Item_length it o' - Item_minLength it o'"

definition Item_missingSize :: "item \<Rightarrow> qsize" where
  "Item_missingSize it =
     (let missing = QSize_minus (Item_minSize it) (Item_size it)
      in QSize (max (size_width missing) 0) (max (size_height missing) 0))"

definition ItemContainer_availableSize :: "item \<Rightarrow> qsize" where
  "ItemContainer_availableSize this = QSize_minus (Item_size this) (Item_minSize this)"

definition ItemContainer_availableLength :: "item \<Rightarrow> int" where
  "ItemContainer_availableLength this =
     (if ItemContainer_isVertical this then size_height (ItemContainer_availableSize this)
      else size_width (ItemContainer_availableSize this))"

definition ItemContainer_hasOrientationFor :: "item \<Rightarrow> location \<Rightarrow> bool" where
  "ItemContainer_hasOrientationFor this loc =
     (if length (m_children this) \<le> 1 then True
      else m_orientation (cfields this) = orientationForLocation loc)"

text \<open>\<^verbatim>\<open>contains\<close> looks among the direct children only; \<^verbatim>\<open>contains_recursive\<close> descends.\<close>

definition ItemContainer_contains :: "item \<Rightarrow> nat \<Rightarrow> bool" where
  "ItemContainer_contains this item_id = (item_id \<in> set (map Item_id (m_children this)))"

fun ItemContainer_contains_recursive :: "item \<Rightarrow> nat \<Rightarrow> bool" where
  "ItemContainer_contains_recursive (Item f) item_id = False"
| "ItemContainer_contains_recursive (ItemContainer f c children) item_id =
     list_ex (\<lambda>it. Item_id it = item_id \<or> ItemContainer_contains_recursive it item_id) children"

definition ItemContainer_childPercentages :: "item \<Rightarrow> real list" where
  "ItemContainer_childPercentages this =
     map (\<lambda>child. percentageWithinParent (Item_sizingInfo child))
         (filter (\<lambda>child. Item_isVisible child False \<and> \<not> Item_isBeingInserted child) (m_children this))"

text \<open>\<^verbatim>\<open>QVector::indexOf\<close>: the first index holding the value, or \<open>-1\<close>.\<close>

fun indexOf :: "'a list \<Rightarrow> 'a \<Rightarrow> int" where
  "indexOf [] v = - 1"
| "indexOf (x # xs) v = (if x = v then 0 else let i = indexOf xs v in if i = - 1 then - 1 else i + 1)"

subsection \<open>ItemContainer::Private::defaultLengthFor\<close>

function ItemContainer_defaultLengthFor :: "item \<Rightarrow> item \<Rightarrow> defaultSizeMode \<Rightarrow> int" where
  "ItemContainer_defaultLengthFor q item' mode =
     (let result =
        (case mode of
           DefaultSizeMode_None \<Rightarrow> 0
         | DefaultSizeMode_Fair \<Rightarrow>
             (let numVisibleChildren = ItemContainer_numVisibleChildren q + 1;
                  usableLength = ItemContainer_length q - separatorThickness * (numVisibleChildren - 1)
              in usableLength sdiv numVisibleChildren)
         | DefaultSizeMode_FairButFloor \<Rightarrow>
             (let length' = ItemContainer_defaultLengthFor q item' DefaultSizeMode_Fair
              in min length' (Item_length item' (ItemContainer_orientation q)))
         | DefaultSizeMode_ItemSize \<Rightarrow> Item_length item' (ItemContainer_orientation q)
         | DefaultSizeMode_SizePolicy \<Rightarrow> 0)
      in max (Item_minLength item' (ItemContainer_orientation q)) result)"
  by pat_completeness auto
termination
  by (relation "measure (\<lambda>(q, item', mode). if mode = DefaultSizeMode_FairButFloor then 1 else 0)") auto

declare ItemContainer_defaultLengthFor.simps [simp del]

subsection \<open>Items by their path from the root; mapToRoot and mapFromRoot\<close>

fun item_at :: "item \<Rightarrow> nat list \<Rightarrow> item option" where
  "item_at rootItem [] = Some rootItem"
| "item_at rootItem (i # path) =
     (if i < length (m_children rootItem) then item_at (m_children rootItem ! i) path else None)"

text \<open>
  \<^verbatim>\<open>Item::mapToRoot(QPoint)\<close>: the root returns the point, any other item adds what its
  parent maps the item's own position to.  \<open>None\<close> stands for a path that leads to no item.
\<close>

function Item_mapToRoot :: "item \<Rightarrow> nat list \<Rightarrow> qpoint \<Rightarrow> qpoint option" where
  "Item_mapToRoot rootItem path p =
     (case item_at rootItem path of
        None \<Rightarrow> None
      | Some this \<Rightarrow>
          if path = [] then Some p
          else map_option (QPoint_plus p) (Item_mapToRoot rootItem (butlast path) (Item_pos this)))"
  by pat_completeness auto
termination
  by (relation "measure (\<lambda>(rootItem, path, p). length path)") auto

declare Item_mapToRoot.simps [simp del]

text \<open>
  \<^verbatim>\<open>Item::mapFromRoot(QPoint)\<close>: the loop subtracts the position of the item and of every
  ancestor, the root included.
\<close>

function Item_mapFromRoot :: "item \<Rightarrow> nat list \<Rightarrow> qpoint \<Rightarrow> qpoint option" where
  "Item_mapFromRoot rootItem path p =
     (case item_at rootItem path of
        None \<Rightarrow> None
      | Some it \<Rightarrow>
          let p' = QPoint_minus p (Item_pos it)
          in if path = [] then Some p' else Item_mapFromRoot rootItem (butlast path) p')"
  by pat_completeness auto
termination
  by (relation "measure (\<lambda>(rootItem, path, p). length path)") auto

declare Item_mapFromRoot.simps [simp del]

definition Item_mapToRoot_along :: "item \<Rightarrow> nat list \<Rightarrow> int \<Rightarrow> orientation \<Rightarrow> int option" where
  "Item_mapToRoot_along rootItem path p o' =
     (if o' = Vertical then map_option point_y (Item_mapToRoot rootItem path (QPoint 0 p))
      else map_option point_x (Item_mapToRoot rootItem path (QPoint p 0)))"

definition Item_mapFromRoot_along :: "item \<Rightarrow> nat list \<Rightarrow> int \<Rightarrow> orientation \<Rightarrow> int option" where
  "Item_mapFromRoot_along rootItem path p o' =
     (if o' = Vertical then map_option point_y (Item_mapFromRoot rootItem path (QPoint 0 p))
      else map_option point_x (Item_mapFromRoot rootItem path (QPoint p 0)))"

subsection \<open>The offset of an item in root coordinates\<close>

text \<open>The sum of the positions of an item and of its ancestors below the root.\<close>

function path_offset :: "item \<Rightarrow> nat list \<Rightarrow> qpoint" where
  "path_offset rootItem path =
     (if path = [] then QPoint 0 0
      else case item_at rootItem path of
             None \<Rightarrow> QPoint 0 0
           | Some it \<Rightarrow> QPoint_plus (Item_pos it) (path_offset rootItem (butlast path)))"
  by pat_completeness auto
termination
  by (relation "measure (\<lambda>(rootItem, path). length path)") auto

declare path_offset.simps [simp del]

section \<open>Example layouts\<close>

definition leaf_item :: "nat \<Rightarrow> qrect \<Rightarrow> qsize \<Rightarrow> bool \<Rightarrow> item" where
  "leaf_item i geo minSz visible =
     Item \<lparr> m_id = i,
            m_sizingInfo = SizingInfo_default\<lparr>geometry := geo, minSize := minSz\<rparr>,
            m_isVisible = visible, m_hostWidget = Some 0, m_guest = None, m_objectName = [] \<rparr>"

definition container_item ::
  "nat \<Rightarrow> qrect \<Rightarrow> orientation \<Rightarrow> separator_t list \<Rightarrow> item list \<Rightarrow> item" where
  "container_item i geo o' seps children =
     ItemContainer
       \<lparr> m_id = i, m_sizingInfo = SizingInfo_default\<lparr>geometry := geo\<rparr>,
         m_isVisible = False, m_hostWidget = Some 0, m_guest = None, m_objectName = [] \<rparr>
       (container_fields_default\<lparr>m_orientation := o', m_separators := seps\<rparr>)
       children"

text \<open>A donor of 10 pixels: 90 wide with the minimum width 80.\<close>

definition donor10 :: sizingInfo where
  "donor10 = SizingInfo_default\<lparr>geometry := QRect 0 0 90 600\<rparr>"

text \<open>A container 100 wide with one visible leaf, and a leaf of minimum size 80 x 90 to add.\<close>

definition narrow_container :: item where
  "narrow_container =
     container_item 0 (QRect 0 0 100 600) Horizontal []
       [leaf_item 1 (QRect 0 0 100 600) (QSize 80 90) True]"

definition new_leaf :: item where
  "new_leaf = leaf_item 2 QRect_null (QSize 80 90) False"

text \<open>Three sizes in a row, the middle one about to grow by 100 and a new separator.\<close>

definition three_sizes :: "sizingInfo list" where
  "three_sizes =
     [SizingInfo_default\<lparr>geometry := QRect 0 0 300 600\<rparr>,
      SizingInfo_default\<lparr>geometry := QRect 0 0 0 600\<rparr>,
      SizingInfo_default\<lparr>geometry := QRect 0 0 300 600\<rparr>]"

text \<open>
  The same with neighbours as wide as a C++ \<^verbatim>\<open>int\<close> allows: each has 2147483567 to give,
  and the sum of the two is beyond \<^verbatim>\<open>INT_MAX\<close>.
\<close>

definition wide_sizes :: "sizingInfo list" where
  "wide_sizes =
     [SizingInfo_default\<lparr>geometry := QRect 0 0 2147483647 600\<rparr>,
      SizingInfo_default\<lparr>geometry := QRect 0 0 0 600\<rparr>,
      SizingInfo_default\<lparr>geometry := QRect 0 0 2147483647 600\<rparr>]"

text \<open>A root with a leaf and a nested container of two leaves.\<close>

definition nested_root :: item where
  "nested_root =
     container_item 0 (QRect 0 0 1000 600) Horizontal
       [\<lparr>Separator_position = 400, Separator_pos2 = 0, Separator_length = 600\<rparr>]
       [leaf_item 1 (QRect 0 0 400 600) (QSize 80 90) True,
        container_item 2 (QRect 405 0 595 600) Vertical
          [\<lparr>Separator_position = 300, Separator_pos2 = 405, Separator_length = 595\<rparr>]
          [leaf_item 3 (QRect 0 0 595 300) (QSize 80 90) True,
           leaf_item 4 (QRect 0 305 595 295) (QSize 80 90) True]]"

section \<open>Mutations of the item tree\<close>

text \<open>
  A mutation takes the root of the tree and the path of \<^verbatim>\<open>this\<close> and returns the new
  root.  An item that is not part of a tree yet is its own root, with the empty path.
  Signals that only reach the host (\<^verbatim>\<open>geometryChanged\<close>, \<^verbatim>\<open>itemsChanged\<close>, ...), the
  geometry pushed to guest widgets, \<^verbatim>\<open>qWarning\<close> and \<^verbatim>\<open>dumpLayout\<close> leave the tree as it is
  and are not modelled; \<^verbatim>\<open>minSizeChanged\<close> is, through its slot
  \<^verbatim>\<open>onChildMinSizeChanged\<close> in the parent.
\<close>

fun update_at :: "item \<Rightarrow> nat list \<Rightarrow> (item \<Rightarrow> item) \<Rightarrow> item" where
  "update_at rootItem [] g = g rootItem"
| "update_at rootItem (i # path) g =
     (if i < length (m_children rootItem)
      then set_children ((m_children rootItem)[i := update_at (m_children rootItem ! i) path g]) rootItem
      else rootItem)"

fun foldE :: "('a \<Rightarrow> 's \<Rightarrow> error + 's) \<Rightarrow> 'a list \<Rightarrow> 's \<Rightarrow> error + 's" where
  "foldE g [] s = Inr s"
| "foldE g (x # xs) s = (case g x s of Inl e \<Rightarrow> Inl e | Inr s' \<Rightarrow> foldE g xs s')"

definition set_geometry :: "qrect \<Rightarrow> item \<Rightarrow> item" where
  "set_geometry r = map_fields (\<lambda>f. f\<lparr>m_sizingInfo := (m_sizingInfo f)\<lparr>geometry := r\<rparr>\<rparr>)"

subsection \<open>Item: geometry, visibility\<close>

definition Item_setGeometry :: "item \<Rightarrow> nat list \<Rightarrow> qrect \<Rightarrow> error + item" where
  "Item_setGeometry rootItem path rect =
     (case item_at rootItem path of
        None \<Rightarrow> Inl NullPointerDereference
      | Some this \<Rightarrow>
          if rect \<noteq> geometry (Item_sizingInfo this) then
            if QRect_isEmpty rect \<and> Item_isContainer this \<and> ItemContainer_hasVisibleChildren this False
            then Inl AssertFailed
            else Inr (update_at rootItem path (set_geometry rect))
          else Inr rootItem)"

definition Item_setSize :: "item \<Rightarrow> nat list \<Rightarrow> qsize \<Rightarrow> error + item" where
  "Item_setSize rootItem path sz =
     (case item_at rootItem path of
        None \<Rightarrow> Inl NullPointerDereference
      | Some this \<Rightarrow> Item_setGeometry rootItem path (QRect_setSize (geometry (Item_sizingInfo this)) sz))"

definition Item_setPos :: "item \<Rightarrow> nat list \<Rightarrow> qpoint \<Rightarrow> error + item" where
  "Item_setPos rootItem path pos' =
     (case item_at rootItem path of
        None \<Rightarrow> Inl NullPointerDereference
      | Some this \<Rightarrow> Item_setGeometry rootItem path (QRect_moveTopLeft (geometry (Item_sizingInfo this)) pos'))"

definition Item_setLength :: "item \<Rightarrow> nat list \<Rightarrow> int \<Rightarrow> orientation \<Rightarrow> error + item" where
  "Item_setLength rootItem path length' o' =
     (case item_at rootItem path of
        None \<Rightarrow> Inl NullPointerDereference
      | Some this \<Rightarrow>
          if \<not> length' > 0 then Inl AssertFailed
          else if o' = Vertical then
            Item_setSize rootItem path (QSize (max (Item_width this) (size_width hardcodedMinimumSize)) length')
          else
            Item_setSize rootItem path (QSize length' (max (Item_height this) (size_height hardcodedMinimumSize))))"

definition Item_updateObjectName :: "item \<Rightarrow> item" where
  "Item_updateObjectName it =
     (case it of
        ItemContainer f c children \<Rightarrow> it
      | Item f \<Rightarrow>
          Item (f\<lparr>m_objectName :=
                   (case m_guest f of
                      Some w \<Rightarrow> (if widget_objectName w = [] then ''widget'' else widget_objectName w)
                    | None \<Rightarrow> (if \<not> m_isVisible f then ''hidden'' else ''null''))\<rparr>))"

text \<open>\<^verbatim>\<open>setIsVisible\<close> is virtual: a no-op for a container.\<close>

definition Item_setIsVisible :: "bool \<Rightarrow> item \<Rightarrow> item" where
  "Item_setIsVisible is' it =
     (case it of
        ItemContainer f c children \<Rightarrow> it
      | Item f \<Rightarrow> Item_updateObjectName (Item (f\<lparr>m_isVisible := is'\<rparr>)))"

subsection \<open>ItemContainer: the children's sizes\<close>

definition visibleChildIndices :: "item \<Rightarrow> bool \<Rightarrow> nat list" where
  "visibleChildIndices this includeBeingInserted =
     filter (\<lambda>i. let child = m_children this ! i in
                  if includeBeingInserted then Item_isVisible child False \<or> Item_isBeingInserted child
                  else Item_isVisible child False \<and> \<not> Item_isBeingInserted child)
            [0 ..< length (m_children this)]"

text \<open>
  \<^verbatim>\<open>sizes()\<close> returns the \<^verbatim>\<open>SizingInfo\<close> of the visible children and, on its way, stores
  into every visible child container its computed minimum size: result and side effect.
\<close>

definition sizes_refreshed :: "item \<Rightarrow> item" where
  "sizes_refreshed child =
     (if Item_isContainer child
      then map_fields (\<lambda>f. f\<lparr>m_sizingInfo := (m_sizingInfo f)\<lparr>minSize := Item_minSize child\<rparr>\<rparr>) child
      else child)"

definition ItemContainer_sizes :: "item \<Rightarrow> bool \<Rightarrow> sizingInfo list" where
  "ItemContainer_sizes this ignoreBeingInserted =
     map (\<lambda>child. Item_sizingInfo (sizes_refreshed child))
         (ItemContainer_visibleChildren this ignoreBeingInserted)"

definition ItemContainer_sizes_effect :: "bool \<Rightarrow> item \<Rightarrow> item" where
  "ItemContainer_sizes_effect ignoreBeingInserted this =
     set_children
       (map (\<lambda>child.
               if (if ignoreBeingInserted then Item_isVisible child False \<or> Item_isBeingInserted child
                   else Item_isVisible child False \<and> \<not> Item_isBeingInserted child)
               then sizes_refreshed child else child)
            (m_children this))
       this"

subsection \<open>ItemContainer::positionItems(SizingInfo::List \&)\<close>

definition ItemContainer_positionItems_sizes :: "item \<Rightarrow> sizingInfo list \<Rightarrow> sizingInfo list" where
  "ItemContainer_positionItems_sizes this sizes =
     (let o' = ItemContainer_orientation this;
          oppositeOrientation' = oppositeOrientation o'
      in snd (fold (\<lambda>i (nextPos, sizes).
                  let sizing = sizes ! i in
                  if isBeingInserted sizing then (nextPos + separatorThickness, sizes)
                  else
                    let oppositeLength = length_along (Item_size this) oppositeOrientation';
                        sizing1 = SizingInfo_setLength sizing oppositeLength oppositeOrientation';
                        sizing2 = SizingInfo_setPos sizing1 0 oppositeOrientation';
                        sizing3 = SizingInfo_setPos sizing2 nextPos o'
                    in (nextPos + SizingInfo_length sizing3 o' + separatorThickness, sizes[i := sizing3]))
                [0 ..< length sizes] (0, sizes)))"

subsection \<open>ItemContainer::resizeChildren\<close>

text \<open>
  \<^verbatim>\<open>int(childPercentage * totalNewLength)\<close> is computed in IEEE 754 double precision.  The
  percentage that the model stores is the exact quotient of two lengths, of which the
  C++ \<^verbatim>\<open>double\<close> is the nearest double (the division of \<^verbatim>\<open>updateChildPercentages\<close> is
  correctly rounded); the product with the length, which a double holds exactly, is
  rounded once more.  \<open>double_of_real\<close> is that rounding, to 53 significant bits, nearest,
  ties to even, for the normal range of the format.  The conversion \<^verbatim>\<open>int(double)\<close>
  truncates towards zero.
\<close>

function bit_length :: "int \<Rightarrow> nat" where
  "bit_length n = (if n \<le> 0 then 0 else Suc (bit_length (n div 2)))"
  by pat_completeness auto
termination
  by (relation "measure (\<lambda>n. nat n)") auto

declare bit_length.simps [simp del]

definition round_half_even :: "real \<Rightarrow> int" where
  "round_half_even x =
     (let f = \<lfloor>x\<rfloor>; r = x - real_of_int f
      in if r < 1 / 2 then f else if r > 1 / 2 then f + 1 else if even f then f else f + 1)"

definition double_of_real :: "real \<Rightarrow> real" where
  "double_of_real x =
     (if x = 0 then 0
      else
        let a = \<bar>x\<bar>;
            c = (if a \<ge> 1 then 53 else bit_length \<lfloor>1 / a\<rfloor> + 53);
            y = a * 2 ^ c;
            s = bit_length \<lfloor>y\<rfloor> - 53;
            m = round_half_even (y / 2 ^ s)
        in sgn x * (real_of_int m * 2 ^ s / 2 ^ c))"

definition int_of_double :: "real \<Rightarrow> int" where
  "int_of_double v = (if 0 \<le> v then \<lfloor>v\<rfloor> else \<lceil>v\<rceil>)"

definition resizeChildren_Percentage ::
  "item \<Rightarrow> bool \<Rightarrow> sizingInfo list \<Rightarrow> error + sizingInfo list" where
  "resizeChildren_Percentage this lengthChanged childSizes =
     (let childPercentages = ItemContainer_childPercentages this;
          count = length childSizes;
          totalNewLength = ItemContainer_usableLength this
      in case foldE (\<lambda>i (remaining, childSizes).
                  let isLast = (int i = int count - 1);
                      itemSize = childSizes ! i;
                      childPercentage = childPercentages ! i;
                      newItemLength =
                        (if lengthChanged
                         then (if isLast then remaining
                               else int_of_double
                                      (double_of_real (double_of_real childPercentage
                                                         * real_of_int totalNewLength)))
                         else SizingInfo_length itemSize (ItemContainer_orientation this))
                  in if newItemLength \<le> 0 then Inl AssertFailed
                     else Inr (remaining - newItemLength,
                               childSizes[i := itemSize\<lparr>geometry :=
                                  QRect_setSize (geometry itemSize)
                                    (if ItemContainer_isVertical this
                                     then QSize (Item_width this) newItemLength
                                     else QSize newItemLength (Item_height this))\<rparr>]))
                [0 ..< count] (totalNewLength, childSizes) of
           Inl e \<Rightarrow> Inl e
         | Inr (remaining, childSizes') \<Rightarrow> Inr childSizes')"

text \<open>The loop of the two separator-move strategies, from its \<open>i\<close>-th round on.\<close>

function resizeChildren_SeparatorMove_loop ::
  "orientation \<Rightarrow> bool \<Rightarrow> bool \<Rightarrow> nat \<Rightarrow> int \<Rightarrow> sizingInfo list \<Rightarrow> sizingInfo list" where
  "resizeChildren_SeparatorMove_loop o' isGrowing resizeHeadFirst i remaining childSizes =
     (let count = length childSizes in
      if i < count then
        let index = (if resizeHeadFirst then i else count - 1 - i);
            size' = childSizes ! index;
            availableToGive = SizingInfo_availableLength size' o';
            took = min availableToGive remaining;
            size'' = (if isGrowing then SizingInfo_incrementLength size' remaining o'
                      else SizingInfo_incrementLength size' (- took) o');
            remaining' = (if isGrowing then 0 else remaining - took)
        in if remaining' = 0 then childSizes[index := size'']
           else resizeChildren_SeparatorMove_loop o' isGrowing resizeHeadFirst (i + 1) remaining'
                  (childSizes[index := size''])
      else childSizes)"
  by pat_completeness auto
termination
  by (relation "measure (\<lambda>(o', isGrowing, resizeHeadFirst, i, remaining, childSizes). length childSizes - i)")
     auto

declare resizeChildren_SeparatorMove_loop.simps [simp del]

definition ItemContainer_resizeChildren ::
  "item \<Rightarrow> qsize \<Rightarrow> qsize \<Rightarrow> sizingInfo list \<Rightarrow> childrenResizeStrategy \<Rightarrow> error + sizingInfo list" where
  "ItemContainer_resizeChildren this oldSize newSize childSizes strategy =
     (let widthChanged = (size_width oldSize \<noteq> size_width newSize);
          heightChanged = (size_height oldSize \<noteq> size_height newSize);
          lengthChanged = ((ItemContainer_isVertical this \<and> heightChanged)
                           \<or> (ItemContainer_isHorizontal this \<and> widthChanged))
      in case strategy of
           Percentage \<Rightarrow> resizeChildren_Percentage this lengthChanged childSizes
         | _ \<Rightarrow>
           (let remaining0 = length_along (QSize_minus newSize oldSize) (ItemContainer_orientation this);
                isGrowing = (remaining0 > 0);
                remaining = \<bar>remaining0\<bar>;
                isSide1SeparatorMove = (strategy = Side1SeparatorMove);
                resizeHeadFirst = (if isGrowing \<and> isSide1SeparatorMove then True
                                   else if isGrowing \<and> \<not> isSide1SeparatorMove then False
                                   else if \<not> isGrowing \<and> isSide1SeparatorMove then False
                                   else True)
            in Inr (resizeChildren_SeparatorMove_loop (ItemContainer_orientation this) isGrowing
                      resizeHeadFirst 0 remaining childSizes)))"

subsection \<open>Separators and percentages\<close>

definition ItemContainer_updateChildPercentages :: "item \<Rightarrow> item" where
  "ItemContainer_updateChildPercentages this =
     (if m_blockUpdatePercentages (cfields this) then this
      else
        let usable = ItemContainer_usableLength this in
        set_children
          (map (\<lambda>child.
                  map_fields (\<lambda>f. f\<lparr>m_sizingInfo := (m_sizingInfo f)\<lparr>percentageWithinParent :=
                       (if Item_isVisible child False \<and> \<not> Item_isBeingInserted child
                        then (1 * real_of_int (Item_length child (ItemContainer_orientation this)))
                               / real_of_int usable
                        else 0)\<rparr>\<rparr>) child)
               (m_children this))
          this)"

text \<open>
  \<^verbatim>\<open>requiredSeparatorPositions\<close>: one position after each visible child but the last, in
  root coordinates.
\<close>

definition ItemContainer_requiredSeparatorPositions :: "item \<Rightarrow> nat list \<Rightarrow> int list" where
  "ItemContainer_requiredSeparatorPositions rootItem path =
     (case item_at rootItem path of
        None \<Rightarrow> []
      | Some this \<Rightarrow>
          let numSeparators = nat (max 0 (ItemContainer_numVisibleChildren this - 1)) in
          fold (\<lambda>child positions.
                  if length positions = numSeparators then positions
                  else if Item_isVisible child False then
                    let localPos = SizingInfo_edge (Item_sizingInfo child) (ItemContainer_orientation this) + 1
                    in positions @ [the (Item_mapToRoot_along rootItem path localPos
                                           (ItemContainer_orientation this))]
                  else positions)
               (m_children this) [])"

text \<open>
  \<^verbatim>\<open>updateSeparators\<close>: nothing without a host widget; otherwise one separator per required
  position (whether an old separator is reused or a new one created cannot be told from
  the values), each given its geometry, and then \<^verbatim>\<open>updateChildPercentages\<close>.
\<close>

definition ItemContainer_updateSeparators :: "item \<Rightarrow> nat list \<Rightarrow> item" where
  "ItemContainer_updateSeparators rootItem path =
     (case item_at rootItem path of
        None \<Rightarrow> rootItem
      | Some this \<Rightarrow>
          if Item_hostWidget this = None then rootItem
          else
            let positions = ItemContainer_requiredSeparatorPositions rootItem path;
                origin = the (Item_mapToRoot rootItem path (QPoint 0 0));
                pos2 = (if ItemContainer_isVertical this then point_x origin else point_y origin);
                separators = map (\<lambda>position. \<lparr>Separator_position = position, Separator_pos2 = pos2,
                                                Separator_length = ItemContainer_oppositeLength this\<rparr>)
                                 positions
            in update_at rootItem path
                 (\<lambda>this. ItemContainer_updateChildPercentages
                            (map_cfields (\<lambda>c. c\<lparr>m_separators := separators\<rparr>) this)))"

function ItemContainer_updateSeparators_recursive :: "nat \<Rightarrow> item \<Rightarrow> nat list \<Rightarrow> error + item" where
  "ItemContainer_updateSeparators_recursive fuel rootItem path =
     (if fuel = 0 then Inl OutOfFuel
      else
        let rootItem1 = ItemContainer_updateSeparators rootItem path in
        case item_at rootItem1 path of
          None \<Rightarrow> Inl NullPointerDereference
        | Some this \<Rightarrow>
            foldE (\<lambda>i rootItem2.
                     if Item_isContainer (m_children this ! i)
                     then ItemContainer_updateSeparators_recursive (fuel - 1) rootItem2 (path @ [i])
                     else Inr rootItem2)
                  (visibleChildIndices this False) rootItem1)"
  by pat_completeness auto
termination
  by (relation "measure (\<lambda>(fuel, rootItem, path). fuel)") auto

declare ItemContainer_updateSeparators_recursive.simps [simp del]

subsection \<open>setSize\_recursive, applyGeometries, positionItems, applyPositions\<close>

text \<open>
  \<^verbatim>\<open>setSize_recursive\<close> is virtual and recursive over the tree: a container resizes its
  children through \<^verbatim>\<open>applyGeometries\<close> and \<^verbatim>\<open>applyPositions\<close>.  The helpers below take the
  recursive call as the argument \<open>setSize_rec\<close>; \<open>fuel\<close> bounds the depth of the recursion.
\<close>

definition setLength_recursive_with ::
  "(item \<Rightarrow> nat list \<Rightarrow> qsize \<Rightarrow> childrenResizeStrategy \<Rightarrow> error + item)
     \<Rightarrow> item \<Rightarrow> nat list \<Rightarrow> int \<Rightarrow> orientation \<Rightarrow> error + item" where
  "setLength_recursive_with setSize_rec rootItem path length' o' =
     (case item_at rootItem path of
        None \<Rightarrow> Inl NullPointerDereference
      | Some (Item f) \<Rightarrow> Item_setLength rootItem path length' o'
      | Some (ItemContainer f c children) \<Rightarrow>
          let sz = Item_size (ItemContainer f c children);
              sz' = (if o' = Vertical then QSize (size_width sz) length' else QSize length' (size_height sz))
          in setSize_rec rootItem path sz' Percentage)"

definition applyPositions_with ::
  "(item \<Rightarrow> nat list \<Rightarrow> qsize \<Rightarrow> childrenResizeStrategy \<Rightarrow> error + item)
     \<Rightarrow> item \<Rightarrow> nat list \<Rightarrow> sizingInfo list \<Rightarrow> error + item" where
  "applyPositions_with setSize_rec rootItem path sizes =
     (case item_at rootItem path of
        None \<Rightarrow> Inl NullPointerDereference
      | Some this \<Rightarrow>
          let items = visibleChildIndices this False;
              count = length items
          in if count \<noteq> length sizes then Inl AssertFailed
             else
               foldE (\<lambda>i rootItem1.
                        let sizing = sizes ! i in
                        if isBeingInserted sizing then Inr rootItem1
                        else
                          let oppositeOrientation' = oppositeOrientation (ItemContainer_orientation this) in
                          bindE (setLength_recursive_with setSize_rec rootItem1 (path @ [items ! i])
                                   (SizingInfo_length sizing oppositeOrientation') oppositeOrientation')
                            (\<lambda>rootItem2. Item_setPos rootItem2 (path @ [items ! i])
                                            (QRect_topLeft (geometry sizing))))
                     [0 ..< count] rootItem)"

definition positionItems_with ::
  "(item \<Rightarrow> nat list \<Rightarrow> qsize \<Rightarrow> childrenResizeStrategy \<Rightarrow> error + item)
     \<Rightarrow> nat \<Rightarrow> item \<Rightarrow> nat list \<Rightarrow> error + item" where
  "positionItems_with setSize_rec fuel rootItem path =
     (case item_at rootItem path of
        None \<Rightarrow> Inl NullPointerDereference
      | Some this \<Rightarrow>
          let sizes = ItemContainer_positionItems_sizes this (ItemContainer_sizes this False);
              rootItem1 = update_at rootItem path (ItemContainer_sizes_effect False)
          in bindE (applyPositions_with setSize_rec rootItem1 path sizes)
               (\<lambda>rootItem2. ItemContainer_updateSeparators_recursive fuel rootItem2 path))"

definition applyGeometries_with ::
  "(item \<Rightarrow> nat list \<Rightarrow> qsize \<Rightarrow> childrenResizeStrategy \<Rightarrow> error + item)
     \<Rightarrow> nat \<Rightarrow> item \<Rightarrow> nat list \<Rightarrow> sizingInfo list \<Rightarrow> childrenResizeStrategy \<Rightarrow> error + item" where
  "applyGeometries_with setSize_rec fuel rootItem path sizes strategy =
     (case item_at rootItem path of
        None \<Rightarrow> Inl NullPointerDereference
      | Some this \<Rightarrow>
          let items = visibleChildIndices this False;
              count = length items
          in if count \<noteq> length sizes then Inl AssertFailed
             else
               bindE (foldE (\<lambda>i rootItem1.
                               setSize_rec rootItem1 (path @ [items ! i])
                                 (QRect_size (geometry (sizes ! i))) strategy)
                            [0 ..< count] rootItem)
                 (\<lambda>rootItem2. positionItems_with setSize_rec fuel rootItem2 path))"

text \<open>Step \<^verbatim>\<open>#2\<close> of \<^verbatim>\<open>ItemContainer::setSize_recursive\<close>: every child gets its minimum.\<close>

definition setSize_fix_minima :: "item \<Rightarrow> nat \<Rightarrow> sizingInfo list \<Rightarrow> error + sizingInfo list" where
  "setSize_fix_minima this count childSizes =
     foldE (\<lambda>i childSizes.
              let missing = SizingInfo_missingLength (childSizes ! i) (ItemContainer_orientation this) in
              if missing > 0
              then ItemContainer_growItem_sizes (ItemContainer_orientation this)
                     (ItemContainer_oppositeLength this) (int i) childSizes missing
                     BothSidesEqually AllNeighbours False
              else Inr childSizes)
           [0 ..< count] childSizes"

definition set_blockUpdatePercentages :: "bool \<Rightarrow> item \<Rightarrow> item" where
  "set_blockUpdatePercentages b = map_cfields (\<lambda>c. c\<lparr>m_blockUpdatePercentages := b\<rparr>)"

function Item_setSize_recursive ::
  "nat \<Rightarrow> item \<Rightarrow> nat list \<Rightarrow> qsize \<Rightarrow> childrenResizeStrategy \<Rightarrow> error + item" where
  "Item_setSize_recursive fuel rootItem path newSize strategy =
     (if fuel = 0 then Inl OutOfFuel
      else
        case item_at rootItem path of
          None \<Rightarrow> Inl NullPointerDereference
        | Some (Item f) \<Rightarrow> Item_setSize rootItem path newSize
        | Some (ItemContainer f c children) \<Rightarrow>
            let this = ItemContainer f c children;
                block = m_blockUpdatePercentages c;
                rootItem1 = update_at rootItem path (set_blockUpdatePercentages True);
                minSize' = Item_minSize this
            in if size_width newSize < size_width minSize' \<or> size_height newSize < size_height minSize'
               then Inr (update_at rootItem1 path (set_blockUpdatePercentages block))
               else if newSize = Item_size this
               then Inr (update_at rootItem1 path (set_blockUpdatePercentages block))
               else
                 let oldSize = Item_size this in
                 bindE (Item_setSize rootItem1 path newSize)
                   (\<lambda>rootItem2.
                      case item_at rootItem2 path of
                        None \<Rightarrow> Inl NullPointerDereference
                      | Some this2 \<Rightarrow>
                          let count = length (ItemContainer_visibleChildren this2 False);
                              childSizes = ItemContainer_sizes this2 False;
                              rootItem3 = update_at rootItem2 path (ItemContainer_sizes_effect False)
                          in bindE (ItemContainer_resizeChildren this2 oldSize newSize childSizes strategy)
                               (\<lambda>childSizes1.
                                  bindE (setSize_fix_minima this2 count
                                           (ItemContainer_positionItems_sizes this2 childSizes1))
                                    (\<lambda>childSizes2.
                                       bindE (applyGeometries_with (Item_setSize_recursive (fuel - 1))
                                                (fuel - 1) rootItem3 path childSizes2 strategy)
                                         (\<lambda>rootItem4.
                                            Inr (update_at rootItem4 path
                                                   (set_blockUpdatePercentages block)))))))"
  by pat_completeness auto
termination
  by (relation "measure (\<lambda>(fuel, rootItem, path, newSize, strategy). fuel)") auto

declare Item_setSize_recursive.simps [simp del]

definition ItemContainer_applyGeometries ::
  "nat \<Rightarrow> item \<Rightarrow> nat list \<Rightarrow> sizingInfo list \<Rightarrow> childrenResizeStrategy \<Rightarrow> error + item" where
  "ItemContainer_applyGeometries fuel = applyGeometries_with (Item_setSize_recursive fuel) fuel"

definition ItemContainer_positionItems :: "nat \<Rightarrow> item \<Rightarrow> nat list \<Rightarrow> error + item" where
  "ItemContainer_positionItems fuel = positionItems_with (Item_setSize_recursive fuel) fuel"

definition Item_setLength_recursive ::
  "nat \<Rightarrow> item \<Rightarrow> nat list \<Rightarrow> int \<Rightarrow> orientation \<Rightarrow> error + item" where
  "Item_setLength_recursive fuel = setLength_recursive_with (Item_setSize_recursive fuel)"

text \<open>
  \<^verbatim>\<open>setGeometry_recursive\<close> is virtual: a leaf sets its geometry, a container moves and then
  resizes with the default strategy.
\<close>

definition Item_setGeometry_recursive :: "nat \<Rightarrow> item \<Rightarrow> nat list \<Rightarrow> qrect \<Rightarrow> error + item" where
  "Item_setGeometry_recursive fuel rootItem path rect =
     (case item_at rootItem path of
        None \<Rightarrow> Inl NullPointerDereference
      | Some (Item f) \<Rightarrow> Item_setGeometry rootItem path rect
      | Some (ItemContainer f c children) \<Rightarrow>
          bindE (Item_setPos rootItem path (QRect_topLeft rect))
            (\<lambda>rootItem1. Item_setSize_recursive fuel rootItem1 path (QRect_size rect) Percentage))"

subsection \<open>ItemContainer::growItem(Item *, ...)\<close>

definition ItemContainer_growItem ::
  "nat \<Rightarrow> item \<Rightarrow> nat list \<Rightarrow> nat \<Rightarrow> int \<Rightarrow> growthStrategy \<Rightarrow> neighbourSqueezeStrategy \<Rightarrow> bool
     \<Rightarrow> childrenResizeStrategy \<Rightarrow> error + item" where
  "ItemContainer_growItem fuel rootItem path item_id amount growthStrategy' neighbourSqueezeStrategy'
       accountForNewSeparator childResizeStrategy =
     (case item_at rootItem path of
        None \<Rightarrow> Inl NullPointerDereference
      | Some this \<Rightarrow>
          let items = ItemContainer_visibleChildren this False;
              index = indexOf (map Item_id items) item_id;
              sizes = ItemContainer_sizes this False;
              rootItem1 = update_at rootItem path (ItemContainer_sizes_effect False)
          in bindE (ItemContainer_growItem_sizes (ItemContainer_orientation this)
                      (ItemContainer_oppositeLength this) index sizes amount growthStrategy'
                      neighbourSqueezeStrategy' accountForNewSeparator)
               (\<lambda>sizes1. ItemContainer_applyGeometries fuel rootItem1 path sizes1 childResizeStrategy))"

subsection \<open>Available space on a side of a child\<close>

text \<open>A child is named by its \<open>m_id\<close>, as the C++ names it by its address.\<close>

definition sum_between :: "int \<Rightarrow> int \<Rightarrow> (nat \<Rightarrow> int) \<Rightarrow> int" where
  "sum_between start end' g = fold (\<lambda>i acc. acc + g i) [nat start ..< nat (end' + 1)] 0"

definition ItemContainer_neighboursLengthFor :: "item \<Rightarrow> nat \<Rightarrow> side \<Rightarrow> orientation \<Rightarrow> int" where
  "ItemContainer_neighboursLengthFor this item_id side' o' =
     (let children = ItemContainer_visibleChildren this False;
          index = indexOf (map Item_id children) item_id
      in if index = - 1 then 0
         else if o' = ItemContainer_orientation this then
           (let start = (if side' = Side1 then 0 else index + 1);
                end' = (if side' = Side1 then index - 1 else int (length children) - 1)
            in sum_between start end' (\<lambda>i. Item_length (children ! i) (ItemContainer_orientation this)))
         else 0)"

definition ItemContainer_neighboursMinLengthFor :: "item \<Rightarrow> nat \<Rightarrow> side \<Rightarrow> orientation \<Rightarrow> int" where
  "ItemContainer_neighboursMinLengthFor this item_id side' o' =
     (let children = ItemContainer_visibleChildren this False;
          index = indexOf (map Item_id children) item_id
      in if index = - 1 then 0
         else if o' = ItemContainer_orientation this then
           (let start = (if side' = Side1 then 0 else index + 1);
                end' = (if side' = Side1 then index - 1 else int (length children) - 1)
            in sum_between start end' (\<lambda>i. Item_minLength (children ! i) (ItemContainer_orientation this)))
         else 0)"

definition ItemContainer_availableOnSide :: "item \<Rightarrow> nat \<Rightarrow> side \<Rightarrow> error + int" where
  "ItemContainer_availableOnSide this child_id side' =
     (let length' = ItemContainer_neighboursLengthFor this child_id side' (ItemContainer_orientation this);
          min' = ItemContainer_neighboursMinLengthFor this child_id side' (ItemContainer_orientation this);
          available = length' - min'
      in if available < 0 then Inl AssertFailed else Inr available)"

function ItemContainer_availableOnSide_recursive ::
  "item \<Rightarrow> nat list \<Rightarrow> nat \<Rightarrow> side \<Rightarrow> orientation \<Rightarrow> error + int" where
  "ItemContainer_availableOnSide_recursive rootItem path child_id side' orientation' =
     (case item_at rootItem path of
        None \<Rightarrow> Inl NullPointerDereference
      | Some this \<Rightarrow>
          if orientation' = ItemContainer_orientation this then
            bindE (ItemContainer_availableOnSide this child_id side')
              (\<lambda>available.
                 if path = [] then Inr available
                 else bindE (ItemContainer_availableOnSide_recursive rootItem (butlast path) (Item_id this)
                               side' orientation')
                        (\<lambda>above. Inr (available + above)))
          else if path = [] then Inr 0
          else ItemContainer_availableOnSide_recursive rootItem (butlast path) (Item_id this)
                 side' orientation')"
  by pat_completeness auto
termination
  by (relation "measure (\<lambda>(rootItem, path, child_id, side', orientation'). length path)") auto

declare ItemContainer_availableOnSide_recursive.simps [simp del]

text \<open>
  \<^verbatim>\<open>neighbourSeparator\<close> returns a separator, as the path of its container and its index in
  \<^verbatim>\<open>m_separators\<close>, or \<open>None\<close> for the null pointer.
\<close>

function ItemContainer_neighbourSeparator ::
  "item \<Rightarrow> nat list \<Rightarrow> nat \<Rightarrow> side \<Rightarrow> orientation \<Rightarrow> (nat list \<times> nat) option" where
  "ItemContainer_neighbourSeparator rootItem path item_id side' orientation' =
     (case item_at rootItem path of
        None \<Rightarrow> None
      | Some this \<Rightarrow>
          let children = ItemContainer_visibleChildren this False;
              itemIndex = indexOf (map Item_id children) item_id
          in if itemIndex = - 1 then None
             else if orientation' \<noteq> ItemContainer_orientation this then
               (if path = [] then None
                else ItemContainer_neighbourSeparator rootItem (butlast path) (Item_id this)
                       side' orientation')
             else
               let separatorIndex = (if side' = Side1 then itemIndex - 1 else itemIndex)
               in if separatorIndex < 0 \<or> separatorIndex \<ge> int (length (m_separators (cfields this)))
                  then None
                  else Some (path, nat separatorIndex))"
  by pat_completeness auto
termination
  by (relation "measure (\<lambda>(rootItem, path, item_id, side', orientation'). length path)") auto

declare ItemContainer_neighbourSeparator.simps [simp del]

text \<open>A separator of \<^verbatim>\<open>this\<close> is given by its index; an index outside \<^verbatim>\<open>m_separators\<close> stands
  for a separator that \<^verbatim>\<open>indexOf\<close> does not find.\<close>

definition ItemContainer_indexOf_separator :: "item \<Rightarrow> int \<Rightarrow> int" where
  "ItemContainer_indexOf_separator this separator =
     (if 0 \<le> separator \<and> separator < int (length (m_separators (cfields this))) then separator else - 1)"

definition ItemContainer_minPosForSeparator_global :: "item \<Rightarrow> nat list \<Rightarrow> int \<Rightarrow> error + int" where
  "ItemContainer_minPosForSeparator_global rootItem path separator =
     (case item_at rootItem path of
        None \<Rightarrow> Inl NullPointerDereference
      | Some this \<Rightarrow>
          let separatorIndex = ItemContainer_indexOf_separator this separator in
          if separatorIndex = - 1 then Inl AssertFailed
          else
            let children = ItemContainer_visibleChildren this False in
            if \<not> separatorIndex + 1 < int (length children) then Inl AssertFailed
            else
              let item' = children ! nat (separatorIndex + 1) in
              bindE (ItemContainer_availableOnSide_recursive rootItem path (Item_id item') Side1
                       (ItemContainer_orientation this))
                (\<lambda>available1.
                   Inr (Separator_position (m_separators (cfields this) ! nat separatorIndex) - available1)))"

definition ItemContainer_maxPosForSeparator_global :: "item \<Rightarrow> nat list \<Rightarrow> int \<Rightarrow> error + int" where
  "ItemContainer_maxPosForSeparator_global rootItem path separator =
     (case item_at rootItem path of
        None \<Rightarrow> Inl NullPointerDereference
      | Some this \<Rightarrow>
          let separatorIndex = ItemContainer_indexOf_separator this separator in
          if separatorIndex = - 1 then Inl AssertFailed
          else
            let children = ItemContainer_visibleChildren this False in
            if \<not> separatorIndex < int (length children) then Inl IndexOutOfRange
            else
              let item' = children ! nat separatorIndex in
              bindE (ItemContainer_availableOnSide_recursive rootItem path (Item_id item') Side2
                       (ItemContainer_orientation this))
                (\<lambda>available2.
                   Inr (Separator_position (m_separators (cfields this) ! nat separatorIndex) + available2)))"

subsection \<open>ItemContainer::requestSeparatorMove\<close>

text \<open>
  The result is the new root, or the error of a failed assertion or of the read through
  the null pointer that \<^verbatim>\<open>neighbourSeparator\<close> may return.  The early returns (unknown
  separator, \<open>delta = 0\<close>, out of bounds, not enough children) return the tree as it is.
\<close>

function ItemContainer_requestSeparatorMove ::
  "nat \<Rightarrow> item \<Rightarrow> nat list \<Rightarrow> int \<Rightarrow> int \<Rightarrow> error + item" where
  "ItemContainer_requestSeparatorMove fuel rootItem path separator delta =
     (if fuel = 0 then Inl OutOfFuel
      else
      case item_at rootItem path of
        None \<Rightarrow> Inl NullPointerDereference
      | Some this \<Rightarrow>
          let separatorIndex = ItemContainer_indexOf_separator this separator in
          if separatorIndex = - 1 then Inr rootItem
          else if delta = 0 then Inr rootItem
          else
            bindE (ItemContainer_minPosForSeparator_global rootItem path separator)
              (\<lambda>min'.
            let pos' = Separator_position (m_separators (cfields this) ! nat separatorIndex) in
            bindE (ItemContainer_maxPosForSeparator_global rootItem path separator)
              (\<lambda>max'.
            if pos' + delta < min' \<or> pos' + delta > max' then Inr rootItem
            else
              let moveDirection = (if delta < 0 then Side1 else Side2);
                  children = ItemContainer_visibleChildren this False
              in if int (length children) \<le> separatorIndex then Inr rootItem
                 else
                   let remainingToTake = \<bar>delta\<bar>;
                       neighbourIndex = (if moveDirection = Side1 then separatorIndex + 1 else separatorIndex)
                   in if \<not> neighbourIndex < int (length (m_children this)) then Inl IndexOutOfRange
                      else
                        let neighbour = m_children this ! nat neighbourIndex in
                        bindE (ItemContainer_availableOnSide this (Item_id neighbour)
                                 (if moveDirection = Side1 then Side1 else Side2))
                          (\<lambda>available.
                        let tookLocally = min available remainingToTake in
                        bindE (if tookLocally \<noteq> 0
                               then ItemContainer_growItem (fuel - 1) rootItem path (Item_id neighbour) tookLocally
                                      (if moveDirection = Side1 then Side1Only else Side2Only)
                                      ImmediateNeighboursFirst False
                                      (if moveDirection = Side1 then Side1SeparatorMove
                                       else Side2SeparatorMove)
                               else Inr rootItem)
                          (\<lambda>rootItem1.
                        let remainingToTake1 = remainingToTake - tookLocally in
                        if remainingToTake1 > 0 then
                          (if path = [] then Inr rootItem1
                           else
                             case ItemContainer_neighbourSeparator rootItem1 (butlast path) (Item_id this)
                                    moveDirection (ItemContainer_orientation this) of
                               None \<Rightarrow> Inl NullPointerDereference
                             | Some (nextPath, nextSeparator) \<Rightarrow>
                                 let remainingDelta = (if moveDirection = Side1 then - remainingToTake1
                                                       else remainingToTake1)
                                 in ItemContainer_requestSeparatorMove (fuel - 1) rootItem1 nextPath
                                      (int nextSeparator) remainingDelta)
                        else Inr rootItem1)))))"
  by pat_completeness auto
termination
  by (relation "measure (\<lambda>(fuel, rootItem, path, separator, delta). fuel)") auto

declare ItemContainer_requestSeparatorMove.simps [simp del]

subsection \<open>setBeingInserted, setHostWidget, setParentContainer\<close>

definition set_isBeingInserted :: "bool \<Rightarrow> item \<Rightarrow> item" where
  "set_isBeingInserted is' = map_fields (\<lambda>f. f\<lparr>m_sizingInfo := (m_sizingInfo f)\<lparr>isBeingInserted := is'\<rparr>\<rparr>)"

function Item_setBeingInserted :: "item \<Rightarrow> nat list \<Rightarrow> bool \<Rightarrow> item" where
  "Item_setBeingInserted rootItem path is' =
     (let rootItem1 = update_at rootItem path (set_isBeingInserted is') in
      if path = [] then rootItem1
      else
        case item_at rootItem1 (butlast path) of
          None \<Rightarrow> rootItem1
        | Some parent \<Rightarrow>
            if is' then
              (if \<not> ItemContainer_hasVisibleChildren parent False
               then Item_setBeingInserted rootItem1 (butlast path) True
               else rootItem1)
            else Item_setBeingInserted rootItem1 (butlast path) False)"
  by pat_completeness auto
termination
  by (relation "measure (\<lambda>(rootItem, path, is'). length path)") auto

declare Item_setBeingInserted.simps [simp del]

fun deleteSeparators_recursive :: "item \<Rightarrow> item" where
  "deleteSeparators_recursive (Item f) = Item f"
| "deleteSeparators_recursive (ItemContainer f c children) =
     ItemContainer f (c\<lparr>m_separators := []\<rparr>) (map deleteSeparators_recursive children)"

text \<open>
  \<^verbatim>\<open>setHostWidget\<close> is virtual: a container also deletes the separators below it, hands the
  host to its children and derives its separators again.
\<close>

function Item_setHostWidget :: "nat \<Rightarrow> item \<Rightarrow> nat list \<Rightarrow> nat option \<Rightarrow> error + item" where
  "Item_setHostWidget fuel rootItem path host =
     (if fuel = 0 then Inl OutOfFuel
      else
        case item_at rootItem path of
          None \<Rightarrow> Inl NullPointerDereference
        | Some (Item f) \<Rightarrow> Inr (update_at rootItem path (map_fields (\<lambda>f. f\<lparr>m_hostWidget := host\<rparr>)))
        | Some (ItemContainer f c children) \<Rightarrow>
            let rootItem1 = update_at rootItem path
                              (\<lambda>this. deleteSeparators_recursive
                                         (map_fields (\<lambda>f. f\<lparr>m_hostWidget := host\<rparr>) this))
            in bindE (foldE (\<lambda>i rootItem2. Item_setHostWidget (fuel - 1) rootItem2 (path @ [i]) host)
                            [0 ..< length children] rootItem1)
                 (\<lambda>rootItem3. ItemContainer_updateSeparators_recursive fuel rootItem3 path))"
  by pat_completeness auto
termination
  by (relation "measure (\<lambda>(fuel, rootItem, path, host). fuel)") auto

declare Item_setHostWidget.simps [simp del]

text \<open>
  \<^verbatim>\<open>setParentContainer(parent)\<close> for an item that has just been put into the children of the
  container at \<open>butlast path\<close>.  \<open>m_parent\<close> is the item's parent pointer before the call:
  \<open>None\<close> for the null pointer, otherwise the path of the old parent.  A container that
  ceases to be a root without visible children gets the null rectangle.
\<close>

definition Item_setParentContainer ::
  "nat \<Rightarrow> item \<Rightarrow> nat list \<Rightarrow> nat list option \<Rightarrow> error + item" where
  "Item_setParentContainer fuel rootItem path m_parent =
     (if m_parent = Some (butlast path) then Inr rootItem
      else
        case (item_at rootItem path, item_at rootItem (butlast path)) of
          (Some this, Some parent) \<Rightarrow>
            bindE (if Item_isContainer this \<and> m_parent = None
                      \<and> \<not> ItemContainer_hasVisibleChildren this False
                   then Item_setGeometry rootItem path QRect_null
                   else Inr rootItem)
              (\<lambda>rootItem1. Item_setHostWidget fuel rootItem1 path (Item_hostWidget parent))
        | _ \<Rightarrow> Inl NullPointerDereference)"

subsection \<open>updateSizeConstraints and the slot onChildMinSizeChanged\<close>

text \<open>
  \<^verbatim>\<open>updateSizeConstraints\<close> ends with \<^verbatim>\<open>Q_EMIT minSizeChanged(this)\<close>, which runs
  \<^verbatim>\<open>onChildMinSizeChanged(this)\<close> of the parent, which starts with the parent's
  \<^verbatim>\<open>updateSizeConstraints\<close>: a recursion up to the root.  The child of
  \<^verbatim>\<open>onChildMinSizeChanged\<close> is given by its index \<open>ci\<close> among the children.
\<close>

function ItemContainer_updateSizeConstraints :: "nat \<Rightarrow> item \<Rightarrow> nat list \<Rightarrow> error + item"
  and ItemContainer_onChildMinSizeChanged :: "nat \<Rightarrow> item \<Rightarrow> nat list \<Rightarrow> nat \<Rightarrow> error + item" where
  "ItemContainer_updateSizeConstraints fuel rootItem path =
     (case item_at rootItem path of
        None \<Rightarrow> Inl NullPointerDereference
      | Some this \<Rightarrow>
          let missingSize = Item_missingSize this in
          bindE (if \<not> QSize_isNull missingSize \<and> path = []
                 then Item_setSize_recursive fuel rootItem path (QSize_plus (Item_size this) missingSize)
                        Percentage
                 else Inr rootItem)
            (\<lambda>rootItem1.
               if path = [] then Inr rootItem1
               else ItemContainer_onChildMinSizeChanged fuel rootItem1 (butlast path) (last path)))"
| "ItemContainer_onChildMinSizeChanged fuel rootItem path ci =
     (case (item_at rootItem path, item_at rootItem (path @ [ci])) of
        (Some this, Some child) \<Rightarrow>
          if m_convertingItemToContainer (cfields this) \<or> m_isDeserializing (cfields this)
             \<or> \<not> Item_isVisible child False
          then Inr rootItem
          else
            bindE (ItemContainer_updateSizeConstraints fuel rootItem path)
              (\<lambda>rootItem1.
                 case (item_at rootItem1 path, item_at rootItem1 (path @ [ci])) of
                   (Some this1, Some child1) \<Rightarrow>
                     if Item_isBeingInserted child1 then Inr rootItem1
                     else if ItemContainer_numVisibleChildren this1 = 1 \<and> Item_isVisible child1 False
                     then
                       bindE (Item_setGeometry rootItem1 (path @ [ci]) (Item_rect this1))
                         (\<lambda>rootItem2. Inr (update_at rootItem2 path ItemContainer_updateChildPercentages))
                     else
                       let missingForChild = Item_missingSize child1 in
                       bindE (if \<not> QSize_isNull missingForChild
                              then ItemContainer_growItem fuel rootItem1 path (Item_id child1)
                                     (length_along missingForChild (ItemContainer_orientation this1))
                                     BothSidesEqually AllNeighbours False Percentage
                              else Inr rootItem1)
                         (\<lambda>rootItem2. Inr (update_at rootItem2 path ItemContainer_updateChildPercentages))
                 | _ \<Rightarrow> Inl NullPointerDereference)
      | _ \<Rightarrow> Inl NullPointerDereference)"
  by pat_completeness auto
termination
  by (relation "measure (\<lambda>v. case v of
                   Inl (fuel, rootItem, path) \<Rightarrow> 2 * length path
                 | Inr (fuel, rootItem, path, ci) \<Rightarrow> 2 * length path + 1)")
     (auto simp: neq_Nil_conv)

declare ItemContainer_updateSizeConstraints.simps [simp del]
declare ItemContainer_onChildMinSizeChanged.simps [simp del]

subsection \<open>ItemContainer::restoreChild\<close>

text \<open>The item to restore is the child with index \<open>ci\<close>.\<close>

definition set_length_zero :: "orientation \<Rightarrow> item \<Rightarrow> item" where
  "set_length_zero o' it =
     set_geometry (if o' = Vertical then QRect_setHeight (geometry (Item_sizingInfo it)) 0
                   else QRect_setWidth (geometry (Item_sizingInfo it)) 0) it"

function ItemContainer_restoreChild ::
  "nat \<Rightarrow> item \<Rightarrow> nat list \<Rightarrow> nat \<Rightarrow> neighbourSqueezeStrategy \<Rightarrow> error + item" where
  "ItemContainer_restoreChild fuel rootItem path ci neighbourSqueezeStrategy' =
     (case item_at rootItem path of
        None \<Rightarrow> Inl NullPointerDereference
      | Some this \<Rightarrow>
          if \<not> ci < length (m_children this) then Inl AssertFailed
          else
            let hadVisibleChildren = ItemContainer_hasVisibleChildren this True;
                rootItem1 = update_at rootItem (path @ [ci]) (Item_setIsVisible True);
                rootItem2 = Item_setBeingInserted rootItem1 (path @ [ci]) True
            in
            bindE (if \<not> hadVisibleChildren \<and> path \<noteq> [] then
                     bindE (Item_setSize rootItem2 path (Item_size (m_children this ! ci)))
                       (\<lambda>rootItem'. ItemContainer_restoreChild fuel rootItem' (butlast path) (last path)
                                       neighbourSqueezeStrategy')
                   else Inr rootItem2)
              (\<lambda>rootItem3.
            bindE (ItemContainer_updateSizeConstraints fuel rootItem3 path)
              (\<lambda>rootItem4.
            let rootItem5 = Item_setBeingInserted rootItem4 (path @ [ci]) False in
            case (item_at rootItem5 path, item_at rootItem5 (path @ [ci])) of
              (Some this5, Some item5) \<Rightarrow>
                if ItemContainer_numVisibleChildren this5 = 1 then
                  bindE (Item_setGeometry_recursive fuel rootItem5 (path @ [ci]) (Item_rect this5))
                    (\<lambda>rootItem6. ItemContainer_updateSeparators_recursive fuel rootItem6 path)
                else
                  bindE (ItemContainer_availableOnSide this5 (Item_id item5) Side1)
                    (\<lambda>available1.
                  bindE (ItemContainer_availableOnSide this5 (Item_id item5) Side2)
                    (\<lambda>available2.
                  let available = available1 + available2 - separatorThickness;
                      max' = available;
                      min' = Item_minLength item5 (ItemContainer_orientation this5);
                      proposed = length_along (Item_size item5) (ItemContainer_orientation this5);
                      newLength = qBound min' proposed max'
                  in if \<not> Item_isVisible item5 False then Inl AssertFailed
                     else
                       let rootItem6 = update_at rootItem5 (path @ [ci])
                                         (set_length_zero (ItemContainer_orientation this5))
                       in bindE (ItemContainer_growItem fuel rootItem6 path (Item_id item5) newLength
                                   BothSidesEqually neighbourSqueezeStrategy' True Percentage)
                            (\<lambda>rootItem7. ItemContainer_updateSeparators_recursive fuel rootItem7 path)))
            | _ \<Rightarrow> Inl NullPointerDereference)))"
  by pat_completeness auto
termination
  by (relation "measure (\<lambda>(fuel, rootItem, path, ci, s). length path)") auto

declare ItemContainer_restoreChild.simps [simp del]

subsection \<open>ItemContainer::insertItem(Item *, int, DefaultSizeMode)\<close>

text \<open>
  The item to insert is a tree of its own, with its parent pointer \<open>m_parent\<close> (see
  \<open>Item_setParentContainer\<close>).  \<^verbatim>\<open>QVector::insert\<close> asserts that the index is within
  \<open>0 .. size\<close>.
\<close>

definition ItemContainer_insertItem_index ::
  "nat \<Rightarrow> item \<Rightarrow> nat list \<Rightarrow> item \<Rightarrow> nat list option \<Rightarrow> int \<Rightarrow> defaultSizeMode \<Rightarrow> error + item" where
  "ItemContainer_insertItem_index fuel rootItem path item' m_parent index defaultSizeMode' =
     (case item_at rootItem path of
        None \<Rightarrow> Inl NullPointerDereference
      | Some this \<Rightarrow>
          bindE (if defaultSizeMode' \<noteq> DefaultSizeMode_None
                 then Item_setLength_recursive fuel item' []
                        (ItemContainer_defaultLengthFor this item' defaultSizeMode')
                        (ItemContainer_orientation this)
                 else Inr item')
            (\<lambda>item1.
               if index < 0 \<or> index > int (length (m_children this)) then Inl IndexOutOfRange
               else
                 let i = nat index;
                     rootItem1 = update_at rootItem path
                       (\<lambda>this. set_children (take i (m_children this) @ [item1] @ drop i (m_children this)) this)
                 in bindE (Item_setParentContainer fuel rootItem1 (path @ [i]) m_parent)
                      (\<lambda>rootItem2.
                         if \<not> m_convertingItemToContainer (cfields this) \<and> Item_isVisible item1 False
                         then ItemContainer_restoreChild fuel rootItem2 path i AllNeighbours
                         else Inr rootItem2)))"

subsection \<open>ItemContainer::insertItem(Item *, Location, DefaultSizeMode, AddingOption)\<close>

definition ItemContainer_setOrientation :: "nat \<Rightarrow> item \<Rightarrow> nat list \<Rightarrow> orientation \<Rightarrow> error + item" where
  "ItemContainer_setOrientation fuel rootItem path o' =
     (case item_at rootItem path of
        None \<Rightarrow> Inl NullPointerDereference
      | Some this \<Rightarrow>
          if o' \<noteq> ItemContainer_orientation this
          then ItemContainer_updateSeparators_recursive fuel
                 (update_at rootItem path (map_cfields (\<lambda>c. c\<lparr>m_orientation := o'\<rparr>))) path
          else Inr rootItem)"

text \<open>
  The branch of a root whose orientation does not fit the location: the children move
  into a new container (\<^verbatim>\<open>new ItemContainer(hostWidget(), this)\<close>, of address \<open>new_id\<close>),
  the root turns its orientation and takes the new container as its only child.  The new
  container has the root as its parent from its construction on, so it is kept as the
  root's child while \<^verbatim>\<open>setChildren\<close> runs; the root's own list, which the C++ clears
  only afterwards, is not read in between.  After the item has been inserted beside it,
  the new container is found again among the root's children by its address.
\<close>

definition new_ItemContainer :: "nat \<Rightarrow> nat option \<Rightarrow> item" where
  "new_ItemContainer new_id host =
     ItemContainer \<lparr> m_id = new_id, m_sizingInfo = SizingInfo_default, m_isVisible = False,
                     m_hostWidget = host, m_guest = None, m_objectName = [] \<rparr>
       container_fields_default []"

definition insertItem_wrap_children :: "nat \<Rightarrow> item \<Rightarrow> nat \<Rightarrow> error + item" where
  "insertItem_wrap_children fuel this new_id =
     bindE (Item_setGeometry (new_ItemContainer new_id (Item_hostWidget this)) [] (Item_rect this))
       (\<lambda>container.
          let container1 = set_children (m_children this) container;
              rootItem1 = set_children [container1] this
          in bindE (foldE (\<lambda>i rootItem2. Item_setParentContainer fuel rootItem2 [0, i] (Some []))
                          [0 ..< length (m_children this)] rootItem1)
               (\<lambda>rootItem3.
                  bindE (ItemContainer_setOrientation fuel rootItem3 [0] (ItemContainer_orientation this))
                    (\<lambda>rootItem4.
                       let container4 = m_children rootItem4 ! 0 in
                       bindE (ItemContainer_setOrientation fuel (set_children [] rootItem4) []
                                (oppositeOrientation (ItemContainer_orientation this)))
                         (\<lambda>rootItem5.
                            ItemContainer_insertItem_index fuel rootItem5 [] container4 (Some []) 0
                              DefaultSizeMode_None))))"

function ItemContainer_insertItem ::
  "nat \<Rightarrow> item \<Rightarrow> nat list \<Rightarrow> item \<Rightarrow> nat list option \<Rightarrow> location \<Rightarrow> defaultSizeMode
     \<Rightarrow> addingOption \<Rightarrow> nat \<Rightarrow> error + item" where
  "ItemContainer_insertItem fuel rootItem path item' m_parent loc defaultSizeMode' addingOption' new_id =
     (if fuel = 0 then Inl OutOfFuel
      else
      case item_at rootItem path of
        None \<Rightarrow> Inl NullPointerDereference
      | Some this \<Rightarrow>
          if Item_id item' = Item_id this then Inl AssertFailed
          else if ItemContainer_contains this (Item_id item') then Inr rootItem
          else
            let item1 = Item_setIsVisible (addingOption' \<noteq> AddingOption_StartHidden) item' in
            if addingOption' = AddingOption_StartHidden \<and> Item_isContainer item1 then Inl AssertFailed
            else
              let locOrientation = orientationForLocation loc in
              bindE
                (if ItemContainer_hasOrientationFor this loc then
                   (let rootItem1 =
                          (if length (m_children this) = 1
                           then update_at rootItem path (map_cfields (\<lambda>c. c\<lparr>m_orientation := locOrientation\<rparr>))
                           else rootItem);
                        index = (if locationIsSide1 loc then 0 else int (length (m_children this)))
                    in ItemContainer_insertItem_index fuel rootItem1 path item1 m_parent index defaultSizeMode')
                 else if path \<noteq> [] then Inl AssertFailed
                 else
                   bindE (insertItem_wrap_children fuel this new_id)
                     (\<lambda>rootItem1.
                        bindE (ItemContainer_insertItem (fuel - 1) rootItem1 [] item1 m_parent loc
                                 defaultSizeMode' addingOption' new_id)
                          (\<lambda>rootItem2.
                             let ci = indexOf (map Item_id (m_children rootItem2)) new_id in
                             if ci < 0 then Inl NullPointerDereference
                             else if \<not> ItemContainer_hasVisibleChildren (m_children rootItem2 ! nat ci) False
                             then Item_setGeometry rootItem2 [nat ci] QRect_null
                             else Inr rootItem2)))
                (\<lambda>rootItem3. ItemContainer_updateSeparators_recursive fuel rootItem3 path))"
  by pat_completeness auto
termination
  by (relation "measure (\<lambda>(fuel, rootItem, path, item', m_parent, loc, mode, opt, new_id). fuel)") auto

declare ItemContainer_insertItem.simps [simp del]

subsection \<open>ItemContainer::convertChildToContainer and Item::insertItem\<close>

text \<open>
  \<^verbatim>\<open>convertChildToContainer(leaf)\<close> puts a new container (of address \<open>new_id\<close>) in the place of
  the child with index \<open>ci\<close> and the child into it.  The new container is built with
  \<^verbatim>\<open>this\<close> as its parent, so \<^verbatim>\<open>insertItem(container, index, None)\<close> finds the parent pointer
  set and, \<^verbatim>\<open>m_convertingItemToContainer\<close> being set, only inserts.  The result is the new root;
  the new container is the child with index \<open>ci\<close> again.
\<close>

definition set_convertingItemToContainer :: "bool \<Rightarrow> item \<Rightarrow> item" where
  "set_convertingItemToContainer b = map_cfields (\<lambda>c. c\<lparr>m_convertingItemToContainer := b\<rparr>)"

definition ItemContainer_convertChildToContainer ::
  "nat \<Rightarrow> item \<Rightarrow> nat list \<Rightarrow> nat \<Rightarrow> nat \<Rightarrow> error + item" where
  "ItemContainer_convertChildToContainer fuel rootItem path ci new_id =
     (case item_at rootItem path of
        None \<Rightarrow> Inl NullPointerDereference
      | Some this \<Rightarrow>
          if \<not> ci < length (m_children this) then Inl AssertFailed
          else
            let converting = m_convertingItemToContainer (cfields this);
                leaf = m_children this ! ci;
                container = new_ItemContainer new_id (Item_hostWidget this);
                rootItem1 = update_at rootItem path
                  (\<lambda>this. set_convertingItemToContainer True
                             (set_children ((m_children this)[ci := container]) this))
            in bindE (Item_setGeometry rootItem1 (path @ [ci]) (Item_geometry leaf))
                 (\<lambda>rootItem2.
                    bindE (ItemContainer_insertItem fuel rootItem2 (path @ [ci]) leaf (Some path)
                             Location_OnTop DefaultSizeMode_None AddingOption_None new_id)
                      (\<lambda>rootItem3.
                         bindE (ItemContainer_updateSeparators_recursive fuel rootItem3 path)
                           (\<lambda>rootItem4.
                              Inr (update_at rootItem4 path (set_convertingItemToContainer converting))))))"

text \<open>
  \<^verbatim>\<open>Item::insertItem\<close>: \<^verbatim>\<open>this\<close> is the item at \<open>path\<close>, which is not the root (the C++ reads
  \<^verbatim>\<open>m_parent\<close> without a check).
\<close>

definition Item_insertItem ::
  "nat \<Rightarrow> item \<Rightarrow> nat list \<Rightarrow> item \<Rightarrow> nat list option \<Rightarrow> location \<Rightarrow> defaultSizeMode
     \<Rightarrow> addingOption \<Rightarrow> nat \<Rightarrow> error + item" where
  "Item_insertItem fuel rootItem path item' m_parent' loc defaultSizeMode' option' new_id =
     (if path = [] then Inl NullPointerDereference
      else
      case (item_at rootItem path, item_at rootItem (butlast path)) of
        (Some this, Some parent) \<Rightarrow>
          if Item_id item' = Item_id this then Inl AssertFailed
          else
            let item1 = Item_setIsVisible (option' \<noteq> AddingOption_StartHidden) item' in
            if option' = AddingOption_StartHidden \<and> Item_isContainer item1 then Inl AssertFailed
            else if ItemContainer_hasOrientationFor parent loc then
              (let locIsSide1 = locationIsSide1 loc;
                   indexInParent0 = indexOf (map Item_id (m_children parent)) (Item_id this);
                   indexInParent = (if \<not> locIsSide1 then indexInParent0 + 1 else indexInParent0);
                   orientation' = orientationForLocation loc
               in bindE (if orientation' \<noteq> ItemContainer_orientation parent then
                           (if length (ItemContainer_visibleChildren parent False) \<noteq> 1 then Inl AssertFailed
                            else ItemContainer_setOrientation fuel rootItem (butlast path) orientation')
                         else Inr rootItem)
                    (\<lambda>rootItem1.
                       ItemContainer_insertItem_index fuel rootItem1 (butlast path) item1 m_parent'
                         indexInParent defaultSizeMode'))
            else
              bindE (ItemContainer_convertChildToContainer fuel rootItem (butlast path) (last path) new_id)
                (\<lambda>rootItem1.
                   ItemContainer_insertItem fuel rootItem1 path item1 m_parent' loc defaultSizeMode'
                     option' new_id)
      | _ \<Rightarrow> Inl NullPointerDereference)"

section \<open>Example layouts: the scenarios\<close>

text \<open>An empty root of 1000 x 600 with a host widget, and freshly constructed leaves.\<close>

definition fresh_root :: item where
  "fresh_root = container_item 0 (QRect 0 0 1000 600) Vertical [] []"

definition new_item :: "nat \<Rightarrow> item" where
  "new_item i = leaf_item i QRect_null (QSize 80 90) False"

definition placed_leaf :: "nat \<Rightarrow> qrect \<Rightarrow> real \<Rightarrow> item" where
  "placed_leaf i geo percentage =
     Item \<lparr> m_id = i,
            m_sizingInfo = SizingInfo_default\<lparr>geometry := geo, percentageWithinParent := percentage\<rparr>,
            m_isVisible = True, m_hostWidget = Some 0, m_guest = None, m_objectName = ''null'' \<rparr>"

text \<open>Scenario S1: the root holds the single visible leaf L1, which fills it.\<close>

definition S1_root :: item where
  "S1_root = container_item 0 (QRect 0 0 1000 600) Vertical [] [placed_leaf 1 (QRect 0 0 1000 600) 1]"

text \<open>What inserting L2 on the right of \<open>S1_root\<close> gives.\<close>

definition S2_root :: item where
  "S2_root =
     container_item 0 (QRect 0 0 1000 600) Horizontal
       [\<lparr>Separator_position = 498, Separator_pos2 = 0, Separator_length = 600\<rparr>]
       [placed_leaf 1 (QRect 0 0 498 600) (498 / 995), placed_leaf 2 (QRect 503 0 497 600) (497 / 995)]"

text \<open>The configuration that scenario S2 of the specification describes.\<close>

definition S2_spec_root :: item where
  "S2_spec_root =
     container_item 0 (QRect 0 0 1000 600) Horizontal
       [\<lparr>Separator_position = 497, Separator_pos2 = 0, Separator_length = 600\<rparr>]
       [placed_leaf 1 (QRect 0 0 497 600) (497 / 995), placed_leaf 2 (QRect 502 0 498 600) (498 / 995)]"

text \<open>
  Three insertions into the empty root: L1 left and L2 right of the root, L3 below L2.
  The root then holds L1 and a vertical container, at path \<open>[1]\<close>, with L2 and L3.
\<close>

definition three_insertions :: "error + item" where
  "three_insertions =
     bindE (ItemContainer_insertItem 10 fresh_root [] (new_item 1) None Location_OnLeft
              DefaultSizeMode_Fair AddingOption_None 100)
    (\<lambda>r. bindE (ItemContainer_insertItem 10 r [] (new_item 2) None Location_OnRight
                    DefaultSizeMode_Fair AddingOption_None 101)
    (\<lambda>r. Item_insertItem 10 r [1] (new_item 3) None Location_OnBottom
             DefaultSizeMode_Fair AddingOption_None 102))"

text \<open>
  Three more: L4 left of L2, L5 below L4, L6 right of L4.  The six insertions nest five
  containers, horizontal and vertical in turn, down to the one at path \<open>[1, 0, 0, 0]\<close>
  that holds L4 and L6.
\<close>

definition six_insertions :: "error + item" where
  "six_insertions =
     bindE three_insertions
    (\<lambda>r. bindE (Item_insertItem 10 r [1, 0] (new_item 4) None Location_OnLeft
                    DefaultSizeMode_Fair AddingOption_None 103)
    (\<lambda>r. bindE (Item_insertItem 10 r [1, 0, 0] (new_item 5) None Location_OnBottom
                    DefaultSizeMode_Fair AddingOption_None 104)
    (\<lambda>r. Item_insertItem 10 r [1, 0, 0, 0] (new_item 6) None Location_OnRight
             DefaultSizeMode_Fair AddingOption_None 105)))"

text \<open>Inserting into the root the item that is already in the tree at \<open>path\<close>.\<close>

definition insert_again :: "nat list \<Rightarrow> location \<Rightarrow> item \<Rightarrow> error + item" where
  "insert_again path loc rootItem =
     (case item_at rootItem path of
        None \<Rightarrow> Inl NullPointerDereference
      | Some it \<Rightarrow> ItemContainer_insertItem 10 rootItem [] it (Some (butlast path)) loc
                     DefaultSizeMode_Fair AddingOption_None 200)"

definition child_ids :: "item \<Rightarrow> nat list" where
  "child_ids this = map Item_id (m_children this)"

text \<open>Projections of a result, for stating what a scenario yields.\<close>

definition visible_geometries :: "item \<Rightarrow> qrect list" where
  "visible_geometries this = map Item_geometry (ItemContainer_visibleChildren this False)"

definition separator_positions :: "item \<Rightarrow> int list" where
  "separator_positions this = map Separator_position (m_separators (cfields this))"

definition geometries_at :: "nat list \<Rightarrow> error + item \<Rightarrow> error + qrect list" where
  "geometries_at path r =
     bindE r (\<lambda>rootItem. case item_at rootItem path of
                            None \<Rightarrow> Inl NullPointerDereference
                          | Some this \<Rightarrow> Inr (visible_geometries this))"

section \<open>Serialization\<close>

text \<open>
  \<^verbatim>\<open>QVariant\<close>, as far as the serialization uses it: a bool, an int, a string, a
  \<^verbatim>\<open>QVariantMap\<close> (keys with their values) or a \<^verbatim>\<open>QVariantList\<close>.  Of its conversions only
  those from a kind to itself and between bool and int are modelled; every other one
  gives the default value of the target type, as Qt does for an invalid variant.
\<close>

datatype variant =
  V_Invalid
| V_Bool bool
| V_Int int
| V_String string
| V_Map "(string \<times> variant) list"
| V_List "variant list"

type_synonym qvariantMap = "(string \<times> variant) list"

definition QVariantMap_value :: "qvariantMap \<Rightarrow> string \<Rightarrow> variant" where
  "QVariantMap_value map' key = (case map_of map' key of None \<Rightarrow> V_Invalid | Some v \<Rightarrow> v)"

definition QVariant_toMap :: "variant \<Rightarrow> qvariantMap" where
  "QVariant_toMap v = (case v of V_Map m \<Rightarrow> m | _ \<Rightarrow> [])"

definition QVariant_toList :: "variant \<Rightarrow> variant list" where
  "QVariant_toList v = (case v of V_List l \<Rightarrow> l | _ \<Rightarrow> [])"

definition QVariant_toInt :: "variant \<Rightarrow> int" where
  "QVariant_toInt v = (case v of V_Int i \<Rightarrow> i | V_Bool b \<Rightarrow> (if b then 1 else 0) | _ \<Rightarrow> 0)"

definition QVariant_toBool :: "variant \<Rightarrow> bool" where
  "QVariant_toBool v = (case v of V_Bool b \<Rightarrow> b | V_Int i \<Rightarrow> i \<noteq> 0 | _ \<Rightarrow> False)"

definition QVariant_toString :: "variant \<Rightarrow> string" where
  "QVariant_toString v = (case v of V_String s \<Rightarrow> s | _ \<Rightarrow> [])"

text \<open>The size of a variant, for the recursion over the children of a serialized container.\<close>

fun vsize :: "variant \<Rightarrow> nat" where
  "vsize (V_Map m) = Suc (sum_list (map (\<lambda>kv. vsize (snd kv)) m))"
| "vsize (V_List l) = Suc (sum_list (map (\<lambda>v. Suc (vsize v)) l))"
| "vsize _ = 0"

subsection \<open>Sizes and rectangles (Item\_p.h)\<close>

definition sizeToMap :: "qsize \<Rightarrow> qvariantMap" where
  "sizeToMap sz = [(''width'', V_Int (size_width sz)), (''height'', V_Int (size_height sz))]"

definition rectToMap :: "qrect \<Rightarrow> qvariantMap" where
  "rectToMap rect =
     [(''x'', V_Int (rect_x rect)), (''y'', V_Int (rect_y rect)),
      (''width'', V_Int (rect_width rect)), (''height'', V_Int (rect_height rect))]"

definition mapToSize :: "qvariantMap \<Rightarrow> qsize" where
  "mapToSize map' =
     QSize (QVariant_toInt (QVariantMap_value map' ''width''))
           (QVariant_toInt (QVariantMap_value map' ''height''))"

definition mapToRect :: "qvariantMap \<Rightarrow> qrect" where
  "mapToRect map' =
     QRect (QVariant_toInt (QVariantMap_value map' ''x''))
           (QVariant_toInt (QVariantMap_value map' ''y''))
           (QVariant_toInt (QVariantMap_value map' ''width''))
           (QVariant_toInt (QVariantMap_value map' ''height''))"

subsection \<open>SizingInfo\<close>

definition SizingInfo_toVariantMap :: "sizingInfo \<Rightarrow> qvariantMap" where
  "SizingInfo_toVariantMap s =
     [(''geometry'', V_Map (rectToMap (geometry s))),
      (''minSize'', V_Map (sizeToMap (minSize s))),
      (''maxSize'', V_Map (sizeToMap (maxSize s)))]"

definition SizingInfo_fromVariantMap :: "qvariantMap \<Rightarrow> sizingInfo" where
  "SizingInfo_fromVariantMap map' =
     SizingInfo_default
       \<lparr> geometry := mapToRect (QVariant_toMap (QVariantMap_value map' ''geometry'')),
         minSize := mapToSize (QVariant_toMap (QVariantMap_value map' ''minSize'')),
         maxSize := mapToSize (QVariant_toMap (QVariantMap_value map' ''maxSize'')) \<rparr>"

subsection \<open>toVariantMap\<close>

text \<open>\<^verbatim>\<open>QString::number\<close> of an address: its decimal digits.\<close>

function QString_number :: "nat \<Rightarrow> string" where
  "QString_number n =
     (if n < 10 then [char_of (48 + n)]
      else QString_number (n div 10) @ [char_of (48 + n mod 10)])"
  by pat_completeness auto
termination
  by (relation "measure (\<lambda>n. n)") auto

declare QString_number.simps [simp del]

text \<open>The values of \<^verbatim>\<open>Qt::Orientation\<close>: \<^verbatim>\<open>Qt::Horizontal = 0x1\<close>, \<^verbatim>\<open>Qt::Vertical = 0x2\<close>.\<close>

definition Qt_Orientation_value :: "orientation \<Rightarrow> int" where
  "Qt_Orientation_value o' = (case o' of Horizontal \<Rightarrow> 1 | Vertical \<Rightarrow> 2)"

definition Qt_Orientation :: "int \<Rightarrow> orientation option" where
  "Qt_Orientation i = (if i = 1 then Some Horizontal else if i = 2 then Some Vertical else None)"

text \<open>\<^verbatim>\<open>Item::toVariantMap\<close>, the part that the container's override calls first.\<close>

definition Item_toVariantMap_base :: "item \<Rightarrow> qvariantMap" where
  "Item_toVariantMap_base this =
     [(''sizingInfo'', V_Map (SizingInfo_toVariantMap (Item_sizingInfo this))),
      (''isVisible'', V_Bool (m_isVisible (fields this))),
      (''isContainer'', V_Bool (Item_isContainer this)),
      (''objectName'', V_String (m_objectName (fields this)))]
     @ (case m_guest (fields this) of
          None \<Rightarrow> []
        | Some guest \<Rightarrow> [(''guestId'', V_String (QString_number (widget_address guest)))])"

text \<open>\<^verbatim>\<open>toVariantMap\<close> is virtual: a container adds its children and its orientation.\<close>

fun Item_toVariantMap :: "item \<Rightarrow> qvariantMap" where
  "Item_toVariantMap (Item f) = Item_toVariantMap_base (Item f)"
| "Item_toVariantMap (ItemContainer f c children) =
     Item_toVariantMap_base (ItemContainer f c children)
     @ [(''children'', V_List (map (\<lambda>child. V_Map (Item_toVariantMap child)) children)),
        (''orientation'', V_Int (Qt_Orientation_value (m_orientation c)))]"

subsection \<open>fillFromVariantMap\<close>

text \<open>
  \<^verbatim>\<open>fillFromVariantMap\<close> fills an object that was just constructed and is in no list of
  children yet; its parent pointer is set, and \<open>parentOrigin\<close> is the sum of the positions
  of its ancestors, which is all that \<^verbatim>\<open>mapFromRoot\<close> reads of them.  The parent is
  deserializing, so its slot \<^verbatim>\<open>onChildMinSizeChanged\<close> returns at once.
\<close>

definition new_Item :: "nat \<Rightarrow> nat option \<Rightarrow> item" where
  "new_Item new_id host =
     Item \<lparr> m_id = new_id, m_sizingInfo = SizingInfo_default, m_isVisible = False,
            m_hostWidget = host, m_guest = None, m_objectName = [] \<rparr>"

definition set_minSize :: "qsize \<Rightarrow> item \<Rightarrow> item" where
  "set_minSize sz = map_fields (\<lambda>f. f\<lparr>m_sizingInfo := (m_sizingInfo f)\<lparr>minSize := sz\<rparr>\<rparr>)"

definition Item_setMinSize :: "nat \<Rightarrow> item \<Rightarrow> qsize \<Rightarrow> error + item" where
  "Item_setMinSize fuel this sz =
     (if sz \<noteq> minSize (Item_sizingInfo this)
      then let this1 = set_minSize sz this
           in Item_setSize_recursive fuel this1 [] (QSize_expandedTo (Item_size this1) sz) Percentage
      else Inr this)"

definition Item_setGuest :: "nat \<Rightarrow> item \<Rightarrow> qpoint \<Rightarrow> guest_t \<Rightarrow> error + item" where
  "Item_setGuest fuel this parentOrigin guest =
     (if m_guest (fields this) \<noteq> None then Inl AssertFailed
      else
        bindE (Item_setMinSize fuel (map_fields (\<lambda>f. f\<lparr>m_guest := Some guest\<rparr>) this)
                 (widgetMinSize guest))
          (\<lambda>this1.
             bindE (if QRect_isEmpty (geometry (Item_sizingInfo this1)) then
                      let widgetGeo = QRect_setSize (widget_geometry guest)
                                        (QSize_expandedTo (QRect_size (widget_geometry guest))
                                           hardcodedMinimumSize);
                          topLeft = QPoint_minus (QPoint_minus (QRect_topLeft widgetGeo) (Item_pos this1))
                                      parentOrigin
                      in Item_setGeometry this1 [] (QRect_moveTopLeft widgetGeo topLeft)
                    else Inr this1)
               (\<lambda>this2. Inr (Item_updateObjectName this2))))"

definition Item_fillFromVariantMap ::
  "nat \<Rightarrow> item \<Rightarrow> qpoint \<Rightarrow> qvariantMap \<Rightarrow> (string \<rightharpoonup> guest_t) \<Rightarrow> error + item" where
  "Item_fillFromVariantMap fuel this parentOrigin map' widgets =
     (let this1 = map_fields
                    (\<lambda>f. f\<lparr> m_sizingInfo := SizingInfo_fromVariantMap
                                               (QVariant_toMap (QVariantMap_value map' ''sizingInfo'')),
                            m_isVisible := QVariant_toBool (QVariantMap_value map' ''isVisible''),
                            m_objectName := QVariant_toString (QVariantMap_value map' ''objectName'') \<rparr>)
                    this;
          guestId = QVariant_toString (QVariantMap_value map' ''guestId'')
      in if guestId \<noteq> [] then
           (case widgets guestId of
              Some guest \<Rightarrow> Item_setGuest fuel this1 parentOrigin guest
            | None \<Rightarrow> Inr this1)
         else Inr this1)"

text \<open>
  \<^verbatim>\<open>ItemContainer::fillFromVariantMap\<close> up to its last block, with the loop over
  \<^verbatim>\<open>childrenV\<close> as a second function.  \<open>next_id\<close> is the address that the next \<^verbatim>\<open>new\<close> returns.
\<close>

function ItemContainer_fillFromVariantMap_rec ::
    "nat \<Rightarrow> item \<Rightarrow> qpoint \<Rightarrow> nat \<Rightarrow> qvariantMap \<Rightarrow> (string \<rightharpoonup> guest_t) \<Rightarrow> error + item \<times> nat"
  and ItemContainer_fillFromVariantMap_children ::
    "nat \<Rightarrow> item \<Rightarrow> qpoint \<Rightarrow> nat \<Rightarrow> variant list \<Rightarrow> (string \<rightharpoonup> guest_t) \<Rightarrow> error + item \<times> nat"
where
  "ItemContainer_fillFromVariantMap_rec fuel this parentOrigin next_id map' widgets =
     bindE (Item_fillFromVariantMap fuel this parentOrigin map' widgets)
       (\<lambda>this1.
          let childrenV = QVariant_toList (QVariantMap_value map' ''children'') in
          case Qt_Orientation (QVariant_toInt (QVariantMap_value map' ''orientation'')) of
            None \<Rightarrow> Inl InvalidEnumValue
          | Some o' \<Rightarrow>
              ItemContainer_fillFromVariantMap_children fuel
                (map_cfields (\<lambda>c. c\<lparr>m_orientation := o'\<rparr>) this1) parentOrigin next_id childrenV widgets)"
| "ItemContainer_fillFromVariantMap_children fuel this parentOrigin next_id [] widgets =
     Inr (this, next_id)"
| "ItemContainer_fillFromVariantMap_children fuel this parentOrigin next_id (childV # childrenV) widgets =
     (let childMap = QVariant_toMap childV;
          isContainer = QVariant_toBool (QVariantMap_value childMap ''isContainer'');
          origin = QPoint_plus parentOrigin (Item_pos this)
      in bindE (if isContainer
                then ItemContainer_fillFromVariantMap_rec fuel
                       (new_ItemContainer next_id (Item_hostWidget this)) origin (next_id + 1)
                       childMap widgets
                else bindE (Item_fillFromVariantMap fuel (new_Item next_id (Item_hostWidget this))
                              origin childMap widgets)
                       (\<lambda>child. Inr (child, next_id + 1)))
           (\<lambda>(child, next_id').
              ItemContainer_fillFromVariantMap_children fuel
                (set_children (m_children this @ [child]) this) parentOrigin next_id' childrenV widgets))"
  by pat_completeness auto
termination
proof (relation "measure (\<lambda>x. case x of
           Inl (fuel, this, parentOrigin, next_id, map', widgets) \<Rightarrow>
             Suc (2 * sum_list (map (\<lambda>kv. vsize (snd kv)) map'))
         | Inr (fuel, this, parentOrigin, next_id, childrenV, widgets) \<Rightarrow>
             2 * sum_list (map (\<lambda>v. Suc (vsize v)) childrenV))", goal_cases)
  case 1
  show ?case by simp
next
  case (2 fuel this parentOrigin next_id map' widgets this1 childrenV o')
  have value_le: "vsize (QVariantMap_value m k) \<le> sum_list (map (\<lambda>kv. vsize (snd kv)) m)"
    for m :: qvariantMap and k
    by (induction m) (auto simp: QVariantMap_value_def)
  have "sum_list (map (\<lambda>v. Suc (vsize v)) (QVariant_toList v)) \<le> vsize v" for v
    by (cases v) (simp_all add: QVariant_toList_def)
  from this [of "QVariantMap_value map' ''children''"] value_le [of map' "''children''"]
  show ?case using 2 by simp
next
  case (3 fuel this parentOrigin next_id childV childrenV widgets childMap)
  have "sum_list (map (\<lambda>kv. vsize (snd kv)) (QVariant_toMap v)) \<le> vsize v" for v
    by (cases v) (simp_all add: QVariant_toMap_def)
  from this [of childV] 3(1) show ?case by simp
next
  case 4
  show ?case by simp
qed

declare ItemContainer_fillFromVariantMap_rec.simps [simp del]

fun numItems :: "item \<Rightarrow> nat" where
  "numItems (Item f) = 1"
| "numItems (ItemContainer f c children) = Suc (sum_list (map numItems children))"

function ItemContainer_updateChildPercentages_recursive :: "item \<Rightarrow> item" where
  "ItemContainer_updateChildPercentages_recursive this =
     (let this1 = ItemContainer_updateChildPercentages this
      in set_children
           (map (\<lambda>item. if Item_isContainer item
                         then ItemContainer_updateChildPercentages_recursive item else item)
                (m_children this1))
           this1)"
  by pat_completeness auto
termination
proof (relation "measure numItems", goal_cases)
  case 1
  show ?case by simp
next
  case (2 this this1 item)
  have fields: "numItems (map_fields g it) = numItems it" for g it
    by (cases it) simp_all
  have "sum_list (map numItems (m_children (ItemContainer_updateChildPercentages this)))
          = sum_list (map numItems (m_children this))"
    by (cases this) (simp_all add: ItemContainer_updateChildPercentages_def Let_def fields comp_def)
  moreover have "numItems item \<le> sum_list (map numItems (m_children this1))"
    using 2(2) by (simp add: member_le_sum_list)
  moreover have "sum_list (map numItems (m_children this)) < numItems this"
    using 2(2,1) by (cases this) (simp_all add: ItemContainer_updateChildPercentages_def)
  ultimately show ?case using 2(1) by simp
qed

declare ItemContainer_updateChildPercentages_recursive.simps [simp del]

text \<open>
  \<^verbatim>\<open>ItemContainer::fillFromVariantMap\<close> on a root: after the children, the percentages are
  recomputed, and under a host widget the separators.
\<close>

definition ItemContainer_fillFromVariantMap ::
  "nat \<Rightarrow> item \<Rightarrow> nat \<Rightarrow> qvariantMap \<Rightarrow> (string \<rightharpoonup> guest_t) \<Rightarrow> error + item" where
  "ItemContainer_fillFromVariantMap fuel this next_id map' widgets =
     bindE (ItemContainer_fillFromVariantMap_rec fuel this (QPoint 0 0) next_id map' widgets)
       (\<lambda>(this1, next_id').
          let this2 = ItemContainer_updateChildPercentages_recursive this1 in
          if Item_hostWidget this2 \<noteq> None
          then ItemContainer_updateSeparators_recursive fuel this2 []
          else Inr this2)"

subsection \<open>What a round trip keeps\<close>

text \<open>
  The structure of a tree, as far as a round trip through the serialization is meant to
  keep it: of every item the stored geometry, minimum size, maximum size and visibility
  flag, of every container also the orientation and its children in their order.
\<close>

datatype item_structure =
  LeafStructure qrect qsize qsize bool
| ContainerStructure qrect qsize qsize bool orientation "item_structure list"

fun structure_of :: "item \<Rightarrow> item_structure" where
  "structure_of (Item f) =
     LeafStructure (geometry (m_sizingInfo f)) (minSize (m_sizingInfo f)) (maxSize (m_sizingInfo f))
       (m_isVisible f)"
| "structure_of (ItemContainer f c children) =
     ContainerStructure (geometry (m_sizingInfo f)) (minSize (m_sizingInfo f))
       (maxSize (m_sizingInfo f)) (m_isVisible f) (m_orientation c) (map structure_of children)"

fun structure_size :: "item_structure \<Rightarrow> nat" where
  "structure_size (LeafStructure g mn mx v) = 1"
| "structure_size (ContainerStructure g mn mx v o' children) = Suc (sum_list (map structure_size children))"

text \<open>
  The percentage that \<^verbatim>\<open>updateChildPercentages\<close> gives a child: its length over the usable
  length of the container when it is visible and not being inserted, otherwise 0.  The
  percentages of a tree are up to date when every child of every container has that one.
\<close>

definition expected_percentage :: "item \<Rightarrow> item \<Rightarrow> real" where
  "expected_percentage this child =
     (if Item_isVisible child False \<and> \<not> Item_isBeingInserted child
      then real_of_int (Item_length child (ItemContainer_orientation this))
             / real_of_int (ItemContainer_usableLength this)
      else 0)"

fun percentages_up_to_date :: "item \<Rightarrow> bool" where
  "percentages_up_to_date (Item f) = True"
| "percentages_up_to_date (ItemContainer f c children) =
     list_all (\<lambda>child. percentageWithinParent (Item_sizingInfo child)
                          = expected_percentage (ItemContainer f c children) child
                        \<and> percentages_up_to_date child)
              children"

definition all_percentages :: "item \<Rightarrow> real list" where
  "all_percentages this = map (\<lambda>child. percentageWithinParent (Item_sizingInfo child)) (m_children this)"

text \<open>
  A guest that the table \<open>widgets\<close> gives back for an item changes nothing of the item's
  structure when its minimum size is the one the item has stored and the item's geometry
  is not empty; an item without a guest, or whose guest the table does not hold, is
  restored as a placeholder.
\<close>

definition guest_restorable :: "(string \<rightharpoonup> guest_t) \<Rightarrow> item \<Rightarrow> bool" where
  "guest_restorable widgets this =
     (case m_guest (fields this) of
        None \<Rightarrow> True
      | Some guest \<Rightarrow>
          (case widgets (QString_number (widget_address guest)) of
             None \<Rightarrow> True
           | Some guest' \<Rightarrow> widgetMinSize guest' = minSize (Item_sizingInfo this)
                            \<and> \<not> QRect_isEmpty (geometry (Item_sizingInfo this))))"

fun guests_restorable :: "(string \<rightharpoonup> guest_t) \<Rightarrow> item \<Rightarrow> bool" where
  "guests_restorable widgets (Item f) = guest_restorable widgets (Item f)"
| "guests_restorable widgets (ItemContainer f c children) =
     (guest_restorable widgets (ItemContainer f c children)
      \<and> list_all (guests_restorable widgets) children)"

text \<open>Notions for the proofs.\<close>

fun percentages_unblocked :: "item \<Rightarrow> bool" where
  "percentages_unblocked (Item f) = True"
| "percentages_unblocked (ItemContainer f c children) =
     (\<not> m_blockUpdatePercentages c \<and> list_all percentages_unblocked children)"

definition restored_sizingInfo :: "item \<Rightarrow> sizingInfo" where
  "restored_sizingInfo T =
     SizingInfo_default\<lparr>geometry := geometry (Item_sizingInfo T), minSize := minSize (Item_sizingInfo T),
                        maxSize := maxSize (Item_sizingInfo T)\<rparr>"

definition fill_child ::
  "nat \<Rightarrow> item \<Rightarrow> qpoint \<Rightarrow> nat \<Rightarrow> item \<Rightarrow> (string \<rightharpoonup> guest_t) \<Rightarrow> error + item \<times> nat" where
  "fill_child fuel this parentOrigin next_id T widgets =
     (if Item_isContainer T
      then ItemContainer_fillFromVariantMap_rec fuel this parentOrigin next_id (Item_toVariantMap T) widgets
      else bindE (Item_fillFromVariantMap fuel this parentOrigin (Item_toVariantMap T) widgets)
             (\<lambda>child. Inr (child, next_id)))"

text \<open>
  The skeleton of a tree: the tree without its separators and percentages, which is
  what \<^verbatim>\<open>updateSeparators\<close> and \<^verbatim>\<open>updateChildPercentages\<close> leave as it is.
\<close>

definition erase_percentage :: "item_fields \<Rightarrow> item_fields" where
  "erase_percentage f = f\<lparr>m_sizingInfo := (m_sizingInfo f)\<lparr>percentageWithinParent := 0\<rparr>\<rparr>"

fun skeleton :: "item \<Rightarrow> item" where
  "skeleton (Item f) = Item (erase_percentage f)"
| "skeleton (ItemContainer f c children) =
     ItemContainer (erase_percentage f) (c\<lparr>m_separators := []\<rparr>) (map skeleton children)"

text \<open>
  The layout of scenario S2 after the root was resized to 205 by 600 with the strategy
  \<^verbatim>\<open>Percentage\<close>: both leaves are 100 wide, and their percentages are still those from
  before the resize, because \<^verbatim>\<open>setSize_recursive\<close> blocks \<^verbatim>\<open>updateChildPercentages\<close>.
\<close>

definition S2_resized :: item where
  "S2_resized =
     container_item 0 (QRect 0 0 205 600) Horizontal
       [\<lparr>Separator_position = 100, Separator_pos2 = 0, Separator_length = 600\<rparr>]
       [placed_leaf 1 (QRect 0 0 100 600) (498 / 995), placed_leaf 2 (QRect 105 0 100 600) (497 / 995)]"


section \<open>The separator invariant\<close>

text \<open>
  What the specification asks of the separators of the container at \<open>path\<close>: there are
  \<^verbatim>\<open>max(0, visible_count - 1)\<close> of them, and separator \<open>i\<close> sits immediately after visible
  child \<open>i\<close>, at the child's trailing edge plus one along the orientation of the
  container, in root coordinates.  These two definitions follow the words of the
  specification, not \<^verbatim>\<open>requiredSeparatorPositions\<close>.
\<close>

definition expected_separator_positions :: "item \<Rightarrow> nat list \<Rightarrow> int list" where
  "expected_separator_positions rootItem path =
     (case item_at rootItem path of
        None \<Rightarrow> []
      | Some this \<Rightarrow>
          map (\<lambda>child. the (Item_mapToRoot_along rootItem path
                               (SizingInfo_edge (Item_sizingInfo child) (ItemContainer_orientation this) + 1)
                               (ItemContainer_orientation this)))
              (butlast (filter (\<lambda>child. Item_isVisible child False) (m_children this))))"

definition separators_in_place :: "item \<Rightarrow> nat list \<Rightarrow> bool" where
  "separators_in_place rootItem path =
     (case item_at rootItem path of
        None \<Rightarrow> False
      | Some this \<Rightarrow>
          int (length (m_separators (cfields this))) = max 0 (ItemContainer_numVisibleChildren this - 1)
          \<and> separator_positions this = expected_separator_positions rootItem path)"

text \<open>
  The containers that \<^verbatim>\<open>updateSeparators_recursive\<close> called on \<open>this\<close> gets to: \<open>this\<close>, and
  from a container every child container that is visible and not being inserted.
\<close>

fun reaches :: "item \<Rightarrow> nat list \<Rightarrow> bool" where
  "reaches this [] = True"
| "reaches this (i # path) =
     (i \<in> set (visibleChildIndices this False) \<and> Item_isContainer (m_children this ! i)
      \<and> reaches (m_children this ! i) path)"

definition separators_at :: "item \<Rightarrow> nat list \<Rightarrow> separator_t list option" where
  "separators_at rootItem path = map_option (\<lambda>this. m_separators (cfields this)) (item_at rootItem path)"

text \<open>
  A root without host widget, as \<^verbatim>\<open>suggestedDropRect\<close> makes one to try an insertion on
  (\<^verbatim>\<open>ItemContainer rootCopy(nullptr)\<close>), and what two insertions make of it.
\<close>

definition hostless_root :: item where
  "hostless_root = set_geometry (QRect 0 0 1000 600) (new_ItemContainer 0 None)"

definition hostless_leaf :: "nat \<Rightarrow> qrect \<Rightarrow> item" where
  "hostless_leaf i geo =
     Item \<lparr> m_id = i, m_sizingInfo = SizingInfo_default\<lparr>geometry := geo\<rparr>,
            m_isVisible = True, m_hostWidget = None, m_guest = None, m_objectName = ''null'' \<rparr>"

definition hostless_two :: item where
  "hostless_two =
     ItemContainer
       \<lparr> m_id = 0, m_sizingInfo = SizingInfo_default\<lparr>geometry := QRect 0 0 1000 600\<rparr>,
         m_isVisible = False, m_hostWidget = None, m_guest = None, m_objectName = [] \<rparr>
       (container_fields_default\<lparr>m_orientation := Horizontal\<rparr>)
       [hostless_leaf 1 (QRect 0 0 498 600), hostless_leaf 2 (QRect 503 0 497 600)]"


section \<open>Properties of the squeeze and growth loops\<close>


lemma sdiv_pos_eq_div: "0 \<le> (a::int) \<Longrightarrow> 0 < b \<Longrightarrow> a sdiv b = a div b"
  by (simp add: signed_divide_int_def sgn_if)

lemma BothSidesEqually_loop_inv:
  "0 \<le> a1 \<Longrightarrow> 0 \<le> a2 \<Longrightarrow> t \<le> a1 + a2 \<Longrightarrow>
   \<exists>g1 g2. BothSidesEqually_loop t a1 a2 s1 s2 = Some (Inr (g1, g2))
     \<and> g1 + g2 = s1 + s2 + max 0 t \<and> s1 \<le> g1 \<and> g1 \<le> s1 + a1 \<and> s2 \<le> g2 \<and> g2 \<le> s2 + a2"
proof (induction "nat t" arbitrary: t a1 a2 s1 s2 rule: less_induct)
  case less
  show ?case
  proof (cases "t > 0")
    case False
    then show ?thesis using less.prems
      by (subst BothSidesEqually_loop.simps) simp
  next
    case tpos: True
    show ?thesis
    proof (cases "a1 = 0")
      case True
      then show ?thesis using tpos less.prems
        by (subst BothSidesEqually_loop.simps) simp
    next
      case a1: False
      show ?thesis
      proof (cases "a2 = 0")
        case True
        then show ?thesis using tpos a1 less.prems
          by (subst BothSidesEqually_loop.simps) simp
      next
        case a2: False
        define toTake where "toTake = max 1 (t sdiv 2)"
        define took1 where "took1 = min toTake a1"
        define took2 where "took2 = min toTake a2"
        have tt: "toTake = max 1 (t div 2)"
          using tpos by (simp add: toTake_def sdiv_pos_eq_div)
        have k1: "1 \<le> took1" "took1 \<le> a1" "took1 \<le> toTake"
          using a1 less.prems by (auto simp: took1_def tt)
        have k2: "1 \<le> took2" "took2 \<le> a2" "took2 \<le> toTake"
          using a2 less.prems by (auto simp: took2_def tt)
        have le_t: "took1 \<le> t" using k1 tpos by (auto simp: tt)
        show ?thesis
        proof (cases "t - took1 = 0")
          case True
          have "BothSidesEqually_loop t a1 a2 s1 s2 = Some (Inr (s1 + took1, s2))"
            using tpos a1 a2 True
            by (subst BothSidesEqually_loop.simps) (simp add: Let_def toTake_def took1_def)
          then show ?thesis using True k1 less.prems tpos by auto
        next
          case rem: False
          have t2: "2 \<le> t" using rem k1 tpos by (auto simp: tt took1_def split: if_splits)
          have nonneg: "0 \<le> t - took1 - took2" using k1 k2 t2 by (auto simp: tt)
          have step: "BothSidesEqually_loop t a1 a2 s1 s2 =
              BothSidesEqually_loop (t - took1 - took2) (a1 - took1) (a2 - took2) (s1 + took1) (s2 + took2)"
            using tpos a1 a2 rem
            by (subst BothSidesEqually_loop.simps) (simp add: Let_def toTake_def took1_def took2_def)
          have "nat (t - took1 - took2) < nat t" using k1 k2 tpos by auto
          from less.hyps[OF this, of "a1 - took1" "a2 - took2" "s1 + took1" "s2 + took2"]
          obtain g1 g2 where
            "BothSidesEqually_loop (t - took1 - took2) (a1 - took1) (a2 - took2) (s1 + took1) (s2 + took2)
               = Some (Inr (g1, g2))"
            "g1 + g2 = s1 + took1 + (s2 + took2) + max 0 (t - took1 - took2)"
            "s1 + took1 \<le> g1" "g1 \<le> s1 + took1 + (a1 - took1)"
            "s2 + took2 \<le> g2" "g2 \<le> s2 + took2 + (a2 - took2)"
            using k1 k2 less.prems by auto
          then show ?thesis using step nonneg k1 k2 tpos by auto
        qed
      qed
    qed
  qed
qed













subsection \<open>The loops against the rules in the words of the specification\<close>

lemma int_wrap_id: "- 2147483648 \<le> x \<Longrightarrow> x < 2147483648 \<Longrightarrow> int_wrap x = x"
  by (simp add: int_wrap_def)

lemma int_wrap_range: "- 2147483648 \<le> int_wrap x \<and> int_wrap x < 2147483648"
  by (simp add: int_wrap_def)

lemma LengthOnSide_available_range:
  "0 \<le> LengthOnSide_available l \<and> LengthOnSide_available l < 2147483648"
  using int_wrap_range [of "los_length l - los_minLength l"]
  by (simp add: LengthOnSide_available_def)

lemma BothSidesEqually_loop_refines:
  "0 \<le> a1 \<Longrightarrow> 0 \<le> a2 \<Longrightarrow> t \<le> a1 + a2 \<Longrightarrow>
   BothSidesEqually_loop t a1 a2 s1 s2
     = Some (Inr (s1 + fst (BothSidesEqually_spec t a1 a2), s2 + snd (BothSidesEqually_spec t a1 a2)))"
proof (induction "nat t" arbitrary: t a1 a2 s1 s2 rule: less_induct)
  case less
  show ?case
  proof (cases "t > 0")
    case False
    then have "BothSidesEqually_spec t a1 a2 = (0, 0)"
      by (subst BothSidesEqually_spec.simps) simp
    moreover have "BothSidesEqually_loop t a1 a2 s1 s2 = Some (Inr (s1, s2))"
      using False by (subst BothSidesEqually_loop.simps) simp
    ultimately show ?thesis by simp
  next
    case tpos: True
    show ?thesis
    proof (cases "a1 = 0")
      case True
      then have "BothSidesEqually_spec t a1 a2 = (0, t)"
        using tpos by (subst BothSidesEqually_spec.simps) simp
      moreover have "BothSidesEqually_loop t a1 a2 s1 s2 = Some (Inr (s1, s2 + t))"
        using True tpos less.prems by (subst BothSidesEqually_loop.simps) simp
      ultimately show ?thesis by simp
    next
      case a1: False
      show ?thesis
      proof (cases "a2 = 0")
        case True
        then have "BothSidesEqually_spec t a1 a2 = (t, 0)"
          using tpos a1 less.prems(1) by (subst BothSidesEqually_spec.simps) simp
        moreover have "BothSidesEqually_loop t a1 a2 s1 s2 = Some (Inr (s1 + t, s2))"
          using True tpos a1 less.prems by (subst BothSidesEqually_loop.simps) simp
        ultimately show ?thesis by simp
      next
        case a2: False
        define toTake where "toTake = max 1 (t div 2)"
        define took1 where "took1 = min toTake a1"
        define took2 where "took2 = min toTake a2"
        have tt: "max 1 (t sdiv 2) = toTake"
          using tpos by (simp add: toTake_def sdiv_pos_eq_div)
        have k1: "1 \<le> took1" "took1 \<le> a1" "took1 \<le> toTake"
          using a1 less.prems by (auto simp: took1_def toTake_def)
        have k2: "1 \<le> took2" "took2 \<le> a2" "took2 \<le> toTake"
          using a2 less.prems by (auto simp: took2_def toTake_def)
        have unf: "BothSidesEqually_loop t a1 a2 s1 s2 =
            (if t - took1 = 0 then Some (Inr (s1 + took1, s2))
             else BothSidesEqually_loop (t - took1 - took2) (a1 - took1) (a2 - took2)
                    (s1 + took1) (s2 + took2))"
          using tpos a1 a2
          by (subst BothSidesEqually_loop.simps) (simp add: Let_def tt took1_def took2_def)
        have spec: "BothSidesEqually_spec t a1 a2 =
            (if t - took1 = 0
             then (took1 + fst (BothSidesEqually_spec (t - took1 - 0) (a1 - took1) (a2 - 0)),
                   0 + snd (BothSidesEqually_spec (t - took1 - 0) (a1 - took1) (a2 - 0)))
             else (took1 + fst (BothSidesEqually_spec (t - took1 - took2) (a1 - took1) (a2 - took2)),
                   took2 + snd (BothSidesEqually_spec (t - took1 - took2) (a1 - took1) (a2 - took2))))"
          using tpos a1 a2 less.prems(1,2)
          by (subst BothSidesEqually_spec.simps)
             (simp add: Let_def toTake_def took1_def took2_def)
        show ?thesis
        proof (cases "t - took1 = 0")
          case True
          have "BothSidesEqually_spec (t - took1 - 0) (a1 - took1) (a2 - 0) = (0, 0)"
            using True by (subst BothSidesEqually_spec.simps) simp
          then show ?thesis using True unfolding unf spec by simp
        next
          case rem: False
          have "nat (t - took1 - took2) < nat t" using k1 k2 tpos by auto
          moreover have "0 \<le> a1 - took1" "0 \<le> a2 - took2" using k1 k2 by simp_all
          moreover have "t - took1 - took2 \<le> (a1 - took1) + (a2 - took2)" using less.prems by simp
          ultimately have "BothSidesEqually_loop (t - took1 - took2) (a1 - took1) (a2 - took2)
                (s1 + took1) (s2 + took2)
              = Some (Inr (s1 + took1 + fst (BothSidesEqually_spec (t - took1 - took2) (a1 - took1) (a2 - took2)),
                           s2 + took2 + snd (BothSidesEqually_spec (t - took1 - took2) (a1 - took1) (a2 - took2))))"
            by (rule less.hyps)
          then show ?thesis using rem unfolding unf spec by simp
        qed
      qed
    qed
  qed
qed












section \<open>growItem with BothSidesEqually\<close>

text \<open>
  Claim C4, counterexample.  Two calls of \<^verbatim>\<open>growItem\<close> with \<^verbatim>\<open>BothSidesEqually\<close> that meet
  the precondition \<open>toSteal \<le> available1 + available2\<close> and pass nothing on that sums to
  \<open>toSteal\<close>.  In the first, the middle one of three sizes is to grow by -10, each side
  has 220 to give, the loop is not entered and leaves the amounts 0 and 0, whose sum
  is not -10; \<^verbatim>\<open>shrinkNeighbours\<close> fails its assertion that one of the amounts is positive.
  In the second it is to grow by 100 and a new separator, and each side has 2147483567
  to give: the sum of the two, computed in a C++ \<^verbatim>\<open>int\<close>, is negative, and \<^verbatim>\<open>growItem\<close> fails
  its assertion on the precondition although 105 is less than the sum.
\<close>

theorem growItem_BothSidesEqually_counterexample:
  "LengthOnSide_available
      (ItemContainer_lengthOnSide (growItem_grown Horizontal 600 1 three_sizes (- 10)) (1 - 1) Side1
         Horizontal) = 220
   \<and> LengthOnSide_available
      (ItemContainer_lengthOnSide (growItem_grown Horizontal 600 1 three_sizes (- 10)) (1 + 1) Side2
         Horizontal) = 220
   \<and> BothSidesEqually_loop (- 10) 220 220 0 0 = Some (Inr (0, 0))
   \<and> ItemContainer_growItem_sizes Horizontal 600 1 three_sizes (- 10) BothSidesEqually AllNeighbours
       False = Inl AssertFailed
   \<and> LengthOnSide_available
      (ItemContainer_lengthOnSide (growItem_grown Horizontal 600 1 wide_sizes 100) (1 - 1) Side1
         Horizontal) = 2147483567
   \<and> LengthOnSide_available
      (ItemContainer_lengthOnSide (growItem_grown Horizontal 600 1 wide_sizes 100) (1 + 1) Side2
         Horizontal) = 2147483567
   \<and> ItemContainer_growItem_sizes Horizontal 600 1 wide_sizes 100 BothSidesEqually AllNeighbours
       True = Inl AssertFailed"
  by code_simp

text \<open>
  Claim C4, amended.  \<^verbatim>\<open>growItem\<close> with \<^verbatim>\<open>GrowthStrategy::BothSidesEqually\<close>, when something
  is to be stolen (\<open>0 < toSteal\<close>), under the precondition
  \<open>toSteal \<le> available1 + available2\<close> and with that sum within the range of a C++ \<^verbatim>\<open>int\<close>,
  runs its loop to the end, and the loop computes what the rule of the specification
  says (\<open>BothSidesEqually_spec\<close>): each round takes \<open>max 1 (remaining / 2)\<close> from side 1 and
  then from side 2, bounded by what the side has left, and a side that is exhausted
  leaves the whole remainder to the other.  The two amounts are then passed to
  \<^verbatim>\<open>shrinkNeighbours\<close>; they sum exactly to \<open>toSteal\<close>, and each is within the capacity of
  its side.
\<close>

theorem growItem_BothSidesEqually_steals_exactly:
  assumes "0 \<le> index" and "index < int (length sizes)"
    and "sizes1 = growItem_grown o' oppLen (nat index) sizes missing"
    and "available1 = LengthOnSide_available (ItemContainer_lengthOnSide sizes1 (index - 1) Side1 o')"
    and "available2 = LengthOnSide_available (ItemContainer_lengthOnSide sizes1 (index + 1) Side2 o')"
    and "toSteal = int_wrap (missing + (if accountForNewSeparator then separatorThickness else 0))"
    and "0 < toSteal" and "toSteal \<le> available1 + available2"
    and "available1 + available2 \<le> 2147483647"
  shows "BothSidesEqually_loop toSteal available1 available2 0 0
           = Some (Inr (BothSidesEqually_spec toSteal available1 available2))
         \<and> (case BothSidesEqually_spec toSteal available1 available2 of
              (side1Growth, side2Growth) \<Rightarrow>
                side1Growth + side2Growth = toSteal
              \<and> 0 \<le> side1Growth \<and> side1Growth \<le> available1
              \<and> 0 \<le> side2Growth \<and> side2Growth \<le> available2
              \<and> (available1 = 0 \<longrightarrow> side2Growth = toSteal)
              \<and> (available2 = 0 \<longrightarrow> side1Growth = toSteal)
              \<and> ItemContainer_growItem_sizes o' oppLen index sizes missing BothSidesEqually strategy
                   accountForNewSeparator
                 = ItemContainer_shrinkNeighbours o' (nat index) sizes1 side1Growth side2Growth
                     strategy)"
proof -
  have a1: "0 \<le> available1" and a2: "0 \<le> available2"
    using assms(4,5) by (simp_all add: LengthOnSide_available_def)
  obtain g1 g2 where spec: "BothSidesEqually_spec toSteal available1 available2 = (g1, g2)"
    by (cases "BothSidesEqually_spec toSteal available1 available2") auto
  have loop: "BothSidesEqually_loop toSteal available1 available2 0 0 = Some (Inr (g1, g2))"
    using BothSidesEqually_loop_refines[OF a1 a2 assms(8), of 0 0] spec by simp
  from BothSidesEqually_loop_inv[OF a1 a2 assms(8), of 0 0] loop
  have g: "g1 + g2 = toSteal" "0 \<le> g1" "g1 \<le> available1" "0 \<le> g2" "g2 \<le> available2"
    using assms(7) by auto
  have len1: "length sizes1 = length sizes"
    using assms(3) by (simp add: growItem_grown_def)
  have neighbours: "length sizes \<noteq> 1"
  proof
    assume alone: "length sizes = 1"
    then have "index = 0" using assms(1,2) by simp
    then have "available1 = 0" "available2 = 0"
      using alone len1 assms(4,5)
      by (simp_all add: ItemContainer_lengthOnSide_def LengthOnSide_available_def int_wrap_def)
    then show False using assms(7,8) by simp
  qed
  have sum: "int_wrap (available1 + available2) = available1 + available2"
    using a1 a2 assms(9) by (intro int_wrap_id) simp_all
  have grow: "ItemContainer_growItem_sizes o' oppLen index sizes missing BothSidesEqually strategy
                accountForNewSeparator
              = ItemContainer_shrinkNeighbours o' (nat index) sizes1 g1 g2 strategy"
    using assms(1,2,7,8) neighbours loop len1 sum
    unfolding ItemContainer_growItem_sizes_def assms(6)[symmetric] Let_def assms(3)[symmetric]
      assms(4)[symmetric] assms(5)[symmetric]
    by (simp add: loop_result_def bindE_def)
  have "available1 = 0 \<longrightarrow> g2 = toSteal" using g by auto
  moreover have "available2 = 0 \<longrightarrow> g1 = toSteal" using g by auto
  ultimately show ?thesis using g grow loop spec by simp
qed

theorem growItem_BothSidesEqually_steals_exactly_witness:
  "BothSidesEqually_loop 105 220 220 0 0 = Some (Inr (53, 52))
   \<and> BothSidesEqually_spec 105 220 220 = (53, 52)
   \<and> ItemContainer_growItem_sizes Horizontal 600 1 three_sizes 100 BothSidesEqually AllNeighbours True
       = ItemContainer_shrinkNeighbours Horizontal 1
           (growItem_grown Horizontal 600 1 three_sizes 100) 53 52 AllNeighbours"
proof -
  have s1: "growItem_grown Horizontal 600 1 three_sizes 100
              = growItem_grown Horizontal 600 (nat 1) three_sizes 100"
    by simp
  have av1: "(220::int) = LengthOnSide_available
      (ItemContainer_lengthOnSide (growItem_grown Horizontal 600 1 three_sizes 100) (1 - 1) Side1
         Horizontal)"
    by code_simp
  have av2: "(220::int) = LengthOnSide_available
      (ItemContainer_lengthOnSide (growItem_grown Horizontal 600 1 three_sizes 100) (1 + 1) Side2
         Horizontal)"
    by code_simp
  have ts: "(105::int) = int_wrap (100 + (if True then separatorThickness else 0))"
    by code_simp
  have sp: "BothSidesEqually_spec 105 220 220 = (53, 52)"
    by code_simp
  have "(0::int) \<le> 1" "(1::int) < int (length three_sizes)"
    "(0::int) < 105" "(105::int) \<le> 220 + 220" "(220::int) + 220 \<le> 2147483647"
    by (simp_all add: three_sizes_def)
  from growItem_BothSidesEqually_steals_exactly[OF this(1,2) s1 av1 av2 ts this(3,4,5),
      of AllNeighbours]
  show ?thesis unfolding sp by simp
qed

section \<open>calculateSqueezes with AllNeighbours\<close>



text \<open>
  Three donors of 10 pixels and 25 pixels needed: the first round asks 8 of each, the
  second asks the one pixel that is still missing of the first donor.
\<close>

lemma calculateSqueezes_AllNeighbours_rounds:
  "ItemContainer_calculateSqueezes Horizontal [donor10, donor10, donor10] 25 AllNeighbours False
     = Inr [9, 8, 8]
   \<and> AllNeighbours_spec [10, 10, 10] 25 = [9, 8, 8]"
  by code_simp

section \<open>defaultLengthFor\<close>

text \<open>
  Claim C6, counterexample.  A container 100 wide with one visible child gives a new item
  of minimum width 80 the default length 80 in \<^verbatim>\<open>DefaultSizeMode::Fair\<close>, not the fair
  share \<open>(100 - 5) / 2 = 47\<close>.
\<close>

theorem defaultLengthFor_Fair_counterexample:
  "ItemContainer_defaultLengthFor narrow_container new_leaf DefaultSizeMode_Fair = 80
   \<and> (ItemContainer_length narrow_container
        - separatorThickness * ItemContainer_numVisibleChildren narrow_container)
       sdiv (ItemContainer_numVisibleChildren narrow_container + 1) = 47"
  by (simp add: ItemContainer_defaultLengthFor.simps narrow_container_def new_leaf_def
      container_item_def leaf_item_def ItemContainer_numVisibleChildren_def ItemContainer_length_def
      ItemContainer_isVertical_def ItemContainer_orientation_def Item_width_def Item_height_def
      Item_sizingInfo_def Item_minLength_def length_along_def SizingInfo_default_def
      container_fields_default_def separatorThickness_def signed_divide_int_def Let_def)

text \<open>
  Claim C6, amended.  In \<^verbatim>\<open>DefaultSizeMode::Fair\<close> the default length is the larger of the
  item's minimum length and the fair share
  \<open>(length - separatorThickness * visible_count) / (visible_count + 1)\<close> along the
  container's axis; in every mode the default length is at least the item's minimum length.
\<close>

theorem defaultLengthFor_Fair_and_lower_bound:
  "ItemContainer_defaultLengthFor q item' DefaultSizeMode_Fair
     = max (Item_minLength item' (ItemContainer_orientation q))
           ((ItemContainer_length q - separatorThickness * ItemContainer_numVisibleChildren q)
              sdiv (ItemContainer_numVisibleChildren q + 1))
   \<and> (\<forall>mode. Item_minLength item' (ItemContainer_orientation q)
                \<le> ItemContainer_defaultLengthFor q item' mode)"
proof
  show "ItemContainer_defaultLengthFor q item' DefaultSizeMode_Fair
     = max (Item_minLength item' (ItemContainer_orientation q))
           ((ItemContainer_length q - separatorThickness * ItemContainer_numVisibleChildren q)
              sdiv (ItemContainer_numVisibleChildren q + 1))"
    by (subst ItemContainer_defaultLengthFor.simps) (simp add: Let_def)
next
  show "\<forall>mode. Item_minLength item' (ItemContainer_orientation q)
                \<le> ItemContainer_defaultLengthFor q item' mode"
  proof
    fix mode
    show "Item_minLength item' (ItemContainer_orientation q)
            \<le> ItemContainer_defaultLengthFor q item' mode"
      by (subst ItemContainer_defaultLengthFor.simps) (simp add: Let_def)
  qed
qed

section \<open>mapToRoot and mapFromRoot\<close>

lemma QPoint_plus_minus [simp]:
  "QPoint_minus (QPoint_plus p q) q = p" "QPoint_plus (QPoint_minus p q) q = p"
  "QPoint_plus p (QPoint 0 0) = p" "QPoint_minus p (QPoint 0 0) = p"
  by (cases p; cases q; simp add: QPoint_plus_def QPoint_minus_def)+

lemma QPoint_plus_assoc: "QPoint_plus (QPoint_plus p q) r = QPoint_plus p (QPoint_plus q r)"
  by (simp add: QPoint_plus_def)

lemma QPoint_minus_plus: "QPoint_minus (QPoint_minus p q) r = QPoint_minus p (QPoint_plus q r)"
  by (simp add: QPoint_plus_def QPoint_minus_def)

lemma item_at_append:
  "item_at rootItem (path @ [i]) =
     (case item_at rootItem path of
        None \<Rightarrow> None
      | Some it \<Rightarrow> if i < length (m_children it) then Some (m_children it ! i) else None)"
  by (induction path arbitrary: rootItem) auto

lemma item_at_butlast:
  "item_at rootItem path = Some it \<Longrightarrow> path \<noteq> [] \<Longrightarrow> \<exists>parent. item_at rootItem (butlast path) = Some parent"
  by (cases path rule: rev_cases) (auto simp: item_at_append split: option.splits)

lemma Item_mapToRoot_offset:
  "item_at rootItem path = Some it \<Longrightarrow>
   Item_mapToRoot rootItem path p = Some (QPoint_plus p (path_offset rootItem path))"
proof (induction path arbitrary: it p rule: rev_induct)
  case Nil
  then show ?case
    by (subst Item_mapToRoot.simps, subst path_offset.simps) simp
next
  case (snoc i path)
  from item_at_butlast[OF snoc.prems] obtain parent where par: "item_at rootItem path = Some parent"
    by auto
  show ?case
    using snoc.IH[OF par] snoc.prems
    by (subst Item_mapToRoot.simps, subst path_offset.simps) (simp add: QPoint_plus_assoc)
qed

lemma Item_mapFromRoot_offset:
  "item_at rootItem path = Some it \<Longrightarrow>
   Item_mapFromRoot rootItem path p
     = Some (QPoint_minus p (QPoint_plus (path_offset rootItem path) (Item_pos rootItem)))"
proof (induction path arbitrary: it p rule: rev_induct)
  case Nil
  then show ?case
    by (subst Item_mapFromRoot.simps, subst path_offset.simps) (simp add: QPoint_plus_def)
next
  case (snoc i path)
  from item_at_butlast[OF snoc.prems] obtain parent where par: "item_at rootItem path = Some parent"
    by auto
  show ?case
    using snoc.IH[OF par] snoc.prems
    by (subst Item_mapFromRoot.simps, subst path_offset.simps)
       (simp add: Let_def QPoint_minus_plus QPoint_plus_assoc)
qed

text \<open>
  Claim C10.  For every item of a tree whose root is positioned at the origin, \<^verbatim>\<open>mapToRoot\<close>
  and \<^verbatim>\<open>mapFromRoot\<close> are inverse to each other on points: mapping a point to root
  coordinates and back, or from root coordinates and back, returns the point.
\<close>

theorem mapToRoot_mapFromRoot_inverse:
  assumes "item_at rootItem path = Some this" and "Item_pos rootItem = QPoint 0 0"
  shows "Option.bind (Item_mapToRoot rootItem path p) (Item_mapFromRoot rootItem path) = Some p
       \<and> Option.bind (Item_mapFromRoot rootItem path p) (Item_mapToRoot rootItem path) = Some p"
  using assms
  by (simp add: Item_mapToRoot_offset[OF assms(1)] Item_mapFromRoot_offset[OF assms(1)])

theorem mapToRoot_mapFromRoot_inverse_witness:
  "item_at nested_root [1, 1] = Some (leaf_item 4 (QRect 0 305 595 295) (QSize 80 90) True)
   \<and> Item_pos nested_root = QPoint 0 0
   \<and> Item_mapToRoot nested_root [1, 1] (QPoint 3 4) = Some (QPoint 408 309)
   \<and> Option.bind (Item_mapToRoot nested_root [1, 1] (QPoint 3 4)) (Item_mapFromRoot nested_root [1, 1])
       = Some (QPoint 3 4)
   \<and> Option.bind (Item_mapFromRoot nested_root [1, 1] (QPoint 3 4)) (Item_mapToRoot nested_root [1, 1])
       = Some (QPoint 3 4)"
proof -
  have a: "item_at nested_root [1, 1] = Some (leaf_item 4 (QRect 0 305 595 295) (QSize 80 90) True)"
    by (simp add: nested_root_def container_item_def)
  have b: "Item_pos nested_root = QPoint 0 0"
    by (simp add: nested_root_def container_item_def Item_pos_def Item_sizingInfo_def QRect_topLeft_def)
  have c: "Item_mapToRoot nested_root [1, 1] (QPoint 3 4) = Some (QPoint 408 309)"
    by (simp add: Item_mapToRoot.simps nested_root_def container_item_def leaf_item_def Item_pos_def
        Item_sizingInfo_def QRect_topLeft_def QPoint_plus_def)
  show ?thesis
    using mapToRoot_mapFromRoot_inverse[OF a b, of "QPoint 3 4"] a b c by simp
qed

section \<open>Scenario S2: a second leaf on the right of the root\<close>

lemma S1_root_reached:
  "ItemContainer_insertItem 10 fresh_root [] (new_item 1) None Location_OnLeft DefaultSizeMode_Fair
     AddingOption_None 100 = Inr S1_root"
  by code_simp

text \<open>
  Claim C1, counterexample.  Inserting L2 on the right of the root that holds L1 gives
  L1 the geometry (0,0,498,600), not (0,0,497,600), puts the separator at 498, not 497,
  and gives L2 the geometry (503,0,497,600), not (502,0,498,600): the new item gets the
  rounded-down fair share 497 and L1 keeps the rest.
\<close>

theorem insertItem_S2_counterexample:
  "ItemContainer_insertItem 10 S1_root [] (new_item 2) None Location_OnRight DefaultSizeMode_Fair
     AddingOption_None 100 = Inr S2_root
   \<and> visible_geometries S2_root \<noteq> [QRect 0 0 497 600, QRect 502 0 498 600]
   \<and> separator_positions S2_root \<noteq> [497]"
  by code_simp

text \<open>
  Claim C1, amended.  Starting from the root (0,0,1000,600) that holds the single visible
  leaf L1, inserting a leaf L2 at \<^verbatim>\<open>Location_OnRight\<close> with \<^verbatim>\<open>DefaultSizeMode::Fair\<close> yields two
  visible children with L1 at (0,0,498,600), exactly one separator, at x = 498 and of
  thickness 5, and L2 at (503,0,497,600).
\<close>

theorem insertItem_S2_geometry:
  "ItemContainer_insertItem 10 S1_root [] (new_item 2) None Location_OnRight DefaultSizeMode_Fair
     AddingOption_None 100 = Inr S2_root
   \<and> length (m_children S2_root) = 2
   \<and> visible_geometries S2_root = [QRect 0 0 498 600, QRect 503 0 497 600]
   \<and> separator_positions S2_root = [498]
   \<and> separatorThickness = 5"
  by code_simp

section \<open>Scenario S5: a separator dragged beyond the minimum\<close>

lemma S2_spec_root_reached:
  "ItemContainer_requestSeparatorMove 10 S2_root [] 0 (- 1) = Inr S2_spec_root"
  by code_simp

text \<open>
  Claim C2, counterexample.  In the configuration of S2 (L1 497 wide, separator at 497,
  L2 498 wide) the request to move the separator by -450 leaves the layout as it is:
  L1 is still 497 wide, not 80.
\<close>

theorem requestSeparatorMove_beyond_min_counterexample:
  "ItemContainer_requestSeparatorMove 10 S2_spec_root [] 0 (- 450) = Inr S2_spec_root
   \<and> visible_geometries S2_spec_root = [QRect 0 0 497 600, QRect 502 0 498 600]
   \<and> visible_geometries S2_spec_root \<noteq> [QRect 0 0 80 600, QRect 85 0 915 600]"
  by code_simp

lemma S2_spec_root_separator:
  "item_at S2_spec_root [] = Some S2_spec_root"
  "ItemContainer_indexOf_separator S2_spec_root 0 = 0"
  "Separator_position (m_separators (cfields S2_spec_root) ! 0) = 497"
  "ItemContainer_minPosForSeparator_global S2_spec_root [] 0 = Inr 80"
  "ItemContainer_maxPosForSeparator_global S2_spec_root [] 0 = Inr 915"
  by code_simp+

text \<open>
  Claim C2, amended.  In the configuration of S2 the separator may be anywhere from 80
  to 915.  A request to move it by -450 fails this bounds check (497 - 450 = 47 is less
  than 80) and nothing moves: no partial move is applied.  The same holds of every
  request to move it by less than -417 (by \<open>- 418 - n\<close>, for any natural number \<open>n\<close>).  The
  largest move to the left that is accepted is -417; it shrinks L1 to its minimum width
  80, puts the separator at 80 and gives L2 the geometry (85,0,915,600).
\<close>

theorem requestSeparatorMove_beyond_min_rejected:
  "ItemContainer_minPosForSeparator_global S2_spec_root [] 0 = Inr 80
   \<and> ItemContainer_maxPosForSeparator_global S2_spec_root [] 0 = Inr 915
   \<and> ItemContainer_requestSeparatorMove 10 S2_spec_root [] 0 (- 450) = Inr S2_spec_root
   \<and> ItemContainer_requestSeparatorMove (Suc fuel) S2_spec_root [] 0 (- 418 - int n)
       = Inr S2_spec_root
   \<and> geometries_at [] (ItemContainer_requestSeparatorMove 10 S2_spec_root [] 0 (- 417))
       = Inr [QRect 0 0 80 600, QRect 85 0 915 600]
   \<and> map_sum id separator_positions (ItemContainer_requestSeparatorMove 10 S2_spec_root [] 0 (- 417))
       = Inr [80]"
proof -
  have bounds: "ItemContainer_minPosForSeparator_global S2_spec_root [] 0 = Inr 80
     \<and> ItemContainer_maxPosForSeparator_global S2_spec_root [] 0 = Inr 915
     \<and> ItemContainer_requestSeparatorMove 10 S2_spec_root [] 0 (- 450) = Inr S2_spec_root"
    by code_simp
  have accepted: "geometries_at [] (ItemContainer_requestSeparatorMove 10 S2_spec_root [] 0 (- 417))
       = Inr [QRect 0 0 80 600, QRect 85 0 915 600]
     \<and> map_sum id separator_positions
         (ItemContainer_requestSeparatorMove 10 S2_spec_root [] 0 (- 417)) = Inr [80]"
    by code_simp
  have rejected: "ItemContainer_requestSeparatorMove (Suc fuel) S2_spec_root [] 0 (- 418 - int n)
                    = Inr S2_spec_root"
    by (subst ItemContainer_requestSeparatorMove.simps)
       (simp add: S2_spec_root_separator bindE_def Let_def)
  show ?thesis using bounds accepted rejected by simp
qed

section \<open>insertItem of an item that is already in the tree\<close>

text \<open>
  Claim C8, counterexample.  After three insertions the root holds L1 and a container, and
  the container holds L2 and L3.  L3 is in the tree, but \<^verbatim>\<open>insertItem\<close> on the root
  looks for it among the root's own children only, does not find it and inserts it: the
  root has a third child, so the call was no no-op.
\<close>

theorem insertItem_already_in_tree_counterexample:
  "map_sum id child_ids three_insertions = Inr [1, 102]
   \<and> map_sum id (\<lambda>r. ItemContainer_contains_recursive r 3) three_insertions = Inr True
   \<and> map_sum id (\<lambda>r. map_option Item_id (item_at r [1, 1])) three_insertions = Inr (Some 3)
   \<and> map_sum id child_ids (bindE three_insertions (insert_again [1, 1] Location_OnRight))
       = Inr [1, 102, 3]"
  by code_simp

text \<open>
  Claim C8, amended.  \<^verbatim>\<open>insertItem\<close> on a container with an item that is already one of
  the direct children of that container is a no-op: the tree is returned unchanged.
\<close>

theorem insertItem_of_child_is_noop:
  assumes "item_at rootItem path = Some this"
    and "ItemContainer_contains this (Item_id item')"
    and "Item_id item' \<noteq> Item_id this"
    and "0 < fuel"
  shows "ItemContainer_insertItem fuel rootItem path item' m_parent loc defaultSizeMode' addingOption' new_id
           = Inr rootItem"
  using assms by (subst ItemContainer_insertItem.simps) simp

theorem insertItem_of_child_is_noop_witness:
  "item_at nested_root [1] = Some (m_children nested_root ! 1)
   \<and> ItemContainer_contains (m_children nested_root ! 1) 3
   \<and> ItemContainer_insertItem 10 nested_root [1] (leaf_item 3 (QRect 0 0 595 300) (QSize 80 90) True)
        (Some [1]) Location_OnBottom DefaultSizeMode_Fair AddingOption_None 100 = Inr nested_root"
proof -
  have a: "item_at nested_root [1] = Some (m_children nested_root ! 1)"
    by (simp add: nested_root_def container_item_def)
  have b: "ItemContainer_contains (m_children nested_root ! 1)
             (Item_id (leaf_item 3 (QRect 0 0 595 300) (QSize 80 90) True))"
    by (simp add: nested_root_def container_item_def leaf_item_def ItemContainer_contains_def Item_id_def)
  have c: "Item_id (leaf_item 3 (QRect 0 0 595 300) (QSize 80 90) True) \<noteq> Item_id (m_children nested_root ! 1)"
    by (simp add: nested_root_def container_item_def leaf_item_def Item_id_def)
  have d: "(0::nat) < 10" by simp
  have e: "Item_id (leaf_item 3 (QRect 0 0 595 300) (QSize 80 90) True) = 3"
    by (simp add: leaf_item_def Item_id_def)
  show ?thesis
    using insertItem_of_child_is_noop[OF a b c d, of "Some [1]" Location_OnBottom DefaultSizeMode_Fair
        AddingOption_None 100] a b e
    by simp
qed

section \<open>requestSeparatorMove: the separator further up\<close>

text \<open>
  Claim C9, the failing input.  After the six insertions the innermost container, at path
  \<open>[1, 0, 0, 0]\<close>, holds L4 (121 wide, 41 above its minimum) and L6, with its separator at
  624 in root coordinates.  The bounds check admits positions down to 165, since L1 in the
  root can give 418 more.  A move by -41 is absorbed by L4.  A move by -42 passes the
  bounds check, takes 41 from L4 and has 1 left; the container is not the root, and
  \<^verbatim>\<open>neighbourSeparator\<close>, asked in the parent, stops at the first ancestor of horizontal
  orientation (path \<open>[1, 0]\<close>), where this branch is the first child and has no separator
  on side 1: it returns the null pointer, which \<^verbatim>\<open>requestSeparatorMove\<close> dereferences.
\<close>

theorem requestSeparatorMove_null_neighbour_separator:
  "geometries_at [1, 0, 0, 0] six_insertions = Inr [QRect 0 0 121 147, QRect 126 0 120 147]
   \<and> bindE six_insertions (\<lambda>r. ItemContainer_minPosForSeparator_global r [1, 0, 0, 0] 0) = Inr 165
   \<and> bindE six_insertions (\<lambda>r. Inr (map_option separator_positions (item_at r [1, 0, 0, 0]))) = Inr (Some [624])
   \<and> geometries_at [1, 0, 0, 0]
        (bindE six_insertions (\<lambda>r. ItemContainer_requestSeparatorMove 10 r [1, 0, 0, 0] 0 (- 41)))
       = Inr [QRect 0 0 80 147, QRect 85 0 161 147]
   \<and> bindE six_insertions (\<lambda>r. Inr (ItemContainer_neighbourSeparator r [1, 0, 0] 105 Side1 Horizontal))
       = Inr None
   \<and> bindE six_insertions (\<lambda>r. ItemContainer_requestSeparatorMove 10 r [1, 0, 0, 0] 0 (- 42))
       = Inl NullPointerDereference"
  by code_simp

section \<open>Serialization round trip\<close>

subsection \<open>Reading back what was written\<close>

lemma QString_number_not_empty: "QString_number n \<noteq> []"
  by (subst QString_number.simps) simp

lemma Qt_Orientation_value_inverse: "Qt_Orientation (Qt_Orientation_value o') = Some o'"
  by (cases o') (simp_all add: Qt_Orientation_def Qt_Orientation_value_def)

lemma mapToRect_rectToMap: "mapToRect (rectToMap r) = r"
  by (cases r) (simp add: mapToRect_def rectToMap_def QVariantMap_value_def QVariant_toInt_def)

lemma mapToSize_sizeToMap: "mapToSize (sizeToMap s) = s"
  by (cases s) (simp add: mapToSize_def sizeToMap_def QVariantMap_value_def QVariant_toInt_def)

lemma SizingInfo_fromVariantMap_toVariantMap:
  "SizingInfo_fromVariantMap (SizingInfo_toVariantMap s) =
     SizingInfo_default\<lparr>geometry := geometry s, minSize := minSize s, maxSize := maxSize s\<rparr>"
  by (simp add: SizingInfo_fromVariantMap_def SizingInfo_toVariantMap_def QVariantMap_value_def
      QVariant_toMap_def mapToRect_rectToMap mapToSize_sizeToMap)

lemma value_base:
  "QVariantMap_value (Item_toVariantMap_base this) ''sizingInfo''
     = V_Map (SizingInfo_toVariantMap (Item_sizingInfo this))"
  "QVariantMap_value (Item_toVariantMap_base this) ''isVisible'' = V_Bool (m_isVisible (fields this))"
  "QVariantMap_value (Item_toVariantMap_base this) ''isContainer'' = V_Bool (Item_isContainer this)"
  "QVariantMap_value (Item_toVariantMap_base this) ''objectName'' = V_String (m_objectName (fields this))"
  "QVariantMap_value (Item_toVariantMap_base this) ''guestId''
     = (case m_guest (fields this) of None \<Rightarrow> V_Invalid
        | Some guest \<Rightarrow> V_String (QString_number (widget_address guest)))"
  "QVariantMap_value (Item_toVariantMap_base this) ''children'' = V_Invalid"
  "QVariantMap_value (Item_toVariantMap_base this) ''orientation'' = V_Invalid"
  by (simp_all add: Item_toVariantMap_base_def QVariantMap_value_def split: option.splits)

lemma map_of_base_dom:
  "map_of (Item_toVariantMap_base this) ''children'' = None"
  "map_of (Item_toVariantMap_base this) ''orientation'' = None"
  by (simp_all add: Item_toVariantMap_base_def split: option.splits)

lemma value_append:
  "QVariantMap_value (xs @ ys) k =
     (case map_of xs k of None \<Rightarrow> QVariantMap_value ys k | Some v \<Rightarrow> v)"
  by (simp add: QVariantMap_value_def map_add_def split: option.splits)

lemma value_item:
  "QVariantMap_value (Item_toVariantMap this) ''sizingInfo''
     = V_Map (SizingInfo_toVariantMap (Item_sizingInfo this))"
  "QVariantMap_value (Item_toVariantMap this) ''isVisible'' = V_Bool (m_isVisible (fields this))"
  "QVariantMap_value (Item_toVariantMap this) ''isContainer'' = V_Bool (Item_isContainer this)"
  "QVariantMap_value (Item_toVariantMap this) ''objectName'' = V_String (m_objectName (fields this))"
  "QVariantMap_value (Item_toVariantMap this) ''guestId''
     = (case m_guest (fields this) of None \<Rightarrow> V_Invalid
        | Some guest \<Rightarrow> V_String (QString_number (widget_address guest)))"
  by (cases this; simp add: value_base value_append Item_toVariantMap_base_def QVariantMap_value_def
        split: option.splits)+

lemma value_container:
  "QVariantMap_value (Item_toVariantMap (ItemContainer f c children)) ''children''
     = V_List (map (\<lambda>child. V_Map (Item_toVariantMap child)) children)"
  "QVariantMap_value (Item_toVariantMap (ItemContainer f c children)) ''orientation''
     = V_Int (Qt_Orientation_value (m_orientation c))"
  by (simp_all only: Item_toVariantMap.simps value_append map_of_base_dom option.case)
     (simp_all add: QVariantMap_value_def)

lemma Item_fill_round_trip:
  assumes "guest_restorable widgets T" and "m_guest (fields this) = None"
  shows "\<exists>this'. Item_fillFromVariantMap fuel this parentOrigin (Item_toVariantMap T) widgets = Inr this'
           \<and> Item_sizingInfo this' = restored_sizingInfo T
           \<and> m_isVisible (fields this') = m_isVisible (fields T)
           \<and> m_hostWidget (fields this') = m_hostWidget (fields this)
           \<and> Item_isContainer this' = Item_isContainer this
           \<and> cfields this' = cfields this
           \<and> m_children this' = m_children this"
proof -
  note defs = Item_fillFromVariantMap_def Let_def value_item QVariant_toString_def
        QVariant_toMap_def QVariant_toBool_def SizingInfo_fromVariantMap_toVariantMap
        restored_sizingInfo_def QString_number_not_empty Item_sizingInfo_def Item_isContainer_def
  consider (none) "m_guest (fields T) = None"
    | (unresolved) g where "m_guest (fields T) = Some g"
        "widgets (QString_number (widget_address g)) = None"
    | (resolved) g g' where "m_guest (fields T) = Some g"
        "widgets (QString_number (widget_address g)) = Some g'"
    by (cases "m_guest (fields T)") auto
  then show ?thesis
  proof cases
    case none
    then show ?thesis by (cases this) (simp_all add: defs)
  next
    case unresolved
    then show ?thesis by (cases this) (simp_all add: defs)
  next
    case resolved
    with assms(1)
    have ok: "widgetMinSize g' = minSize (Item_sizingInfo T)"
      "\<not> QRect_isEmpty (geometry (Item_sizingInfo T))"
      by (simp_all add: guest_restorable_def)
    from resolved ok assms(2) show ?thesis
      by (cases this)
         (simp_all add: defs Item_setGuest_def Item_setMinSize_def bindE_def
            Item_updateObjectName_def)
  qed
qed

lemma structure_of_Item:
  "\<not> Item_isContainer this \<Longrightarrow>
   structure_of this = LeafStructure (geometry (Item_sizingInfo this)) (minSize (Item_sizingInfo this))
                         (maxSize (Item_sizingInfo this)) (m_isVisible (fields this))"
  by (cases this) (simp_all add: Item_isContainer_def Item_sizingInfo_def)

lemma structure_of_ItemContainer:
  "Item_isContainer this \<Longrightarrow>
   structure_of this = ContainerStructure (geometry (Item_sizingInfo this)) (minSize (Item_sizingInfo this))
                         (maxSize (Item_sizingInfo this)) (m_isVisible (fields this))
                         (m_orientation (cfields this)) (map structure_of (m_children this))"
  by (cases this) (simp_all add: Item_isContainer_def Item_sizingInfo_def)

lemma percentages_unblocked_ItemContainer:
  "Item_isContainer this \<Longrightarrow>
   percentages_unblocked this =
     (\<not> m_blockUpdatePercentages (cfields this) \<and> list_all percentages_unblocked (m_children this))"
  by (cases this) (simp_all add: Item_isContainer_def)

lemma restored_sizingInfo_simps:
  "geometry (restored_sizingInfo T) = geometry (Item_sizingInfo T)"
  "minSize (restored_sizingInfo T) = minSize (Item_sizingInfo T)"
  "maxSize (restored_sizingInfo T) = maxSize (Item_sizingInfo T)"
  by (simp_all add: restored_sizingInfo_def)

lemma new_objects:
  "m_guest (fields (new_Item i h)) = None" "m_children (new_Item i h) = []"
  "percentages_unblocked (new_Item i h)" "\<not> Item_isContainer (new_Item i h)"
  "m_guest (fields (new_ItemContainer i h)) = None" "m_children (new_ItemContainer i h) = []"
  "percentages_unblocked (new_ItemContainer i h)" "Item_isContainer (new_ItemContainer i h)"
  by (simp_all add: new_Item_def new_ItemContainer_def Item_isContainer_def container_fields_default_def)

lemma fill_children_round_trip:
  assumes IH: "\<And>child this parentOrigin next_id.
      child \<in> set cs \<Longrightarrow> m_guest (fields this) = None \<Longrightarrow> percentages_unblocked this \<Longrightarrow>
      m_children this = [] \<Longrightarrow> Item_isContainer this = Item_isContainer child \<Longrightarrow>
      \<exists>T' n'. fill_child fuel this parentOrigin next_id child widgets = Inr (T', n')
               \<and> structure_of T' = structure_of child \<and> percentages_unblocked T'"
    and "Item_isContainer this"
  shows "\<exists>T' n'. ItemContainer_fillFromVariantMap_children fuel this parentOrigin next_id
                    (map (\<lambda>child. V_Map (Item_toVariantMap child)) cs) widgets = Inr (T', n')
           \<and> Item_isContainer T' \<and> fields T' = fields this \<and> cfields T' = cfields this
           \<and> map structure_of (m_children T') = map structure_of (m_children this) @ map structure_of cs
           \<and> (list_all percentages_unblocked (m_children this)
                \<longrightarrow> list_all percentages_unblocked (m_children T'))"
  using assms
proof (induction cs arbitrary: this next_id)
  case Nil
  then show ?case by simp
next
  case (Cons child cs)
  let ?host = "Item_hostWidget this"
  let ?origin = "QPoint_plus parentOrigin (Item_pos this)"
  let ?new = "if Item_isContainer child then new_ItemContainer next_id ?host else new_Item next_id ?host"
  have "\<exists>T' n'. fill_child fuel ?new ?origin (next_id + 1) child widgets = Inr (T', n')
               \<and> structure_of T' = structure_of child \<and> percentages_unblocked T'"
    by (rule Cons.prems(1)) (simp_all add: new_objects)
  then obtain child' n1 where
    child': "fill_child fuel ?new ?origin (next_id + 1) child widgets = Inr (child', n1)"
      "structure_of child' = structure_of child" "percentages_unblocked child'"
    by blast
  let ?this1 = "set_children (m_children this @ [child']) this"
  from Cons.prems(2) have this1: "Item_isContainer ?this1" "fields ?this1 = fields this"
    "cfields ?this1 = cfields this" "m_children ?this1 = m_children this @ [child']"
    by (cases this; simp add: Item_isContainer_def)+
  have "\<exists>T' n'. ItemContainer_fillFromVariantMap_children fuel ?this1 parentOrigin n1
                    (map (\<lambda>child. V_Map (Item_toVariantMap child)) cs) widgets = Inr (T', n')
           \<and> Item_isContainer T' \<and> fields T' = fields ?this1 \<and> cfields T' = cfields ?this1
           \<and> map structure_of (m_children T') = map structure_of (m_children ?this1) @ map structure_of cs
           \<and> (list_all percentages_unblocked (m_children ?this1)
                \<longrightarrow> list_all percentages_unblocked (m_children T'))"
  proof (rule Cons.IH)
    show "Item_isContainer ?this1" by (rule this1(1))
  next
    fix c t po n
    assume "c \<in> set cs" "m_guest (fields t) = None" "percentages_unblocked t"
      "m_children t = []" "Item_isContainer t = Item_isContainer c"
    then show "\<exists>T' n'. fill_child fuel t po n c widgets = Inr (T', n')
               \<and> structure_of T' = structure_of c \<and> percentages_unblocked T'"
      by (intro Cons.prems(1)) simp_all
  qed
  then obtain T' n' where
    T': "ItemContainer_fillFromVariantMap_children fuel ?this1 parentOrigin n1
           (map (\<lambda>child. V_Map (Item_toVariantMap child)) cs) widgets = Inr (T', n')"
      "Item_isContainer T'" "fields T' = fields ?this1" "cfields T' = cfields ?this1"
      "map structure_of (m_children T') = map structure_of (m_children ?this1) @ map structure_of cs"
      "list_all percentages_unblocked (m_children ?this1)
                \<longrightarrow> list_all percentages_unblocked (m_children T')"
    by blast
  have step: "ItemContainer_fillFromVariantMap_children fuel this parentOrigin next_id
                (map (\<lambda>child. V_Map (Item_toVariantMap child)) (child # cs)) widgets
              = ItemContainer_fillFromVariantMap_children fuel ?this1 parentOrigin n1
                  (map (\<lambda>child. V_Map (Item_toVariantMap child)) cs) widgets"
  proof (cases "Item_isContainer child")
    case True
    with child'(1) show ?thesis
      by (simp add: Let_def QVariant_toMap_def value_item QVariant_toBool_def fill_child_def bindE_def)
  next
    case False
    with child'(1) show ?thesis
      by (simp add: Let_def QVariant_toMap_def value_item QVariant_toBool_def fill_child_def bindE_def
          split: sum.splits)
  qed
  show ?case
    unfolding step using T' this1 child'(2,3) by auto
qed

lemma fill_child_round_trip:
  "guests_restorable widgets T \<Longrightarrow> m_guest (fields this) = None \<Longrightarrow> percentages_unblocked this \<Longrightarrow>
   m_children this = [] \<Longrightarrow> Item_isContainer this = Item_isContainer T \<Longrightarrow>
   \<exists>T' n'. fill_child fuel this parentOrigin next_id T widgets = Inr (T', n')
            \<and> structure_of T' = structure_of T \<and> percentages_unblocked T'"
proof (induction T arbitrary: this parentOrigin next_id)
  case (Item f)
  from Item_fill_round_trip [of widgets "Item f" this fuel parentOrigin] Item.prems
  obtain this' where this':
    "Item_fillFromVariantMap fuel this parentOrigin (Item_toVariantMap (Item f)) widgets = Inr this'"
    "Item_sizingInfo this' = restored_sizingInfo (Item f)"
    "m_isVisible (fields this') = m_isVisible (fields (Item f))"
    "Item_isContainer this' = Item_isContainer this"
    by auto
  from this' Item.prems(5) have "\<not> Item_isContainer this'" by (simp add: Item_isContainer_def)
  with this' show ?case
    by (cases this')
       (simp_all add: fill_child_def Item_isContainer_def bindE_def restored_sizingInfo_simps
          Item_sizingInfo_def)
next
  case (ItemContainer f c children)
  let ?T = "ItemContainer f c children"
  from ItemContainer.prems(1) have guests: "guest_restorable widgets ?T"
    "\<And>child. child \<in> set children \<Longrightarrow> guests_restorable widgets child"
    by (simp_all add: list_all_iff)
  from Item_fill_round_trip [of widgets ?T this fuel parentOrigin] guests(1) ItemContainer.prems(2)
  obtain this1 where this1:
    "Item_fillFromVariantMap fuel this parentOrigin (Item_toVariantMap ?T) widgets = Inr this1"
    "Item_sizingInfo this1 = restored_sizingInfo ?T"
    "m_isVisible (fields this1) = m_isVisible (fields ?T)"
    "Item_isContainer this1 = Item_isContainer this"
    "cfields this1 = cfields this" "m_children this1 = m_children this"
    by auto
  let ?this2 = "map_cfields (\<lambda>c'. c'\<lparr>m_orientation := m_orientation c\<rparr>) this1"
  from this1 ItemContainer.prems(5) have c1: "Item_isContainer this1"
    by (simp add: Item_isContainer_def)
  then have this2: "Item_isContainer ?this2" "fields ?this2 = fields this1"
    "cfields ?this2 = (cfields this1)\<lparr>m_orientation := m_orientation c\<rparr>"
    "m_children ?this2 = m_children this1"
    by (cases this1; simp add: Item_isContainer_def)+
  have "\<exists>T' n'. ItemContainer_fillFromVariantMap_children fuel ?this2 parentOrigin next_id
                    (map (\<lambda>child. V_Map (Item_toVariantMap child)) children) widgets = Inr (T', n')
           \<and> Item_isContainer T' \<and> fields T' = fields ?this2 \<and> cfields T' = cfields ?this2
           \<and> map structure_of (m_children T') = map structure_of (m_children ?this2) @ map structure_of children
           \<and> (list_all percentages_unblocked (m_children ?this2)
                \<longrightarrow> list_all percentages_unblocked (m_children T'))"
  proof (rule fill_children_round_trip)
    show "Item_isContainer ?this2" by (rule this2(1))
  next
    fix child this' parentOrigin' next_id'
    assume "child \<in> set children" "m_guest (fields this') = None" "percentages_unblocked this'"
      "m_children this' = []" "Item_isContainer this' = Item_isContainer child"
    then show "\<exists>T' n'. fill_child fuel this' parentOrigin' next_id' child widgets = Inr (T', n')
               \<and> structure_of T' = structure_of child \<and> percentages_unblocked T'"
      using ItemContainer.IH guests(2) by blast
  qed
  then obtain T' n' where T':
    "ItemContainer_fillFromVariantMap_children fuel ?this2 parentOrigin next_id
       (map (\<lambda>child. V_Map (Item_toVariantMap child)) children) widgets = Inr (T', n')"
    "Item_isContainer T'" "fields T' = fields ?this2" "cfields T' = cfields ?this2"
    "map structure_of (m_children T') = map structure_of (m_children ?this2) @ map structure_of children"
    "list_all percentages_unblocked (m_children ?this2)
                \<longrightarrow> list_all percentages_unblocked (m_children T')"
    by blast
  have run: "fill_child fuel this parentOrigin next_id ?T widgets = Inr (T', n')"
    unfolding fill_child_def
    by (subst ItemContainer_fillFromVariantMap_rec.simps)
       (simp add: Item_isContainer_def this1(1) bindE_def value_container QVariant_toList_def
          QVariant_toInt_def Qt_Orientation_value_inverse Let_def T'(1)
          del: Item_toVariantMap.simps)
  from ItemContainer.prems(3,4,5) have "\<not> m_blockUpdatePercentages (cfields this)"
    by (cases this) (simp_all add: Item_isContainer_def)
  with T' this1 this2 ItemContainer.prems(4) have "structure_of T' = structure_of ?T"
    "percentages_unblocked T'"
    by (simp_all add: structure_of_ItemContainer percentages_unblocked_ItemContainer
        restored_sizingInfo_simps Item_sizingInfo_def)
  with run show ?case by blast
qed

subsection \<open>The skeleton and what depends on it only\<close>

lemma skeleton_fields:
  "m_id (fields (skeleton it)) = m_id (fields it)"
  "m_isVisible (fields (skeleton it)) = m_isVisible (fields it)"
  "m_hostWidget (fields (skeleton it)) = m_hostWidget (fields it)"
  "geometry (m_sizingInfo (fields (skeleton it))) = geometry (m_sizingInfo (fields it))"
  "minSize (m_sizingInfo (fields (skeleton it))) = minSize (m_sizingInfo (fields it))"
  "maxSize (m_sizingInfo (fields (skeleton it))) = maxSize (m_sizingInfo (fields it))"
  "isBeingInserted (m_sizingInfo (fields (skeleton it))) = isBeingInserted (m_sizingInfo (fields it))"
  "m_orientation (cfields (skeleton it)) = m_orientation (cfields it)"
  "m_blockUpdatePercentages (cfields (skeleton it)) = m_blockUpdatePercentages (cfields it)"
  "m_children (skeleton it) = map skeleton (m_children it)"
  "Item_isContainer (skeleton it) = Item_isContainer it"
  by (cases it; simp add: erase_percentage_def Item_isContainer_def container_fields_default_def)+

lemma skeleton_isVisible: "Item_isVisible (skeleton it) b = Item_isVisible it b"
proof (induction it)
  case (Item f)
  show ?case by (simp add: erase_percentage_def)
next
  case (ItemContainer f c children)
  then show ?case by (simp add: list_ex_iff)
qed

lemma skeleton_views:
  "Item_isBeingInserted (skeleton it) = Item_isBeingInserted it"
  "Item_size (skeleton it) = Item_size it"
  "Item_pos (skeleton it) = Item_pos it"
  "Item_length (skeleton it) o' = Item_length it o'"
  "Item_width (skeleton it) = Item_width it"
  "Item_height (skeleton it) = Item_height it"
  "Item_hostWidget (skeleton it) = Item_hostWidget it"
  "ItemContainer_orientation (skeleton it) = ItemContainer_orientation it"
  "ItemContainer_isVertical (skeleton it) = ItemContainer_isVertical it"
  by (simp_all add: Item_isBeingInserted_def Item_size_def Item_pos_def Item_length_def
      Item_width_def Item_height_def Item_hostWidget_def ItemContainer_orientation_def
      ItemContainer_isVertical_def Item_sizingInfo_def skeleton_fields)

lemma length_filter_map: "length (filter P (map f xs)) = length (filter (\<lambda>x. P (f x)) xs)"
  by (induction xs) simp_all

lemma skeleton_visibleChildren_length:
  "length (ItemContainer_visibleChildren (skeleton this) b) = length (ItemContainer_visibleChildren this b)"
  by (simp add: ItemContainer_visibleChildren_def skeleton_fields filter_map comp_def
      skeleton_isVisible skeleton_views)

lemma skeleton_usableLength:
  "ItemContainer_usableLength (skeleton this) = ItemContainer_usableLength this"
  by (simp add: ItemContainer_usableLength_def Let_def skeleton_visibleChildren_length
      skeleton_views ItemContainer_length_def)

lemma skeleton_expected_percentage:
  "expected_percentage (skeleton this) (skeleton child) = expected_percentage this child"
  by (simp add: expected_percentage_def skeleton_isVisible skeleton_views skeleton_usableLength)

lemma expected_percentage_cong:
  "skeleton this' = skeleton this \<Longrightarrow> skeleton child' = skeleton child \<Longrightarrow>
   expected_percentage this' child' = expected_percentage this child"
  by (metis skeleton_expected_percentage)

lemma skeleton_structure_of: "structure_of (skeleton it) = structure_of it"
  by (induction it) (simp_all add: erase_percentage_def)

lemma structure_of_cong: "skeleton a = skeleton b \<Longrightarrow> structure_of a = structure_of b"
  by (metis skeleton_structure_of)

lemma numItems_structure: "numItems it = structure_size (structure_of it)"
proof (induction it)
  case (Item f)
  show ?case by simp
next
  case (ItemContainer f c children)
  then have "map numItems children = map (\<lambda>x. structure_size (structure_of x)) children"
    by simp
  then have "sum_list (map numItems children)
               = sum_list (map (\<lambda>x. structure_size (structure_of x)) children)"
    by (rule arg_cong)
  then show ?case by (simp add: comp_def)
qed

lemma skeleton_numItems: "numItems (skeleton it) = numItems it"
  by (simp add: numItems_structure skeleton_structure_of)

lemma skeleton_item_at: "item_at (skeleton R) p = map_option skeleton (item_at R p)"
proof (induction p arbitrary: R)
  case Nil
  show ?case by simp
next
  case (Cons i p)
  show ?case by (simp add: skeleton_fields Cons.IH)
qed

lemma skeleton_map_fields_percentage:
  "skeleton (map_fields (\<lambda>f. f\<lparr>m_sizingInfo := (m_sizingInfo f)\<lparr>percentageWithinParent := x\<rparr>\<rparr>) it)
     = skeleton it"
  by (cases it) (simp_all add: erase_percentage_def)

lemma skeleton_map_cfields_separators:
  "skeleton (map_cfields (\<lambda>c. c\<lparr>m_separators := s\<rparr>) it) = skeleton it"
  by (cases it) simp_all


lemma updateChildPercentages_unblocked:
  "\<not> m_blockUpdatePercentages c \<Longrightarrow>
   ItemContainer_updateChildPercentages (ItemContainer f c children) =
     ItemContainer f c
       (map (\<lambda>child. map_fields (\<lambda>f'. f'\<lparr>m_sizingInfo := (m_sizingInfo f')\<lparr>percentageWithinParent :=
                          expected_percentage (ItemContainer f c children) child\<rparr>\<rparr>) child)
            children)"
  by (simp add: ItemContainer_updateChildPercentages_def Let_def expected_percentage_def)

lemma updateChildPercentages_Item: "ItemContainer_updateChildPercentages (Item f) = Item f"
  by (simp add: ItemContainer_updateChildPercentages_def Let_def)

lemma updateChildPercentages_fields:
  "fields (ItemContainer_updateChildPercentages this) = fields this"
  "cfields (ItemContainer_updateChildPercentages this) = cfields this"
  "Item_isContainer (ItemContainer_updateChildPercentages this) = Item_isContainer this"
  by (cases this; simp add: ItemContainer_updateChildPercentages_def Let_def Item_isContainer_def)+

lemma skeleton_updateChildPercentages:
  "skeleton (ItemContainer_updateChildPercentages this) = skeleton this"
proof (cases this)
  case (Item f)
  then show ?thesis by (simp add: updateChildPercentages_Item)
next
  case (ItemContainer f c children)
  show ?thesis
  proof (cases "m_blockUpdatePercentages c")
    case True
    with ItemContainer show ?thesis by (simp add: ItemContainer_updateChildPercentages_def)
  next
    case False
    with ItemContainer show ?thesis
      by (simp add: updateChildPercentages_unblocked skeleton_map_fields_percentage comp_def)
  qed
qed

lemma percentages_up_to_date_fixpoint:
  assumes "percentages_up_to_date this"
  shows "ItemContainer_updateChildPercentages this = this"
proof (cases this)
  case (Item f)
  then show ?thesis by (simp add: updateChildPercentages_Item)
next
  case (ItemContainer f c children)
  show ?thesis
  proof (cases "m_blockUpdatePercentages c")
    case True
    with ItemContainer show ?thesis by (simp add: ItemContainer_updateChildPercentages_def)
  next
    case False
    have "map_fields (\<lambda>f'. f'\<lparr>m_sizingInfo := (m_sizingInfo f')\<lparr>percentageWithinParent :=
                          expected_percentage this child\<rparr>\<rparr>) child = child"
      if "child \<in> set children" for child
    proof -
      from assms that ItemContainer
      have "percentageWithinParent (Item_sizingInfo child) = expected_percentage this child"
        by (simp add: list_all_iff)
      then show ?thesis by (cases child) (simp_all add: Item_sizingInfo_def)
    qed
    then have "map (\<lambda>child. map_fields (\<lambda>f'. f'\<lparr>m_sizingInfo := (m_sizingInfo f')\<lparr>percentageWithinParent :=
                          expected_percentage this child\<rparr>\<rparr>) child) children = children"
      by (simp add: map_idI)
    with False ItemContainer show ?thesis
      by (simp add: updateChildPercentages_unblocked)
  qed
qed

lemma percentages_up_to_date_leaf: "\<not> Item_isContainer it \<Longrightarrow> percentages_up_to_date it"
  by (cases it) (simp_all add: Item_isContainer_def)

lemma percentages_unblocked_map_fields:
  "percentages_unblocked (map_fields g it) = percentages_unblocked it"
  by (cases it) simp_all

lemma isContainer_map_fields: "Item_isContainer (map_fields g it) = Item_isContainer it"
  by (cases it) (simp_all add: Item_isContainer_def)

lemma updateChildPercentages_recursive_fields:
  "fields (ItemContainer_updateChildPercentages_recursive this) = fields this"
  by (subst ItemContainer_updateChildPercentages_recursive.simps, cases this)
     (simp_all add: Let_def ItemContainer_updateChildPercentages_def)

lemma set_children_container:
  "Item_isContainer this \<Longrightarrow> set_children cs this = ItemContainer (fields this) (cfields this) cs"
  by (cases this) (simp_all add: Item_isContainer_def)

lemma skeleton_updateChildPercentages_recursive:
  "skeleton (ItemContainer_updateChildPercentages_recursive this) = skeleton this"
proof (induction this rule: ItemContainer_updateChildPercentages_recursive.induct)
  case (1 this)
  let ?this1 = "ItemContainer_updateChildPercentages this"
  let ?h = "\<lambda>item. if Item_isContainer item
                      then ItemContainer_updateChildPercentages_recursive item else item"
  have "map skeleton (map ?h (m_children ?this1)) = map skeleton (m_children ?this1)"
    using 1 by (simp add: Let_def)
  then have "skeleton (set_children (map ?h (m_children ?this1)) ?this1) = skeleton ?this1"
    by (cases ?this1) simp_all
  then show ?case
    by (subst ItemContainer_updateChildPercentages_recursive.simps)
       (simp add: Let_def skeleton_updateChildPercentages)
qed

lemma updateChildPercentages_recursive_up_to_date:
  "percentages_unblocked this \<Longrightarrow>
   percentages_up_to_date (ItemContainer_updateChildPercentages_recursive this)"
proof (induction this rule: ItemContainer_updateChildPercentages_recursive.induct)
  case (1 this)
  show ?case
  proof (cases this)
    case (Item f)
    then show ?thesis
      by (subst ItemContainer_updateChildPercentages_recursive.simps)
         (simp add: Let_def updateChildPercentages_Item)
  next
    case (ItemContainer f c children)
    define E where "E = (\<lambda>child. map_fields (\<lambda>f'. f'\<lparr>m_sizingInfo := (m_sizingInfo f')\<lparr>percentageWithinParent :=
                          expected_percentage this child\<rparr>\<rparr>) child)"
    define h where "h = (\<lambda>item. if Item_isContainer item
                      then ItemContainer_updateChildPercentages_recursive item else item)"
    define k where "k = (\<lambda>child. h (E child))"
    from "1.prems" ItemContainer have unblocked: "\<not> m_blockUpdatePercentages c"
      "\<And>child. child \<in> set children \<Longrightarrow> percentages_unblocked child"
      by (simp_all add: list_all_iff)
    have this1: "ItemContainer_updateChildPercentages this = ItemContainer f c (map E children)"
      using unblocked(1) ItemContainer by (simp add: updateChildPercentages_unblocked E_def)
    have result: "ItemContainer_updateChildPercentages_recursive this
                    = ItemContainer f c (map k children)"
      by (subst ItemContainer_updateChildPercentages_recursive.simps)
         (simp add: Let_def this1 comp_def k_def h_def)
    have sk: "skeleton (ItemContainer f c (map k children)) = skeleton this"
      using skeleton_updateChildPercentages_recursive [of this] result by simp
    have E_fields: "percentageWithinParent (Item_sizingInfo (E child)) = expected_percentage this child"
      "skeleton (E child) = skeleton child" "percentages_unblocked (E child) = percentages_unblocked child"
      for child
      by (cases child; simp add: E_def Item_sizingInfo_def erase_percentage_def)+
    have h_fields: "Item_sizingInfo (h x) = Item_sizingInfo x" "skeleton (h x) = skeleton x" for x
      by (simp_all add: h_def Item_sizingInfo_def updateChildPercentages_recursive_fields
          skeleton_updateChildPercentages_recursive)
    have each: "percentageWithinParent (Item_sizingInfo (k child))
            = expected_percentage (ItemContainer f c (map k children)) (k child)
          \<and> percentages_up_to_date (k child)"
      if "child \<in> set children" for child
    proof
      have "skeleton (k child) = skeleton child"
        by (simp add: k_def h_fields E_fields)
      with sk have "expected_percentage (ItemContainer f c (map k children)) (k child)
                      = expected_percentage this child"
        by (rule expected_percentage_cong)
      moreover have "percentageWithinParent (Item_sizingInfo (k child)) = expected_percentage this child"
        by (simp add: k_def h_fields E_fields)
      ultimately show "percentageWithinParent (Item_sizingInfo (k child))
            = expected_percentage (ItemContainer f c (map k children)) (k child)"
        by simp
    next
      show "percentages_up_to_date (k child)"
      proof (cases "Item_isContainer (E child)")
        case True
        have "percentages_up_to_date (ItemContainer_updateChildPercentages_recursive (E child))"
        proof (rule "1.IH")
          show "ItemContainer_updateChildPercentages this = ItemContainer_updateChildPercentages this"
            by (rule refl)
          show "E child \<in> set (m_children (ItemContainer_updateChildPercentages this))"
            using that by (simp add: this1)
          show "Item_isContainer (E child)" by (rule True)
          show "percentages_unblocked (E child)"
            using unblocked(2) [OF that] by (simp add: E_fields)
        qed
        with True show ?thesis by (simp add: k_def h_def)
      next
        case False
        then show ?thesis by (simp add: percentages_up_to_date_leaf k_def h_def)
      qed
    qed
    have "percentages_up_to_date (ItemContainer f c (map k children))"
      using each by (simp add: list_all_iff)
    then show ?thesis by (simp only: result)
  qed
qed


lemma update_at_skeleton:
  "item_at R p = Some this \<Longrightarrow> skeleton (g this) = skeleton this \<Longrightarrow>
   skeleton (update_at R p g) = skeleton R"
proof (induction p arbitrary: R)
  case Nil
  then show ?case by simp
next
  case (Cons i p)
  from Cons.prems(1) have i: "i < length (m_children R)" and at: "item_at (m_children R ! i) p = Some this"
    by (simp_all split: if_splits)
  from Cons.IH [OF at Cons.prems(2)]
  have "map skeleton ((m_children R)[i := update_at (m_children R ! i) p g]) = map skeleton (m_children R)"
    by (simp add: map_update list_update_same_conv i)
  with i show ?case by (cases R) simp_all
qed

lemma update_at_sizingInfo:
  "item_at R p = Some this \<Longrightarrow> Item_sizingInfo (g this) = Item_sizingInfo this \<Longrightarrow>
   Item_sizingInfo (update_at R p g) = Item_sizingInfo R"
  by (cases p; cases R) (simp_all add: Item_sizingInfo_def split: if_splits)

lemma update_at_up_to_date:
  assumes "item_at R p = Some this" "skeleton (g this) = skeleton this"
    "Item_sizingInfo (g this) = Item_sizingInfo this"
    "percentages_up_to_date this \<Longrightarrow> percentages_up_to_date (g this)"
    "percentages_up_to_date R"
  shows "percentages_up_to_date (update_at R p g)"
  using assms(1,5)
proof (induction p arbitrary: R)
  case Nil
  with assms(4) show ?case by simp
next
  case (Cons i p)
  from Cons.prems(1) have i: "i < length (m_children R)" and at: "item_at (m_children R ! i) p = Some this"
    by (simp_all split: if_splits)
  from i obtain f c children where R: "R = ItemContainer f c children" by (cases R) simp_all
  let ?child' = "update_at (children ! i) p g"
  let ?R' = "ItemContainer f c (children[i := ?child'])"
  from i R have i': "i < length children" by simp
  from at R have at': "item_at (children ! i) p = Some this" by simp
  have R': "update_at R (i # p) g = ?R'" using R i' by simp
  have skR: "skeleton ?R' = skeleton R"
    using update_at_skeleton [of R "i # p" this g, OF Cons.prems(1) assms(2)] R' by simp
  have skc: "skeleton ?child' = skeleton (children ! i)"
    by (rule update_at_skeleton [of "children ! i" p this g, OF at' assms(2)])
  have old: "percentageWithinParent (Item_sizingInfo child) = expected_percentage R child
               \<and> percentages_up_to_date child" if "child \<in> set children" for child
    using Cons.prems(2) R that by (simp add: list_all_iff)
  have "percentageWithinParent (Item_sizingInfo x) = expected_percentage ?R' x
          \<and> percentages_up_to_date x" if "x \<in> set (children[i := ?child'])" for x
  proof -
    from that obtain j where j: "j < length children" "x = (children[i := ?child']) ! j"
      by (auto simp: in_set_conv_nth)
    show ?thesis
    proof (cases "j = i")
      case True
      with j have x: "x = ?child'" by simp
      have "percentages_up_to_date ?child'"
        by (rule Cons.IH [OF at']) (simp add: old i')
      moreover have "Item_sizingInfo ?child' = Item_sizingInfo (children ! i)"
        by (rule update_at_sizingInfo [of "children ! i" p this g, OF at' assms(3)])
      moreover have "expected_percentage ?R' ?child' = expected_percentage R (children ! i)"
        by (rule expected_percentage_cong [OF skR skc])
      ultimately show ?thesis using old [of "children ! i"] i' x by simp
    next
      case False
      with j have x: "x = children ! j" by simp
      have "expected_percentage ?R' x = expected_percentage R x"
        by (rule expected_percentage_cong [OF skR refl])
      with old [of x] x j show ?thesis by simp
    qed
  qed
  then show ?case unfolding R' by (simp add: list_all_iff)
qed

subsection \<open>updateSeparators keeps the skeleton and up-to-date percentages\<close>

lemma percentages_up_to_date_map_cfields_separators:
  "percentages_up_to_date (map_cfields (\<lambda>c. c\<lparr>m_separators := s\<rparr>) this) = percentages_up_to_date this"
proof (cases this)
  case (Item f)
  then show ?thesis by simp
next
  case (ItemContainer f c children)
  have "expected_percentage (ItemContainer f (c\<lparr>m_separators := s\<rparr>) children) child
          = expected_percentage (ItemContainer f c children) child" for child
    by (rule expected_percentage_cong) simp_all
  with ItemContainer show ?thesis by simp
qed

lemma updateSeparators_cases:
  obtains (same) "ItemContainer_updateSeparators R p = R"
  | (updated) this s where "item_at R p = Some this"
      "ItemContainer_updateSeparators R p
         = update_at R p (\<lambda>this. ItemContainer_updateChildPercentages
                                    (map_cfields (\<lambda>c. c\<lparr>m_separators := s\<rparr>) this))"
proof (cases "item_at R p")
  case None
  then have "ItemContainer_updateSeparators R p = R"
    by (simp add: ItemContainer_updateSeparators_def)
  then show ?thesis by (rule same)
next
  case (Some this)
  show ?thesis
  proof (cases "Item_hostWidget this = None")
    case True
    with Some have "ItemContainer_updateSeparators R p = R"
      by (simp add: ItemContainer_updateSeparators_def)
    then show ?thesis by (rule same)
  next
    case False
    then have hn: "(Item_hostWidget this = None) = False" by simp
    from Some show ?thesis
      by (intro updated [of this "map (\<lambda>position. \<lparr>Separator_position = position,
              Separator_pos2 = (if ItemContainer_isVertical this
                                then point_x (the (Item_mapToRoot R p (QPoint 0 0)))
                                else point_y (the (Item_mapToRoot R p (QPoint 0 0)))),
              Separator_length = ItemContainer_oppositeLength this\<rparr>)
            (ItemContainer_requiredSeparatorPositions R p)"])
         (simp_all add: ItemContainer_updateSeparators_def Let_def hn split del: if_split)
  qed
qed

lemma skeleton_updateSeparators: "skeleton (ItemContainer_updateSeparators R p) = skeleton R"
proof (rule updateSeparators_cases [of R p])
  assume "ItemContainer_updateSeparators R p = R"
  then show ?thesis by simp
next
  fix this s
  assume updated: "item_at R p = Some this"
      "ItemContainer_updateSeparators R p
         = update_at R p (\<lambda>this. ItemContainer_updateChildPercentages
                                    (map_cfields (\<lambda>c. c\<lparr>m_separators := s\<rparr>) this))"
  show ?thesis
    unfolding updated(2)
    by (rule update_at_skeleton [OF updated(1)])
       (simp add: skeleton_updateChildPercentages skeleton_map_cfields_separators)
qed

lemma updateSeparators_up_to_date:
  assumes "percentages_up_to_date R"
  shows "percentages_up_to_date (ItemContainer_updateSeparators R p)"
proof (rule updateSeparators_cases [of R p])
  assume "ItemContainer_updateSeparators R p = R"
  with assms show ?thesis by simp
next
  fix this s
  assume updated: "item_at R p = Some this"
      "ItemContainer_updateSeparators R p
         = update_at R p (\<lambda>this. ItemContainer_updateChildPercentages
                                    (map_cfields (\<lambda>c. c\<lparr>m_separators := s\<rparr>) this))"
  let ?g = "\<lambda>this. ItemContainer_updateChildPercentages (map_cfields (\<lambda>c. c\<lparr>m_separators := s\<rparr>) this)"
  show ?thesis
    unfolding updated(2)
  proof (rule update_at_up_to_date [of R p this ?g])
    show "item_at R p = Some this" by (rule updated(1))
    show "skeleton (?g this) = skeleton this"
      by (simp add: skeleton_updateChildPercentages skeleton_map_cfields_separators)
    show "Item_sizingInfo (?g this) = Item_sizingInfo this"
      by (cases this) (simp_all add: Item_sizingInfo_def updateChildPercentages_fields)
    show "percentages_up_to_date (?g this)" if "percentages_up_to_date this"
    proof -
      from that have "percentages_up_to_date (map_cfields (\<lambda>c. c\<lparr>m_separators := s\<rparr>) this)"
        by (simp add: percentages_up_to_date_map_cfields_separators)
      then show ?thesis by (simp add: percentages_up_to_date_fixpoint)
    qed
    show "percentages_up_to_date R" by (rule assms)
  qed
qed

lemma foldE_invariant:
  assumes "\<And>x s. x \<in> set xs \<Longrightarrow> I s \<Longrightarrow> \<exists>s'. g x s = Inr s' \<and> I s'" and "I s"
  shows "\<exists>s'. foldE g xs s = Inr s' \<and> I s'"
  using assms
proof (induction xs arbitrary: s)
  case Nil
  then show ?case by simp
next
  case (Cons x xs)
  from Cons.prems(1) [of x s] Cons.prems(2) obtain s1 where s1: "g x s = Inr s1" "I s1" by auto
  have "\<exists>s'. foldE g xs s1 = Inr s' \<and> I s'"
    by (rule Cons.IH) (simp_all add: Cons.prems(1) s1(2))
  with s1(1) show ?case by simp
qed

lemma numItems_child: "i < length (m_children this) \<Longrightarrow> numItems (m_children this ! i) < numItems this"
proof (cases this)
  case (Item f)
  assume "i < length (m_children this)"
  with Item show ?thesis by simp
next
  case (ItemContainer f c children)
  assume "i < length (m_children this)"
  with ItemContainer have "numItems (children ! i) \<le> sum_list (map numItems children)"
    by (simp add: member_le_sum_list)
  with ItemContainer show ?thesis by simp
qed

lemma item_at_snoc:
  "item_at R p = Some this \<Longrightarrow> i < length (m_children this) \<Longrightarrow>
   item_at R (p @ [i]) = Some (m_children this ! i)"
  by (induction p arbitrary: R) (simp_all split: if_splits)

lemma skeleton_eq_item_at:
  assumes "skeleton R' = skeleton R" "item_at R p = Some this"
  shows "\<exists>this'. item_at R' p = Some this' \<and> skeleton this' = skeleton this"
proof -
  have "map_option skeleton (item_at R' p) = map_option skeleton (item_at R p)"
    using assms(1) by (simp add: skeleton_item_at [symmetric])
  with assms(2) show ?thesis by auto
qed

lemma skeleton_eq_numItems: "skeleton a = skeleton b \<Longrightarrow> numItems a = numItems b"
  by (metis skeleton_numItems)

lemma skeleton_eq_length_children:
  "skeleton a = skeleton b \<Longrightarrow> length (m_children a) = length (m_children b)"
  by (metis skeleton_fields(10) length_map)

lemma updateSeparators_recursive_total:
  assumes "item_at R p = Some this" "numItems this < fuel"
  shows "\<exists>R'. ItemContainer_updateSeparators_recursive fuel R p = Inr R'
           \<and> skeleton R' = skeleton R
           \<and> (percentages_up_to_date R \<longrightarrow> percentages_up_to_date R')"
  using assms
proof (induction fuel arbitrary: R p this)
  case 0
  then show ?case by simp
next
  case (Suc fuel)
  let ?R1 = "ItemContainer_updateSeparators R p"
  let ?I = "\<lambda>R2. skeleton R2 = skeleton R \<and> (percentages_up_to_date R \<longrightarrow> percentages_up_to_date R2)"
  have R1: "?I ?R1"
    by (simp add: skeleton_updateSeparators updateSeparators_up_to_date)
  from skeleton_eq_item_at [OF R1 [THEN conjunct1] Suc.prems(1)]
  obtain this1 where this1: "item_at ?R1 p = Some this1" "skeleton this1 = skeleton this"
    by blast
  let ?g = "\<lambda>i rootItem2.
              if Item_isContainer (m_children this1 ! i)
              then ItemContainer_updateSeparators_recursive fuel rootItem2 (p @ [i])
              else Inr rootItem2"
  have "\<exists>R'. foldE ?g (visibleChildIndices this1 False) ?R1 = Inr R' \<and> ?I R'"
  proof (rule foldE_invariant [where I = ?I])
    show "?I ?R1" by (rule R1)
  next
    fix i R2
    assume i: "i \<in> set (visibleChildIndices this1 False)" and I: "?I R2"
    from i have "i < length (m_children this1)" by (simp add: visibleChildIndices_def)
    with skeleton_eq_length_children [OF this1(2)] have i': "i < length (m_children this)"
      by simp
    show "\<exists>s'. ?g i R2 = Inr s' \<and> ?I s'"
    proof (cases "Item_isContainer (m_children this1 ! i)")
      case False
      with I show ?thesis by simp
    next
      case True
      from skeleton_eq_item_at [OF I [THEN conjunct1] item_at_snoc [OF Suc.prems(1) i']]
      obtain child where child: "item_at R2 (p @ [i]) = Some child"
        "skeleton child = skeleton (m_children this ! i)"
        by blast
      have "numItems child = numItems (m_children this ! i)"
        by (rule skeleton_eq_numItems [OF child(2)])
      also have "\<dots> < numItems this" by (rule numItems_child [OF i'])
      finally have "numItems child < fuel" using Suc.prems(2) by simp
      from Suc.IH [OF child(1) this]
      obtain R3 where R3: "ItemContainer_updateSeparators_recursive fuel R2 (p @ [i]) = Inr R3"
        "skeleton R3 = skeleton R2" "percentages_up_to_date R2 \<longrightarrow> percentages_up_to_date R3"
        by blast
      with True I show ?thesis by simp
    qed
  qed
  moreover have "ItemContainer_updateSeparators_recursive (Suc fuel) R p
                   = foldE ?g (visibleChildIndices this1 False) ?R1"
    by (subst ItemContainer_updateSeparators_recursive.simps)
       (simp add: Let_def this1(1) cong: if_cong)
  ultimately show ?case by simp
qed

subsection \<open>The round trip\<close>

text \<open>
  Claim C3, counterexample.  The layout of scenario S2, resized to 205 by 600 by
  \<^verbatim>\<open>setSize_recursive\<close>, has two leaves of length 100 with the stored percentages 498/995
  and 497/995.  Serialized and deserialized, both leaves have the percentage 1/2, which
  differs from the original 498/995 by more than 1e-6.
\<close>

theorem fillFromVariantMap_percentages_counterexample:
  "bindE (ItemContainer_insertItem 10 S1_root [] (new_item 2) None Location_OnRight
            DefaultSizeMode_Fair AddingOption_None 100)
     (\<lambda>r. Item_setSize_recursive 10 r [] (QSize 205 600) Percentage) = Inr S2_resized
   \<and> all_percentages S2_resized = [498 / 995, 497 / 995]
   \<and> map_sum id all_percentages
        (ItemContainer_fillFromVariantMap 10 (new_ItemContainer 100 (Some 0)) 101
           (Item_toVariantMap S2_resized) Map.empty) = Inr [1 / 2, 1 / 2]
   \<and> \<bar>498 / 995 - 1 / 2\<bar> > (1 / 1000000 :: real)"
  by code_simp

text \<open>
  Claim C3, amended.  For every tree T whose root is a container, \<^verbatim>\<open>fillFromVariantMap\<close>
  of a new root, with or without host widget, applied to \<^verbatim>\<open>toVariantMap\<close> of T returns
  (given fuel for more calls than T has items) a tree structurally equal to T: same
  orientations, same child order, same geometries, same minimum and maximum sizes, same
  visibility flags; this for every table of guests in which a guest found for an item has
  the minimum size stored in the item, the item having a non-empty geometry.  The
  percentages of the result are recomputed from the geometries: every child has its
  length over the usable length of its container if it is visible, else 0, whatever its
  percentage was in T.
\<close>

theorem fillFromVariantMap_toVariantMap_round_trip:
  assumes "Item_isContainer T" and "guests_restorable widgets T" and "numItems T < fuel"
  shows "map_sum id structure_of
           (ItemContainer_fillFromVariantMap fuel (new_ItemContainer new_id host) next_id
              (Item_toVariantMap T) widgets) = Inr (structure_of T)
         \<and> map_sum id percentages_up_to_date
             (ItemContainer_fillFromVariantMap fuel (new_ItemContainer new_id host) next_id
                (Item_toVariantMap T) widgets) = Inr True"
proof -
  from fill_child_round_trip [of widgets T "new_ItemContainer new_id host" fuel "QPoint 0 0" next_id]
    assms(1,2)
  obtain T1 n1 where T1:
    "ItemContainer_fillFromVariantMap_rec fuel (new_ItemContainer new_id host) (QPoint 0 0) next_id
       (Item_toVariantMap T) widgets = Inr (T1, n1)"
    "structure_of T1 = structure_of T" "percentages_unblocked T1"
    by (auto simp: new_objects fill_child_def)
  let ?T2 = "ItemContainer_updateChildPercentages_recursive T1"
  have sk: "skeleton ?T2 = skeleton T1" by (rule skeleton_updateChildPercentages_recursive)
  have st: "structure_of ?T2 = structure_of T"
    using structure_of_cong [OF sk] T1(2) by simp
  have up: "percentages_up_to_date ?T2"
    by (rule updateChildPercentages_recursive_up_to_date [OF T1(3)])
  have n: "numItems ?T2 < fuel"
    using assms(3) st by (simp add: numItems_structure)
  have "\<exists>T'. ItemContainer_fillFromVariantMap fuel (new_ItemContainer new_id host) next_id
                (Item_toVariantMap T) widgets = Inr T'
             \<and> structure_of T' = structure_of T \<and> percentages_up_to_date T'"
  proof (cases "Item_hostWidget ?T2 = None")
    case True
    with T1(1) st up show ?thesis
      by (simp add: ItemContainer_fillFromVariantMap_def bindE_def Let_def)
  next
    case False
    from updateSeparators_recursive_total [of ?T2 "[]" ?T2 fuel] n
    obtain R' where R': "ItemContainer_updateSeparators_recursive fuel ?T2 [] = Inr R'"
      "skeleton R' = skeleton ?T2" "percentages_up_to_date R'"
      using up by auto
    from structure_of_cong [OF R'(2)] st have "structure_of R' = structure_of T" by simp
    with False T1(1) R' show ?thesis
      by (simp add: ItemContainer_fillFromVariantMap_def bindE_def Let_def)
  qed
  then show ?thesis by auto
qed

theorem fillFromVariantMap_toVariantMap_round_trip_witness:
  "Item_isContainer S2_resized \<and> guests_restorable Map.empty S2_resized \<and> numItems S2_resized < 10
   \<and> map_sum id structure_of
       (ItemContainer_fillFromVariantMap 10 (new_ItemContainer 100 (Some 0)) 101
          (Item_toVariantMap S2_resized) Map.empty) = Inr (structure_of S2_resized)
   \<and> map_sum id percentages_up_to_date
       (ItemContainer_fillFromVariantMap 10 (new_ItemContainer 100 (Some 0)) 101
          (Item_toVariantMap S2_resized) Map.empty) = Inr True"
proof -
  have a: "Item_isContainer S2_resized" by code_simp
  have b: "guests_restorable Map.empty S2_resized" by code_simp
  have c: "numItems S2_resized < 10" by code_simp
  from fillFromVariantMap_toVariantMap_round_trip [OF a b c, of 100 "Some 0" 101] a b c
  show ?thesis by simp
qed


section \<open>The separator invariant\<close>

subsection \<open>requiredSeparatorPositions computes the positions of the specification\<close>

lemma numVisibleChildren_filter:
  "ItemContainer_numVisibleChildren this
     = int (length (filter (\<lambda>child. Item_isVisible child False) (m_children this)))"
proof -
  have "fold (\<lambda>child num. if Item_isVisible child False then num + 1 else num) cs n
          = n + int (length (filter (\<lambda>child. Item_isVisible child False) cs))" for cs and n :: int
    by (induction cs arbitrary: n) simp_all
  then show ?thesis by (simp add: ItemContainer_numVisibleChildren_def)
qed

lemma fold_positions:
  "length acc \<le> n \<Longrightarrow>
   fold (\<lambda>child positions.
           if length positions = n then positions
           else if vis child then positions @ [h child] else positions) cs acc
     = acc @ take (n - length acc) (map h (filter vis cs))"
proof (induction cs arbitrary: acc)
  case Nil
  then show ?case by simp
next
  case (Cons c cs)
  show ?case
  proof (cases "length acc = n")
    case True
    then have "fold (\<lambda>child positions.
           if length positions = n then positions
           else if vis child then positions @ [h child] else positions) cs acc = acc"
      using Cons.IH [of acc] by simp
    with True show ?thesis by simp
  next
    case False
    with Cons.prems have lt: "length acc < n" by simp
    show ?thesis
    proof (cases "vis c")
      case True
      from lt have "n - length acc = Suc (n - Suc (length acc))" by simp
      with True False lt Cons.IH [of "acc @ [h c]"] show ?thesis by simp
    next
      case False
      with \<open>length acc \<noteq> n\<close> Cons.IH [of acc] Cons.prems show ?thesis by simp
    qed
  qed
qed

lemma requiredSeparatorPositions_expected:
  "ItemContainer_requiredSeparatorPositions R p = expected_separator_positions R p"
proof (cases "item_at R p")
  case None
  then show ?thesis
    by (simp add: ItemContainer_requiredSeparatorPositions_def expected_separator_positions_def)
next
  case (Some this)
  let ?vis = "\<lambda>child. Item_isVisible child False"
  let ?h = "\<lambda>child. the (Item_mapToRoot_along R p
                               (SizingInfo_edge (Item_sizingInfo child) (ItemContainer_orientation this) + 1)
                               (ItemContainer_orientation this))"
  let ?n = "nat (max 0 (ItemContainer_numVisibleChildren this - 1))"
  have n: "?n = length (filter ?vis (m_children this)) - 1"
    by (simp add: numVisibleChildren_filter)
  have "ItemContainer_requiredSeparatorPositions R p
          = fold (\<lambda>child positions.
                    if length positions = ?n then positions
                    else if ?vis child then positions @ [?h child] else positions)
                 (m_children this) []"
    using Some by (simp add: ItemContainer_requiredSeparatorPositions_def Let_def cong: if_cong)
  also have "\<dots> = [] @ take (?n - length ([] :: int list)) (map ?h (filter ?vis (m_children this)))"
    by (rule fold_positions) simp
  also have "\<dots> = map ?h (butlast (filter ?vis (m_children this)))"
    by (simp only: n) (simp add: butlast_conv_take take_map)
  finally show ?thesis using Some by (simp add: expected_separator_positions_def)
qed

lemma length_expected_separator_positions:
  "item_at R p = Some this \<Longrightarrow>
   int (length (expected_separator_positions R p)) = max 0 (ItemContainer_numVisibleChildren this - 1)"
  by (simp add: expected_separator_positions_def numVisibleChildren_filter)

lemma skeleton_mapToRoot: "Item_mapToRoot (skeleton R) p x = Item_mapToRoot R p x"
proof (induction R p x rule: Item_mapToRoot.induct)
  case (1 R p x)
  show ?case
  proof (cases "item_at R p")
    case None
    then show ?thesis
      by (subst Item_mapToRoot.simps, subst (2) Item_mapToRoot.simps) (simp add: skeleton_item_at)
  next
    case (Some this)
    show ?thesis
    proof (cases "p = []")
      case True
      with Some show ?thesis
        by (subst Item_mapToRoot.simps, subst (2) Item_mapToRoot.simps) (simp add: skeleton_item_at)
    next
      case False
      from "1.IH" [OF Some False]
      have "Item_mapToRoot (skeleton R) (butlast p) (Item_pos this)
              = Item_mapToRoot R (butlast p) (Item_pos this)" .
      with Some False show ?thesis
        by (subst Item_mapToRoot.simps, subst (2) Item_mapToRoot.simps)
           (simp add: skeleton_item_at skeleton_views)
    qed
  qed
qed

lemma skeleton_expected_separator_positions:
  "expected_separator_positions (skeleton R) p = expected_separator_positions R p"
proof (cases "item_at R p")
  case None
  then show ?thesis by (simp add: expected_separator_positions_def skeleton_item_at)
next
  case (Some this)
  have vis: "filter (\<lambda>child. Item_isVisible child False) (map skeleton cs)
          = map skeleton (filter (\<lambda>child. Item_isVisible child False) cs)" for cs
    by (simp add: filter_map comp_def skeleton_isVisible)
  from Some show ?thesis
    by (simp add: expected_separator_positions_def skeleton_item_at skeleton_fields vis map_butlast
        comp_def Item_mapToRoot_along_def skeleton_mapToRoot skeleton_views Item_sizingInfo_def
        SizingInfo_edge_def cong: if_cong)
qed

lemma expected_separator_positions_cong:
  "skeleton R' = skeleton R \<Longrightarrow> expected_separator_positions R' p = expected_separator_positions R p"
  by (metis skeleton_expected_separator_positions)

lemma skeleton_numVisibleChildren:
  "ItemContainer_numVisibleChildren (skeleton this) = ItemContainer_numVisibleChildren this"
  by (simp add: numVisibleChildren_filter skeleton_fields filter_map comp_def skeleton_isVisible)

lemma item_at_update_at_same:
  "item_at R p = Some this \<Longrightarrow> item_at (update_at R p g) p = Some (g this)"
proof (induction p arbitrary: R)
  case Nil
  then show ?case by simp
next
  case (Cons i p)
  from Cons.prems have i: "i < length (m_children R)" and at: "item_at (m_children R ! i) p = Some this"
    by (simp_all split: if_splits)
  from i Cons.IH [OF at] show ?case by (cases R) simp_all
qed

subsection \<open>updateSeparators puts the separators of its container in place\<close>

lemma update_at_frame:
  "take (length p) q \<noteq> p \<Longrightarrow> separators_at (update_at R p g) q = separators_at R q"
proof (induction p arbitrary: R q)
  case Nil
  then show ?case by simp
next
  case (Cons i p)
  show ?case
  proof (cases "i < length (m_children R)")
    case False
    then show ?thesis by simp
  next
    case True
    then obtain f c children where R: "R = ItemContainer f c children" by (cases R) simp_all
    show ?thesis
    proof (cases q)
      case Nil
      with R True show ?thesis by (simp add: separators_at_def)
    next
      case (Cons j q')
      show ?thesis
      proof (cases "j = i")
        case True
        with Cons Cons.prems have "take (length p) q' \<noteq> p" by simp
        from Cons.IH [OF this, of "children ! i"] True Cons R \<open>i < length (m_children R)\<close>
        show ?thesis by (simp add: separators_at_def)
      next
        case False
        with Cons R True show ?thesis by (simp add: separators_at_def)
      qed
    qed
  qed
qed

lemma updateSeparators_frame:
  "take (length p) q \<noteq> p \<Longrightarrow> separators_at (ItemContainer_updateSeparators R p) q = separators_at R q"
proof (rule updateSeparators_cases [of R p])
  assume "ItemContainer_updateSeparators R p = R"
  then show ?thesis by simp
next
  fix this s
  assume "take (length p) q \<noteq> p"
    and "ItemContainer_updateSeparators R p
         = update_at R p (\<lambda>this. ItemContainer_updateChildPercentages
                                    (map_cfields (\<lambda>c. c\<lparr>m_separators := s\<rparr>) this))"
  then show ?thesis by (simp add: update_at_frame)
qed

lemma updateSeparators_hosted:
  assumes "item_at R p = Some this" "Item_hostWidget this \<noteq> None"
  shows "\<exists>s. map Separator_position s = ItemContainer_requiredSeparatorPositions R p
           \<and> ItemContainer_updateSeparators R p
               = update_at R p (\<lambda>this. ItemContainer_updateChildPercentages
                                          (map_cfields (\<lambda>c. c\<lparr>m_separators := s\<rparr>) this))"
proof -
  from assms(2) have hn: "(Item_hostWidget this = None) = False" by simp
  let ?s = "map (\<lambda>position. \<lparr>Separator_position = position,
              Separator_pos2 = (if ItemContainer_isVertical this
                                then point_x (the (Item_mapToRoot R p (QPoint 0 0)))
                                else point_y (the (Item_mapToRoot R p (QPoint 0 0)))),
              Separator_length = ItemContainer_oppositeLength this\<rparr>)
            (ItemContainer_requiredSeparatorPositions R p)"
  have "map Separator_position ?s = ItemContainer_requiredSeparatorPositions R p"
    by (simp add: comp_def)
  moreover have "ItemContainer_updateSeparators R p
               = update_at R p (\<lambda>this. ItemContainer_updateChildPercentages
                                          (map_cfields (\<lambda>c. c\<lparr>m_separators := ?s\<rparr>) this))"
    using assms(1) by (simp add: ItemContainer_updateSeparators_def Let_def hn split del: if_split)
  ultimately show ?thesis by blast
qed

lemma skeleton_eq_numVisibleChildren:
  "skeleton a = skeleton b \<Longrightarrow> ItemContainer_numVisibleChildren a = ItemContainer_numVisibleChildren b"
  by (metis skeleton_numVisibleChildren)

lemma updateSeparators_in_place:
  assumes "item_at R p = Some this" "Item_hostWidget this \<noteq> None"
  shows "separators_in_place (ItemContainer_updateSeparators R p) p"
proof -
  from updateSeparators_hosted [OF assms] obtain s where
    s: "map Separator_position s = ItemContainer_requiredSeparatorPositions R p"
    and R': "ItemContainer_updateSeparators R p
               = update_at R p (\<lambda>this. ItemContainer_updateChildPercentages
                                          (map_cfields (\<lambda>c. c\<lparr>m_separators := s\<rparr>) this))"
    by blast
  let ?R' = "ItemContainer_updateSeparators R p"
  let ?this' = "ItemContainer_updateChildPercentages (map_cfields (\<lambda>c. c\<lparr>m_separators := s\<rparr>) this)"
  have at': "item_at ?R' p = Some ?this'"
    unfolding R' by (rule item_at_update_at_same [OF assms(1)])
  have sk: "skeleton ?R' = skeleton R" by (rule skeleton_updateSeparators)
  have sk_this: "skeleton ?this' = skeleton this"
    by (simp add: skeleton_updateChildPercentages skeleton_map_cfields_separators)
  have expected: "expected_separator_positions ?R' p = expected_separator_positions R p"
    by (rule expected_separator_positions_cong [OF sk])
  have positions: "map Separator_position s = expected_separator_positions R p"
    using s by (simp add: requiredSeparatorPositions_expected)
  have nv: "ItemContainer_numVisibleChildren ?this' = ItemContainer_numVisibleChildren this"
    by (rule skeleton_eq_numVisibleChildren [OF sk_this])
  have len: "int (length (expected_separator_positions R p))
               = max 0 (ItemContainer_numVisibleChildren this - 1)"
    by (rule length_expected_separator_positions [OF assms(1)])
  show ?thesis
  proof (cases this)
    case (Item f)
    with positions assms(1) have "expected_separator_positions R p = []"
      by (simp add: expected_separator_positions_def)
    with Item at' expected len show ?thesis
      by (simp add: separators_in_place_def updateChildPercentages_Item separator_positions_def
          container_fields_default_def)
  next
    case (ItemContainer f c children)
    then have "m_separators (cfields ?this') = s"
      by (simp add: updateChildPercentages_fields)
    with at' expected len positions nv show ?thesis
      by (simp add: separators_in_place_def separator_positions_def)
         (metis length_map)
  qed
qed

lemma separators_in_place_cong:
  assumes "skeleton R' = skeleton R" "separators_at R' q = separators_at R q"
  shows "separators_in_place R' q = separators_in_place R q"
proof (cases "item_at R q")
  case None
  with assms(2) have "item_at R' q = None" by (simp add: separators_at_def)
  with None show ?thesis by (simp add: separators_in_place_def)
next
  case (Some this)
  from skeleton_eq_item_at [OF assms(1) Some] obtain this' where
    this': "item_at R' q = Some this'" "skeleton this' = skeleton this" by blast
  from assms(2) Some this' have "m_separators (cfields this') = m_separators (cfields this)"
    by (simp add: separators_at_def)
  with Some this' skeleton_eq_numVisibleChildren [OF this'(2)]
    expected_separator_positions_cong [OF assms(1), of q]
  show ?thesis by (simp add: separators_in_place_def separator_positions_def)
qed

lemma skeleton_visibleChildIndices:
  "visibleChildIndices (skeleton this) b = visibleChildIndices this b"
  unfolding visibleChildIndices_def
  by (rule filter_cong) (simp_all add: skeleton_fields Let_def skeleton_isVisible skeleton_views)

lemma skeleton_reaches: "reaches (skeleton this) r = reaches this r"
proof (induction r arbitrary: this)
  case Nil
  show ?case by simp
next
  case (Cons i r)
  have "i < length (m_children this)" if "i \<in> set (visibleChildIndices this False)"
    using that by (simp add: visibleChildIndices_def)
  then show ?case
    by (auto simp: skeleton_visibleChildIndices skeleton_fields Cons.IH)
qed

lemma reaches_cong: "skeleton a = skeleton b \<Longrightarrow> reaches a r = reaches b r"
  by (metis skeleton_reaches)

lemma skeleton_eq_hostWidget: "skeleton a = skeleton b \<Longrightarrow> Item_hostWidget a = Item_hostWidget b"
  by (metis skeleton_views(7))

lemma skeleton_eq_isContainer: "skeleton a = skeleton b \<Longrightarrow> Item_isContainer a = Item_isContainer b"
  by (metis skeleton_fields(11))

lemma skeleton_eq_visibleChildIndices:
  "skeleton a = skeleton b \<Longrightarrow> visibleChildIndices a x = visibleChildIndices b x"
  by (metis skeleton_visibleChildIndices)

lemma foldE_invariant_prefix_aux:
  assumes "\<And>ys x zs s. pre @ xs = ys @ x # zs \<Longrightarrow> I ys s \<Longrightarrow> \<exists>s'. g x s = Inr s' \<and> I (ys @ [x]) s'"
    and "I pre s"
  shows "\<exists>s'. foldE g xs s = Inr s' \<and> I (pre @ xs) s'"
  using assms
proof (induction xs arbitrary: pre s)
  case Nil
  then show ?case by simp
next
  case (Cons x xs)
  from Cons.prems(1) [of pre x xs s] Cons.prems(2)
  obtain s1 where s1: "g x s = Inr s1" "I (pre @ [x]) s1" by auto
  have "\<exists>s'. foldE g xs s1 = Inr s' \<and> I ((pre @ [x]) @ xs) s'"
  proof (rule Cons.IH)
    show "I (pre @ [x]) s1" by (rule s1(2))
  next
    fix ys y zs s
    assume "(pre @ [x]) @ xs = ys @ y # zs" "I ys s"
    then show "\<exists>s'. g y s = Inr s' \<and> I (ys @ [y]) s'"
      using Cons.prems(1) [of ys y zs s] by simp
  qed
  with s1(1) show ?case by simp
qed

lemma foldE_invariant_prefix:
  assumes "\<And>ys x zs s. xs = ys @ x # zs \<Longrightarrow> I ys s \<Longrightarrow> \<exists>s'. g x s = Inr s' \<and> I (ys @ [x]) s'"
    and "I [] s"
  shows "\<exists>s'. foldE g xs s = Inr s' \<and> I xs s'"
  using foldE_invariant_prefix_aux [of "[]" xs I g s] assms by simp

subsection \<open>updateSeparators\_recursive puts the separators of every container it reaches in place\<close>

lemma take_snoc_neq: "take (length p) q \<noteq> p \<Longrightarrow> take (length (p @ [j])) q \<noteq> p @ [j]"
proof
  assume a: "take (length p) q \<noteq> p" and b: "take (length (p @ [j])) q = p @ [j]"
  from b have "take (length p) (take (length (p @ [j])) q) = take (length p) (p @ [j])" by simp
  then have "take (length p) q = p" by (simp add: min_def)
  with a show False by simp
qed

lemma distinct_visibleChildIndices: "distinct (visibleChildIndices this b)"
  by (simp add: visibleChildIndices_def)

lemma updateSeparators_recursive_in_place:
  assumes "item_at R p = Some this" "numItems this < fuel"
  shows "\<exists>R'. ItemContainer_updateSeparators_recursive fuel R p = Inr R'
           \<and> skeleton R' = skeleton R
           \<and> (\<forall>q. take (length p) q \<noteq> p \<longrightarrow> separators_at R' q = separators_at R q)
           \<and> (\<forall>r sub. reaches this r \<longrightarrow> item_at R (p @ r) = Some sub \<longrightarrow> Item_hostWidget sub \<noteq> None
                  \<longrightarrow> separators_in_place R' (p @ r))"
  using assms
proof (induction fuel arbitrary: R p this)
  case 0
  then show ?case by simp
next
  case (Suc fuel)
  let ?R1 = "ItemContainer_updateSeparators R p"
  have sk1: "skeleton ?R1 = skeleton R" by (rule skeleton_updateSeparators)
  have fr1: "separators_at ?R1 q = separators_at R q" if "take (length p) q \<noteq> p" for q
    by (rule updateSeparators_frame [OF that])
  from skeleton_eq_item_at [OF sk1 Suc.prems(1)]
  obtain this1 where this1: "item_at ?R1 p = Some this1" "skeleton this1 = skeleton this"
    by blast
  have indices: "visibleChildIndices this1 False = visibleChildIndices this False"
    by (rule skeleton_eq_visibleChildIndices [OF this1(2)])
  have len: "length (m_children this1) = length (m_children this)"
    by (rule skeleton_eq_length_children [OF this1(2)])
  have kind: "Item_isContainer (m_children this1 ! i) = Item_isContainer (m_children this ! i)"
    if "i < length (m_children this)" for i
  proof -
    from this1(2) have "map skeleton (m_children this1) = map skeleton (m_children this)"
      by (metis skeleton_fields(10))
    then have "skeleton (m_children this1 ! i) = skeleton (m_children this ! i)"
      using that len by (metis nth_map)
    then show ?thesis by (rule skeleton_eq_isContainer)
  qed
  define I where "I = (\<lambda>ys R2.
      skeleton R2 = skeleton R
      \<and> (\<forall>q. take (length p) q \<noteq> p \<longrightarrow> separators_at R2 q = separators_at R q)
      \<and> separators_at R2 p = separators_at ?R1 p
      \<and> (\<forall>i\<in>set ys. \<forall>r sub. Item_isContainer (m_children this ! i) \<longrightarrow> reaches (m_children this ! i) r
             \<longrightarrow> item_at R (p @ i # r) = Some sub \<longrightarrow> Item_hostWidget sub \<noteq> None
             \<longrightarrow> separators_in_place R2 (p @ i # r)))"
  let ?g = "\<lambda>i rootItem2.
              if Item_isContainer (m_children this1 ! i)
              then ItemContainer_updateSeparators_recursive fuel rootItem2 (p @ [i])
              else Inr rootItem2"
  have "\<exists>R'. foldE ?g (visibleChildIndices this1 False) ?R1 = Inr R' \<and> I (visibleChildIndices this1 False) R'"
  proof (rule foldE_invariant_prefix [where I = I])
    show "I [] ?R1" using sk1 fr1 by (simp add: I_def)
  next
    fix ys j zs R2
    assume xs_split: "visibleChildIndices this1 False = ys @ j # zs" and inv: "I ys R2"
    from inv have sk2: "skeleton R2 = skeleton R"
      and fr2: "\<And>q. take (length p) q \<noteq> p \<Longrightarrow> separators_at R2 q = separators_at R q"
      and at_p: "separators_at R2 p = separators_at ?R1 p"
      and processed: "\<And>i r sub. i \<in> set ys \<Longrightarrow> Item_isContainer (m_children this ! i) \<Longrightarrow>
                   reaches (m_children this ! i) r \<Longrightarrow> item_at R (p @ i # r) = Some sub \<Longrightarrow>
                   Item_hostWidget sub \<noteq> None \<Longrightarrow> separators_in_place R2 (p @ i # r)"
      by (simp_all add: I_def)
    from xs_split have "j \<in> set (visibleChildIndices this1 False)" by simp
    then have j: "j < length (m_children this)" using len by (simp add: visibleChildIndices_def)
    from xs_split distinct_visibleChildIndices [of this1 False] have j_new: "j \<notin> set ys" by simp
    show "\<exists>s'. ?g j R2 = Inr s' \<and> I (ys @ [j]) s'"
    proof (cases "Item_isContainer (m_children this ! j)")
      case False
      with kind [OF j] have "?g j R2 = Inr R2" by simp
      moreover from False inv have "I (ys @ [j]) R2" by (auto simp: I_def)
      ultimately show ?thesis by blast
    next
      case True
      from skeleton_eq_item_at [OF sk2 item_at_snoc [OF Suc.prems(1) j]]
      obtain child where child: "item_at R2 (p @ [j]) = Some child"
        "skeleton child = skeleton (m_children this ! j)"
        by blast
      have "numItems child = numItems (m_children this ! j)"
        by (rule skeleton_eq_numItems [OF child(2)])
      also have "\<dots> < numItems this" by (rule numItems_child [OF j])
      finally have "numItems child < fuel" using Suc.prems(2) by simp
      from Suc.IH [OF child(1) this]
      obtain R3 where R3: "ItemContainer_updateSeparators_recursive fuel R2 (p @ [j]) = Inr R3"
        "skeleton R3 = skeleton R2"
        "\<And>q. take (length (p @ [j])) q \<noteq> p @ [j] \<Longrightarrow> separators_at R3 q = separators_at R2 q"
        "\<And>r sub. reaches child r \<Longrightarrow> item_at R2 ((p @ [j]) @ r) = Some sub \<Longrightarrow>
           Item_hostWidget sub \<noteq> None \<Longrightarrow> separators_in_place R3 ((p @ [j]) @ r)"
        by blast
      have run: "?g j R2 = Inr R3" using True kind [OF j] R3(1) by simp
      have "I (ys @ [j]) R3"
        unfolding I_def
      proof (intro conjI allI impI ballI)
        show "skeleton R3 = skeleton R" using R3(2) sk2 by simp
      next
        fix q assume q: "take (length p) q \<noteq> p"
        from R3(3) [OF take_snoc_neq [OF q]] fr2 [OF q]
        show "separators_at R3 q = separators_at R q" by simp
      next
        have "take (length (p @ [j])) p \<noteq> p @ [j]" by simp
        from R3(3) [OF this] at_p show "separators_at R3 p = separators_at ?R1 p" by simp
      next
        fix i r sub
        assume i: "i \<in> set (ys @ [j])" and c: "Item_isContainer (m_children this ! i)"
          and reach: "reaches (m_children this ! i) r" and at: "item_at R (p @ i # r) = Some sub"
          and host: "Item_hostWidget sub \<noteq> None"
        show "separators_in_place R3 (p @ i # r)"
        proof (cases "i = j")
          case True
          from reach True have "reaches child r" using reaches_cong [OF child(2)] by simp
          moreover from skeleton_eq_item_at [OF sk2 at] obtain sub2 where
            sub2: "item_at R2 (p @ i # r) = Some sub2" "skeleton sub2 = skeleton sub" by blast
          from sub2(1) True have "item_at R2 ((p @ [j]) @ r) = Some sub2" by simp
          moreover from skeleton_eq_hostWidget [OF sub2(2)] host have "Item_hostWidget sub2 \<noteq> None"
            by simp
          ultimately have "separators_in_place R3 ((p @ [j]) @ r)" by (rule R3(4))
          with True show ?thesis by simp
        next
          case False
          with i have "i \<in> set ys" by simp
          from processed [OF this c reach at host] have old: "separators_in_place R2 (p @ i # r)" .
          from False have "take (length (p @ [j])) (p @ i # r) \<noteq> p @ [j]" by simp
          from R3(3) [OF this] have "separators_at R3 (p @ i # r) = separators_at R2 (p @ i # r)" .
          from separators_in_place_cong [OF R3(2) this] old show ?thesis by simp
        qed
      qed
      with run show ?thesis by blast
    qed
  qed
  then obtain R' where R': "foldE ?g (visibleChildIndices this1 False) ?R1 = Inr R'"
    "I (visibleChildIndices this1 False) R'"
    by blast
  have unfold: "ItemContainer_updateSeparators_recursive (Suc fuel) R p
                   = foldE ?g (visibleChildIndices this1 False) ?R1"
    by (subst ItemContainer_updateSeparators_recursive.simps)
       (simp add: Let_def this1(1) cong: if_cong)
  from R'(2) have sk': "skeleton R' = skeleton R"
    and fr': "\<And>q. take (length p) q \<noteq> p \<Longrightarrow> separators_at R' q = separators_at R q"
    and at_p': "separators_at R' p = separators_at ?R1 p"
    and processed': "\<And>i r sub. i \<in> set (visibleChildIndices this False) \<Longrightarrow>
                   Item_isContainer (m_children this ! i) \<Longrightarrow>
                   reaches (m_children this ! i) r \<Longrightarrow> item_at R (p @ i # r) = Some sub \<Longrightarrow>
                   Item_hostWidget sub \<noteq> None \<Longrightarrow> separators_in_place R' (p @ i # r)"
    by (simp_all add: I_def indices)
  have "separators_in_place R' (p @ r)"
    if reach: "reaches this r" and at: "item_at R (p @ r) = Some sub" and host: "Item_hostWidget sub \<noteq> None"
    for r sub
  proof (cases r)
    case Nil
    with at Suc.prems(1) host have "Item_hostWidget this \<noteq> None" by simp
    from updateSeparators_in_place [OF Suc.prems(1) this]
    have "separators_in_place ?R1 p" .
    moreover have "skeleton R' = skeleton ?R1" using sk' sk1 by simp
    ultimately have "separators_in_place R' p"
      using separators_in_place_cong [OF _ at_p'] by simp
    with Nil show ?thesis by simp
  next
    case (Cons i r')
    with reach have "i \<in> set (visibleChildIndices this False)" "Item_isContainer (m_children this ! i)"
      "reaches (m_children this ! i) r'"
      by simp_all
    from processed' [OF this] at host Cons show ?thesis by simp
  qed
  with sk' fr' R'(1) unfold show ?case by auto
qed

text \<open>
  \<^verbatim>\<open>updateSeparators\<close> returns at once in a container without host widget.  Two insertions
  into a root without host widget (the root that \<^verbatim>\<open>suggestedDropRect\<close> builds to try an
  insertion on, which \<^verbatim>\<open>checkSanity\<close> does not examine) return a root with two visible
  children and no separator.
\<close>

lemma insertItem_hostless_no_separators:
  "bindE (ItemContainer_insertItem 10 hostless_root [] (new_Item 1 None) None Location_OnLeft
            DefaultSizeMode_Fair AddingOption_None 100)
     (\<lambda>r. ItemContainer_insertItem 10 r [] (new_Item 2 None) None Location_OnRight
             DefaultSizeMode_Fair AddingOption_None 101) = Inr hostless_two
   \<and> ItemContainer_numVisibleChildren hostless_two = 2
   \<and> m_separators (cfields hostless_two) = []
   \<and> separators_in_place hostless_two [] = False"
  by code_simp

text \<open>
  The postcondition of \<^verbatim>\<open>updateSeparators_recursive\<close>, the step by which \<^verbatim>\<open>positionItems\<close>,
  \<^verbatim>\<open>removeItem\<close>, \<^verbatim>\<open>restoreChild\<close> and \<^verbatim>\<open>insertItem\<close> re-derive the separators.  Called on
  the root it returns, given fuel for more calls than the tree has items, and then every
  container that has a host widget and is reached from the root through visible children
  has exactly \<^verbatim>\<open>max(0, visible_count - 1)\<close> separators, and separator \<open>i\<close> is positioned at
  the trailing edge plus one of visible child \<open>i\<close> along the container's orientation, in
  root coordinates.  This is the separator invariant of the specification (I6) at the
  moment the step returns; that every mutation leaves every container in that state is
  not shown here.
\<close>

lemma updateSeparators_recursive_separators_in_place:
  assumes "numItems rootItem < fuel" and "reaches rootItem path"
    and "item_at rootItem path = Some this" and "Item_hostWidget this \<noteq> None"
  shows "map_sum id (\<lambda>rootItem'. separators_in_place rootItem' path)
           (ItemContainer_updateSeparators_recursive fuel rootItem []) = Inr True"
proof -
  from updateSeparators_recursive_in_place [of rootItem "[]" rootItem fuel] assms(1)
  obtain R' where R': "ItemContainer_updateSeparators_recursive fuel rootItem [] = Inr R'"
    "\<And>r sub. reaches rootItem r \<Longrightarrow> item_at rootItem ([] @ r) = Some sub \<Longrightarrow>
       Item_hostWidget sub \<noteq> None \<Longrightarrow> separators_in_place R' ([] @ r)"
    by auto
  from R'(2) [of path this] assms(2,3,4) have "separators_in_place R' path" by simp
  with R'(1) show ?thesis by simp
qed

lemma updateSeparators_recursive_separators_in_place_nested:
  "numItems (skeleton nested_root) < 10 \<and> reaches (skeleton nested_root) [1]
   \<and> item_at (skeleton nested_root) [1] = Some (skeleton (m_children nested_root ! 1))
   \<and> Item_hostWidget (skeleton (m_children nested_root ! 1)) \<noteq> None
   \<and> map_sum id (\<lambda>rootItem'. separators_in_place rootItem' [1])
        (ItemContainer_updateSeparators_recursive 10 (skeleton nested_root) []) = Inr True"
proof -
  have a: "numItems (skeleton nested_root) < 10" by code_simp
  have b: "reaches (skeleton nested_root) [1]" by code_simp
  have c: "item_at (skeleton nested_root) [1] = Some (skeleton (m_children nested_root ! 1))"
    by code_simp
  have d: "Item_hostWidget (skeleton (m_children nested_root ! 1)) \<noteq> None" by code_simp
  from updateSeparators_recursive_separators_in_place [OF a b c d] a b c d
  show ?thesis by simp
qed

text \<open>
  The six insertions of the scenario above, under a host widget: the separators of the
  five nested containers are in place.
\<close>

lemma six_insertions_separators_in_place:
  "map_sum id (\<lambda>r. list_all (separators_in_place r) [[], [1], [1, 0], [1, 0, 0], [1, 0, 0, 0]])
     six_insertions = Inr True"
  by code_simp


end
